theory Spec2Isabelle
  imports Main "HOL-Library.Char_ord" "HOL-Library.List_Lexorder" "HOL-Library.Word"
begin

section \<open>Byte strings and errors\<close>

text \<open>
  Go's \<^verbatim>\<open>[]byte\<close> and \<^verbatim>\<open>string\<close> are both sequences of 8-bit bytes; both are
  modelled by lists of \<^typ>\<open>char\<close> (an 8-bit character in HOL). A byte slice that
  may be \<^verbatim>\<open>nil\<close> (which \<^verbatim>\<open>encoding/json\<close> treats differently from an empty
  slice) is a \<open>bytes option\<close>, with \<open>None\<close> for \<^verbatim>\<open>nil\<close>.
\<close>

type_synonym bytes = "char list"
type_synonym byteslice = "bytes option"

definition slice_bytes :: "byteslice \<Rightarrow> bytes" where
  "slice_bytes s = (case s of None \<Rightarrow> [] | Some b \<Rightarrow> b)"

text \<open>
  Every \<^verbatim>\<open>fmt.Errorf\<close> of the modelled functions is a constructor; a constructor with
  an \<open>error\<close> argument is a \<^verbatim>\<open>%w\<close> wrapping.
\<close>

datatype error =
    GenerateDilithiumFailed
  | GenerateKyberFailed
  | InvalidPublicKeySize nat nat
  | InvalidPrivateKeySize nat nat
  | UnmarshalPublicKeyFailed
  | UnmarshalPrivateKeyFailed
  | InvalidSignature
  | RandomSeedFailed
  | PublicKeyFieldNotFound
  | Base64DecodeFailed
  | InvalidPublicKeyByteFormatAt nat
  | InvalidPublicKeyFormatGot
  | InvalidPublicKeyFormat
  | InvalidPublicKeyByteFormat
  | FetchPublicKeyFailed
  | GetPublicKeyStatus nat
  | DecodeResponseFailed
  | UnmarshalKeyDataFailed
  | DeserializePublicKeyFailed error
  | GetPublicKeyFailed error
  | MarshalRequestFailed
  | SignatureVerificationFailed error
  | SignKeyExchangeFailed error
  | KeyExchangeRequestFailed
  | KeyExchangeStatus nat
  | DecodeKeyExchangeResponseFailed
  | DecapsulateFailed error

section \<open>pkg/pqc: Dilithium3 signatures (dilithium.go)\<close>

text \<open>
  The package \<^verbatim>\<open>github.com/cloudflare/circl/sign/dilithium/mode3\<close> is an external
  library, not code of this repository. Its constants and functions are a parameter of
  the model: a record holding the three size constants, key generation (from the state
  of the random reader; \<open>None\<close> when reading fails), \<^verbatim>\<open>SignTo\<close>, \<^verbatim>\<open>Verify\<close>, and
  packing and unpacking of the two key types \<open>'pk\<close> and \<open>'sk\<close>.
\<close>

record ('pk, 'sk) mode3 =
  PublicKeySize :: nat
  PrivateKeySize :: nat
  SignatureSize :: nat
  GenerateKey :: "nat \<Rightarrow> ('pk \<times> 'sk) option"
  SignTo :: "'sk \<Rightarrow> bytes \<Rightarrow> bytes"
  Verify :: "'pk \<Rightarrow> bytes \<Rightarrow> bytes \<Rightarrow> bool"
  PublicKey_Bytes :: "'pk \<Rightarrow> bytes"
  PrivateKey_Bytes :: "'sk \<Rightarrow> bytes"
  PublicKey_UnmarshalBinary :: "bytes \<Rightarrow> 'pk option"
  PrivateKey_UnmarshalBinary :: "bytes \<Rightarrow> 'sk option"

record ('pk, 'sk) DilithiumKeyPair =
  d_PublicKey :: 'pk
  d_PrivateKey :: 'sk

definition GenerateDilithiumKeyPair ::
  "('pk, 'sk) mode3 \<Rightarrow> nat \<Rightarrow> error + ('pk, 'sk) DilithiumKeyPair" where
  "GenerateDilithiumKeyPair L rnd =
     (case GenerateKey L rnd of
        None \<Rightarrow> Inl GenerateDilithiumFailed
      | Some (publicKey, privateKey) \<Rightarrow>
          Inr \<lparr>d_PublicKey = publicKey, d_PrivateKey = privateKey\<rparr>)"

text \<open>
  \<^verbatim>\<open>Sign\<close> allocates a buffer of \<^verbatim>\<open>mode3.SignatureSize\<close> zero bytes and lets
  \<^verbatim>\<open>mode3.SignTo\<close> write into it; its error result is always \<^verbatim>\<open>nil\<close>.
\<close>

definition make_bytes :: "nat \<Rightarrow> bytes" where
  "make_bytes n = replicate n (CHR 0x00)"

definition write_into :: "bytes \<Rightarrow> bytes \<Rightarrow> bytes" where
  "write_into buf out = take (length buf) out @ drop (length out) buf"

definition Sign :: "('pk, 'sk) mode3 \<Rightarrow> ('pk, 'sk) DilithiumKeyPair \<Rightarrow> bytes \<Rightarrow> error + bytes" where
  "Sign L d data =
     (let signature = make_bytes (SignatureSize L)
      in Inr (write_into signature (SignTo L (d_PrivateKey d) data)))"

definition GetPublicKeyBytes :: "('pk, 'sk) mode3 \<Rightarrow> ('pk, 'sk) DilithiumKeyPair \<Rightarrow> bytes" where
  "GetPublicKeyBytes L d = PublicKey_Bytes L (d_PublicKey d)"

definition GetPrivateKeyBytes :: "('pk, 'sk) mode3 \<Rightarrow> ('pk, 'sk) DilithiumKeyPair \<Rightarrow> bytes" where
  "GetPrivateKeyBytes L d = PrivateKey_Bytes L (d_PrivateKey d)"

text \<open>The result is Go's \<^verbatim>\<open>error\<close>: \<open>None\<close> is \<^verbatim>\<open>nil\<close>, the signature verified.\<close>

definition VerifyDilithiumSignature ::
  "('pk, 'sk) mode3 \<Rightarrow> bytes \<Rightarrow> bytes \<Rightarrow> bytes \<Rightarrow> error option" where
  "VerifyDilithiumSignature L publicKeyBytes data signature =
     (if length publicKeyBytes \<noteq> PublicKeySize L
      then Some (InvalidPublicKeySize (PublicKeySize L) (length publicKeyBytes))
      else case PublicKey_UnmarshalBinary L publicKeyBytes of
             None \<Rightarrow> Some UnmarshalPublicKeyFailed
           | Some publicKey \<Rightarrow>
               if \<not> Verify L publicKey data signature then Some InvalidSignature
               else None)"

definition LoadDilithiumKeyPair ::
  "('pk, 'sk) mode3 \<Rightarrow> bytes \<Rightarrow> bytes \<Rightarrow> error + ('pk, 'sk) DilithiumKeyPair" where
  "LoadDilithiumKeyPair L publicKeyBytes privateKeyBytes =
     (if length publicKeyBytes \<noteq> PublicKeySize L
      then Inl (InvalidPublicKeySize (PublicKeySize L) (length publicKeyBytes))
      else if length privateKeyBytes \<noteq> PrivateKeySize L
      then Inl (InvalidPrivateKeySize (PrivateKeySize L) (length privateKeyBytes))
      else case PublicKey_UnmarshalBinary L publicKeyBytes of
             None \<Rightarrow> Inl UnmarshalPublicKeyFailed
           | Some publicKey \<Rightarrow>
               (case PrivateKey_UnmarshalBinary L privateKeyBytes of
                  None \<Rightarrow> Inl UnmarshalPrivateKeyFailed
                | Some privateKey \<Rightarrow>
                    Inr \<lparr>d_PublicKey = publicKey, d_PrivateKey = privateKey\<rparr>))"

text \<open>
  What the library documents and the code relies on: packed keys and signatures have
  the fixed sizes, unpacking inverts packing, and a signature made with the private key
  of a generated pair verifies under the public key of that pair.
\<close>

definition mode3_contract :: "('pk, 'sk) mode3 \<Rightarrow> bool" where
  "mode3_contract L \<longleftrightarrow>
     (\<forall>pk. length (PublicKey_Bytes L pk) = PublicKeySize L
           \<and> PublicKey_UnmarshalBinary L (PublicKey_Bytes L pk) = Some pk)
   \<and> (\<forall>sk. length (PrivateKey_Bytes L sk) = PrivateKeySize L
           \<and> PrivateKey_UnmarshalBinary L (PrivateKey_Bytes L sk) = Some sk)
   \<and> (\<forall>sk m. length (SignTo L sk m) = SignatureSize L)
   \<and> (\<forall>rnd pk sk m. GenerateKey L rnd = Some (pk, sk) \<longrightarrow> Verify L pk m (SignTo L sk m))"

text \<open>
  A stand-in for the library, on which the code can be run on concrete inputs. A key is
  one byte, packed by repeating it to the size of a Dilithium3 key; the pair generated
  from \<open>rnd\<close> has the byte \<open>rnd mod 256\<close> in both halves; a signature repeats a keyed
  checksum of the message. It has the sizes of Dilithium3 and meets \<open>mode3_contract\<close>;
  it is not a secure scheme.
\<close>

definition checksum :: "char \<Rightarrow> bytes \<Rightarrow> char" where
  "checksum k m = char_of (of_char k + sum_list (map of_char m) :: nat)"

definition key_byte :: "bytes \<Rightarrow> char" where
  "key_byte k = (case k of [] \<Rightarrow> CHR 0x00 | c # _ \<Rightarrow> c)"

definition test_mode3 :: "(char, char) mode3" where
  "test_mode3 =
     \<lparr>PublicKeySize = 1952, PrivateKeySize = 4000, SignatureSize = 3293,
      GenerateKey = (\<lambda>rnd. Some (char_of rnd, char_of rnd)),
      SignTo = (\<lambda>sk m. replicate 3293 (checksum sk m)),
      Verify = (\<lambda>pk m s. s = replicate 3293 (checksum pk m)),
      PublicKey_Bytes = (\<lambda>pk. replicate 1952 pk),
      PrivateKey_Bytes = (\<lambda>sk. replicate 4000 sk),
      PublicKey_UnmarshalBinary = (\<lambda>b. if length b = 1952 then Some (key_byte b) else None),
      PrivateKey_UnmarshalBinary = (\<lambda>b. if length b = 4000 then Some (key_byte b) else None)\<rparr>"

section \<open>pkg/pqc: Kyber768 key encapsulation (kyber.go)\<close>

text \<open>
  \<^verbatim>\<open>github.com/cloudflare/circl/kem/kyber/kyber768\<close> is external as well and a
  parameter of the model. \<^verbatim>\<open>DecapsulateTo\<close> panics on a ciphertext it does not
  accept: its result is \<open>None\<close> then. The sizes 1184, 2400, 1088 and 32 are written
  out in kyber.go itself.
\<close>

record ('kpk, 'ksk) kyber768 =
  GenerateKeyPair :: "nat \<Rightarrow> ('kpk \<times> 'ksk) option"
  KemPublicKey_MarshalBinary :: "'kpk \<Rightarrow> bytes"
  KemPrivateKey_MarshalBinary :: "'ksk \<Rightarrow> bytes"
  KemPublicKey_Unpack :: "bytes \<Rightarrow> 'kpk"
  KemPrivateKey_Unpack :: "bytes \<Rightarrow> 'ksk"
  EncapsulateTo :: "'kpk \<Rightarrow> bytes \<Rightarrow> bytes \<times> bytes"
  DecapsulateTo :: "'ksk \<Rightarrow> bytes \<Rightarrow> bytes option"

record ('kpk, 'ksk) KyberKeyPair =
  k_PublicKey :: 'kpk
  k_PrivateKey :: 'ksk

definition GenerateKyberKeyPair ::
  "('kpk, 'ksk) kyber768 \<Rightarrow> nat \<Rightarrow> error + ('kpk, 'ksk) KyberKeyPair" where
  "GenerateKyberKeyPair Q rnd =
     (case GenerateKeyPair Q rnd of
        None \<Rightarrow> Inl GenerateKyberFailed
      | Some (publicKey, privateKey) \<Rightarrow>
          Inr \<lparr>k_PublicKey = publicKey, k_PrivateKey = privateKey\<rparr>)"

definition KyberGetPublicKeyBytes :: "('kpk, 'ksk) kyber768 \<Rightarrow> ('kpk, 'ksk) KyberKeyPair \<Rightarrow> bytes" where
  "KyberGetPublicKeyBytes Q k = KemPublicKey_MarshalBinary Q (k_PublicKey k)"

definition KyberGetPrivateKeyBytes :: "('kpk, 'ksk) kyber768 \<Rightarrow> ('kpk, 'ksk) KyberKeyPair \<Rightarrow> bytes" where
  "KyberGetPrivateKeyBytes Q k = KemPrivateKey_MarshalBinary Q (k_PrivateKey k)"

text \<open>
  \<^verbatim>\<open>rand.Read(seed)\<close> either fills the 32-byte seed or fails: the argument \<open>seed\<close> is
  \<open>None\<close> when it fails. The results are (ciphertext, shared secret).
\<close>

definition Encapsulate ::
  "('kpk, 'ksk) kyber768 \<Rightarrow> ('kpk, 'ksk) KyberKeyPair \<Rightarrow> bytes option \<Rightarrow> error + (bytes \<times> bytes)" where
  "Encapsulate Q k seed =
     (case seed of
        None \<Rightarrow> Inl RandomSeedFailed
      | Some sd \<Rightarrow>
          (let (ct, ss) = EncapsulateTo Q (k_PublicKey k) sd
           in Inr (write_into (make_bytes 1088) ct, write_into (make_bytes 32) ss)))"

text \<open>
  \<^verbatim>\<open>Decapsulate\<close> hands the ciphertext to the library unchecked; its error result is
  always \<^verbatim>\<open>nil\<close>. The outer \<open>None\<close> is the library's panic.
\<close>

definition Decapsulate ::
  "('kpk, 'ksk) kyber768 \<Rightarrow> ('kpk, 'ksk) KyberKeyPair \<Rightarrow> bytes \<Rightarrow> (error + bytes) option" where
  "Decapsulate Q k ciphertext =
     (case DecapsulateTo Q (k_PrivateKey k) ciphertext of
        None \<Rightarrow> None
      | Some ss \<Rightarrow> Some (Inr (write_into (make_bytes 32) ss)))"

definition EncapsulateWithPublicKey ::
  "('kpk, 'ksk) kyber768 \<Rightarrow> bytes \<Rightarrow> bytes option \<Rightarrow> error + (bytes \<times> bytes)" where
  "EncapsulateWithPublicKey Q publicKeyBytes seed =
     (if length publicKeyBytes \<noteq> 1184
      then Inl (InvalidPublicKeySize 1184 (length publicKeyBytes))
      else let publicKey = KemPublicKey_Unpack Q publicKeyBytes
           in case seed of
                None \<Rightarrow> Inl RandomSeedFailed
              | Some sd \<Rightarrow>
                  (let (ct, ss) = EncapsulateTo Q publicKey sd
                   in Inr (write_into (make_bytes 1088) ct, write_into (make_bytes 32) ss)))"

definition LoadKyberKeyPair ::
  "('kpk, 'ksk) kyber768 \<Rightarrow> bytes \<Rightarrow> bytes \<Rightarrow> error + ('kpk, 'ksk) KyberKeyPair" where
  "LoadKyberKeyPair Q publicKeyBytes privateKeyBytes =
     (if length publicKeyBytes \<noteq> 1184
      then Inl (InvalidPublicKeySize 1184 (length publicKeyBytes))
      else if length privateKeyBytes \<noteq> 2400
      then Inl (InvalidPrivateKeySize 2400 (length privateKeyBytes))
      else Inr \<lparr>k_PublicKey = KemPublicKey_Unpack Q publicKeyBytes,
                k_PrivateKey = KemPrivateKey_Unpack Q privateKeyBytes\<rparr>)"

text \<open>
  A stand-in for the KEM library: a key is one byte; the ciphertext is the seed with the
  key byte added to each of its bytes, padded to 1088 bytes; the shared secret is the
  seed. Decapsulation panics on a ciphertext that is not 1088 bytes long, as the
  library does.
\<close>

definition add_byte :: "char \<Rightarrow> char \<Rightarrow> char" where
  "add_byte k c = char_of (of_char c + of_char k :: nat)"

definition sub_byte :: "char \<Rightarrow> char \<Rightarrow> char" where
  "sub_byte k c = char_of (of_char c + 256 - of_char k :: nat)"

definition test_kyber :: "(char, char) kyber768" where
  "test_kyber =
     \<lparr>GenerateKeyPair = (\<lambda>rnd. Some (char_of rnd, char_of rnd)),
      KemPublicKey_MarshalBinary = (\<lambda>pk. replicate 1184 pk),
      KemPrivateKey_MarshalBinary = (\<lambda>sk. replicate 2400 sk),
      KemPublicKey_Unpack = key_byte,
      KemPrivateKey_Unpack = key_byte,
      EncapsulateTo = (\<lambda>pk seed. (map (add_byte pk) (take 32 seed) @ replicate 1056 pk, take 32 seed)),
      DecapsulateTo = (\<lambda>sk ct. if length ct \<noteq> 1088 then None
                                  else Some (map (sub_byte sk) (take 32 ct)))\<rparr>"

section \<open>encoding/base64: StdEncoding\<close>

text \<open>
  The Go standard library is not code of this repository either. The parts of
  \<^verbatim>\<open>encoding/base64\<close>, \<^verbatim>\<open>unicode/utf8\<close> and \<^verbatim>\<open>encoding/json\<close> that the
  services go through are modelled after the packages' documentation and sources, as
  executable functions.
\<close>

definition encodeStd :: bytes where
  "encodeStd = ''ABCDEFGHIJKLMNOPQRSTUVWXYZabcdefghijklmnopqrstuvwxyz0123456789+/''"

definition b64_char :: "nat \<Rightarrow> char" where
  "b64_char i = encodeStd ! (i mod 64)"

fun index_of :: "bytes \<Rightarrow> char \<Rightarrow> nat option" where
  "index_of [] c = None"
| "index_of (a # as) c = (if a = c then Some 0 else map_option Suc (index_of as c))"

definition b64_index :: "char \<Rightarrow> nat option" where
  "b64_index c = index_of encodeStd c"

text \<open>
  Three bytes \<open>a b c\<close> give four 6-bit values; Go takes them from the 24-bit value
  \<^verbatim>\<open>a<<16 | b<<8 | c\<close> by shifting, which is the arithmetic below.
\<close>

definition encode3 :: "nat \<Rightarrow> nat \<Rightarrow> nat \<Rightarrow> bytes" where
  "encode3 a b c =
     [b64_char (a div 4), b64_char ((a mod 4) * 16 + b div 16),
      b64_char ((b mod 16) * 4 + c div 64), b64_char (c mod 64)]"

fun EncodeToString :: "bytes \<Rightarrow> bytes" where
  "EncodeToString (a # b # c # rest) =
     encode3 (of_char a) (of_char b) (of_char c) @ EncodeToString rest"
| "EncodeToString [a, b] = take 3 (encode3 (of_char a) (of_char b) 0) @ ''=''"
| "EncodeToString [a] = take 2 (encode3 (of_char a) 0 0) @ ''==''"
| "EncodeToString [] = []"

fun decode4 :: "nat option \<Rightarrow> nat option \<Rightarrow> nat option \<Rightarrow> nat option \<Rightarrow> bytes option" where
  "decode4 (Some i1) (Some i2) (Some i3) (Some i4) =
     Some [char_of (i1 * 4 + i2 div 16), char_of ((i2 mod 16) * 16 + i3 div 4),
           char_of ((i3 mod 4) * 64 + i4)]"
| "decode4 _ _ _ _ = None"

text \<open>The last group of four may end in one or two padding characters.\<close>

definition decode_last :: "char \<Rightarrow> char \<Rightarrow> char \<Rightarrow> char \<Rightarrow> bytes option" where
  "decode_last c1 c2 c3 c4 =
     (if c3 = CHR ''='' \<and> c4 = CHR ''=''
      then map_option (take 1) (decode4 (b64_index c1) (b64_index c2) (Some 0) (Some 0))
      else if c4 = CHR ''=''
      then map_option (take 2) (decode4 (b64_index c1) (b64_index c2) (b64_index c3) (Some 0))
      else decode4 (b64_index c1) (b64_index c2) (b64_index c3) (b64_index c4))"

fun append_opt :: "bytes option \<Rightarrow> bytes option \<Rightarrow> bytes option" where
  "append_opt (Some a) (Some b) = Some (a @ b)"
| "append_opt _ _ = None"

fun decode_quanta :: "bytes \<Rightarrow> bytes option" where
  "decode_quanta (c1 # c2 # c3 # c4 # rest) =
     (if rest = [] then decode_last c1 c2 c3 c4
      else append_opt
             (decode4 (b64_index c1) (b64_index c2) (b64_index c3) (b64_index c4))
             (decode_quanta rest))"
| "decode_quanta s = (if s = [] then Some [] else None)"

text \<open>\<^verbatim>\<open>DecodeString\<close> skips carriage returns and newlines; \<open>None\<close> is its error.\<close>

definition DecodeString :: "bytes \<Rightarrow> bytes option" where
  "DecodeString s = decode_quanta (filter (\<lambda>c. c \<noteq> CHR 0x0D \<and> c \<noteq> CHR 0x0A) s)"

section \<open>unicode/utf8\<close>

definition byte_in :: "nat \<Rightarrow> nat \<Rightarrow> bytes \<Rightarrow> nat \<Rightarrow> bool" where
  "byte_in lo hi s i \<longleftrightarrow> i < length s \<and> lo \<le> of_char (s ! i) \<and> of_char (s ! i) \<le> (hi :: nat)"

text \<open>
  The number of bytes of the well-formed UTF-8 sequence at the head of \<open>s\<close>, and 0 when
  the head is not one: the cases in which \<^verbatim>\<open>utf8.DecodeRune\<close> returns
  \<^verbatim>\<open>(RuneError, 1)\<close>. The ranges are those of the package's table: no overlong forms,
  no surrogates, nothing above U+10FFFF.
\<close>

definition utf8_size :: "bytes \<Rightarrow> nat" where
  "utf8_size s =
     (if byte_in 0 127 s 0 then 1
      else if byte_in 194 223 s 0 \<and> byte_in 128 191 s 1 then 2
      else if byte_in 224 224 s 0 \<and> byte_in 160 191 s 1 \<and> byte_in 128 191 s 2 then 3
      else if byte_in 225 236 s 0 \<and> byte_in 128 191 s 1 \<and> byte_in 128 191 s 2 then 3
      else if byte_in 237 237 s 0 \<and> byte_in 128 159 s 1 \<and> byte_in 128 191 s 2 then 3
      else if byte_in 238 239 s 0 \<and> byte_in 128 191 s 1 \<and> byte_in 128 191 s 2 then 3
      else if byte_in 240 240 s 0 \<and> byte_in 144 191 s 1 \<and> byte_in 128 191 s 2
              \<and> byte_in 128 191 s 3 then 4
      else if byte_in 241 243 s 0 \<and> byte_in 128 191 s 1 \<and> byte_in 128 191 s 2
              \<and> byte_in 128 191 s 3 then 4
      else if byte_in 244 244 s 0 \<and> byte_in 128 143 s 1 \<and> byte_in 128 191 s 2
              \<and> byte_in 128 191 s 3 then 4
      else 0)"

text \<open>The UTF-8 encoding of U+FFFD, the replacement character.\<close>

definition RuneError_utf8 :: bytes where
  "RuneError_utf8 = [CHR 0xEF, CHR 0xBF, CHR 0xBD]"

section \<open>encoding/json: string literals\<close>

definition bslash :: char where "bslash = CHR 0x5C"
definition dquote :: char where "dquote = CHR 0x22"

definition hex :: bytes where "hex = ''0123456789abcdef''"

definition hex_digit :: "nat \<Rightarrow> char" where
  "hex_digit n = hex ! (n mod 16)"

text \<open>
  One byte below 0x80 as \<^verbatim>\<open>appendString\<close> writes it with \<^verbatim>\<open>escapeHTML\<close> set (as
  \<^verbatim>\<open>json.Marshal\<close> has it): the quote and the backslash get a backslash, the five
  control characters with a short form get that form, the other control characters and
  the characters \<^verbatim>\<open><\<close>, \<^verbatim>\<open>>\<close> and \<^verbatim>\<open>&\<close> become a \<^verbatim>\<open>u00XX\<close> escape, and every
  other byte is copied.
\<close>

definition escape_ascii :: "char \<Rightarrow> bytes" where
  "escape_ascii c =
     (if c = dquote \<or> c = bslash then [bslash, c]
      else if c = CHR 0x08 then [bslash, CHR ''b'']
      else if c = CHR 0x0C then [bslash, CHR ''f'']
      else if c = CHR 0x0A then [bslash, CHR ''n'']
      else if c = CHR 0x0D then [bslash, CHR ''r'']
      else if c = CHR 0x09 then [bslash, CHR ''t'']
      else if (of_char c :: nat) < 32 \<or> c = CHR ''<'' \<or> c = CHR ''>'' \<or> c = CHR ''&''
      then [bslash, CHR ''u'', CHR ''0'', CHR ''0'',
            hex_digit (of_char c div 16), hex_digit (of_char c)]
      else [c])"

text \<open>
  The loop of \<^verbatim>\<open>appendString\<close>. The first argument counts the bytes still to pass of
  a sequence that was decided at its first byte; the second says whether they are
  copied. A byte that starts no well-formed UTF-8 sequence is written as the six
  characters of the escape \<^verbatim>\<open>ufffd\<close>; U+2028 and U+2029 are written as the escapes
  \<^verbatim>\<open>u2028\<close> and \<^verbatim>\<open>u2029\<close>; every other well-formed sequence is copied.
\<close>

fun appendString_from :: "nat \<Rightarrow> bool \<Rightarrow> bytes \<Rightarrow> bytes" where
  "appendString_from k copy [] = []"
| "appendString_from (Suc k) copy (c # cs) =
     (if copy then c # appendString_from k copy cs else appendString_from k copy cs)"
| "appendString_from 0 copy (c # cs) =
     (if (of_char c :: nat) < 128 then escape_ascii c @ appendString_from 0 True cs
      else if utf8_size (c # cs) = 0
      then [bslash, CHR ''u'', CHR ''f'', CHR ''f'', CHR ''f'', CHR ''d'']
           @ appendString_from 0 True cs
      else if take 3 (c # cs) = [CHR 0xE2, CHR 0x80, CHR 0xA8]
      then [bslash, CHR ''u'', CHR ''2'', CHR ''0'', CHR ''2'', CHR ''8'']
           @ appendString_from 2 False cs
      else if take 3 (c # cs) = [CHR 0xE2, CHR 0x80, CHR 0xA9]
      then [bslash, CHR ''u'', CHR ''2'', CHR ''0'', CHR ''2'', CHR ''9'']
           @ appendString_from 2 False cs
      else c # appendString_from (utf8_size (c # cs) - 1) True cs)"

definition appendString :: "bytes \<Rightarrow> bytes" where
  "appendString s = [dquote] @ appendString_from 0 True s @ [dquote]"

text \<open>
  Decoding: \<^verbatim>\<open>unquoteBytes\<close> of decode.go, on the text between the quotes.
  \<^verbatim>\<open>getu4\<close> reads one \<^verbatim>\<open>uXXXX\<close> escape: here its four hexadecimal digits.
\<close>

definition hex_value :: "char \<Rightarrow> nat option" where
  "hex_value c =
     (if (48 :: nat) \<le> of_char c \<and> of_char c \<le> (57 :: nat) then Some (of_char c - 48)
      else if (97 :: nat) \<le> of_char c \<and> of_char c \<le> (102 :: nat) then Some (of_char c - 87)
      else if (65 :: nat) \<le> of_char c \<and> of_char c \<le> (70 :: nat) then Some (of_char c - 55)
      else None)"

fun four_hex ::
  "nat option \<Rightarrow> nat option \<Rightarrow> nat option \<Rightarrow> nat option \<Rightarrow> (nat \<times> nat \<times> nat \<times> nat) option" where
  "four_hex (Some a) (Some b) (Some c) (Some d) = Some (a, b, c, d)"
| "four_hex _ _ _ _ = None"

definition getu4 :: "bytes \<Rightarrow> (nat \<times> nat \<times> nat \<times> nat) option" where
  "getu4 s =
     (if length s < 6 \<or> s ! 0 \<noteq> bslash \<or> s ! 1 \<noteq> CHR ''u'' then None
      else four_hex (hex_value (s ! 2)) (hex_value (s ! 3)) (hex_value (s ! 4)) (hex_value (s ! 5)))"

text \<open>
  \<^verbatim>\<open>utf8.EncodeRune\<close> of the code point with the hexadecimal digits \<open>a b c d\<close>, when it
  is no surrogate; and of the code point of a surrogate pair, \<open>w\<close> and \<open>x\<close> being the ten
  bits of the high and of the low surrogate.
\<close>

definition encode_bmp :: "nat \<Rightarrow> nat \<Rightarrow> nat \<Rightarrow> nat \<Rightarrow> bytes" where
  "encode_bmp a b c d =
     (if a = 0 \<and> b = 0 \<and> c < 8 then [char_of (c * 16 + d)]
      else if a = 0 \<and> b < 8
      then [char_of (192 + b * 4 + c div 4), char_of (128 + (c mod 4) * 16 + d)]
      else [char_of (224 + a), char_of (128 + b * 4 + c div 4),
            char_of (128 + (c mod 4) * 16 + d)])"

definition encode_pair :: "nat \<Rightarrow> nat \<Rightarrow> bytes" where
  "encode_pair w x =
     [char_of (240 + (w div 64 + 1) div 4),
      char_of (128 + ((w div 64 + 1) mod 4) * 16 + (w mod 64) div 4),
      char_of (128 + (w mod 4) * 16 + x div 64),
      char_of (128 + x mod 64)]"

fun is_high :: "nat \<times> nat \<times> nat \<times> nat \<Rightarrow> bool" where
  "is_high (a, b, c, d) \<longleftrightarrow> a = 13 \<and> 8 \<le> b \<and> b < 12"

fun is_low :: "nat \<times> nat \<times> nat \<times> nat \<Rightarrow> bool" where
  "is_low (a, b, c, d) \<longleftrightarrow> a = 13 \<and> 12 \<le> b"

fun ten_bits :: "nat \<times> nat \<times> nat \<times> nat \<Rightarrow> nat" where
  "ten_bits (a, b, c, d) = (b mod 4) * 256 + c * 16 + d"

fun encode_digits :: "nat \<times> nat \<times> nat \<times> nat \<Rightarrow> bytes" where
  "encode_digits (a, b, c, d) = encode_bmp a b c d"

text \<open>
  One \<^verbatim>\<open>u\<close> escape at the head of the input, given its digits and those of the escape
  that may follow it: the bytes written and the number of input bytes consumed (6, or
  12 for a surrogate pair). A surrogate without its partner becomes U+FFFD.
\<close>

fun unescape_u ::
  "(nat \<times> nat \<times> nat \<times> nat) option \<Rightarrow> (nat \<times> nat \<times> nat \<times> nat) option \<Rightarrow> (bytes \<times> nat) option" where
  "unescape_u None nxt = None"
| "unescape_u (Some h) None =
     (if is_high h \<or> is_low h then Some (RuneError_utf8, 6) else Some (encode_digits h, 6))"
| "unescape_u (Some h) (Some l) =
     (if is_high h \<and> is_low l then Some (encode_pair (ten_bits h) (ten_bits l), 12)
      else if is_high h \<or> is_low h then Some (RuneError_utf8, 6)
      else Some (encode_digits h, 6))"

definition short_escape :: "char \<Rightarrow> char option" where
  "short_escape c =
     (if c = dquote \<or> c = bslash \<or> c = CHR ''/'' \<or> c = CHR 0x27 then Some c
      else if c = CHR ''b'' then Some (CHR 0x08)
      else if c = CHR ''f'' then Some (CHR 0x0C)
      else if c = CHR ''n'' then Some (CHR 0x0A)
      else if c = CHR ''r'' then Some (CHR 0x0D)
      else if c = CHR ''t'' then Some (CHR 0x09)
      else None)"

fun cons_opt :: "bytes \<Rightarrow> bytes option \<Rightarrow> bytes option" where
  "cons_opt a (Some b) = Some (a @ b)"
| "cons_opt a None = None"

fun after_escape :: "(bytes \<times> nat) option \<Rightarrow> (nat \<Rightarrow> bytes option) \<Rightarrow> bytes option" where
  "after_escape None continue = None"
| "after_escape (Some (out, n)) continue = cons_opt out (continue (n - 1))"

fun unquote_from :: "nat \<Rightarrow> bytes \<Rightarrow> bytes option" where
  "unquote_from k [] = (if k = 0 then Some [] else None)"
| "unquote_from (Suc k) (c # cs) = unquote_from k cs"
| "unquote_from 0 (c # cs) =
     (if c = bslash then
        (if cs = [] then None
         else if hd cs = CHR ''u''
         then after_escape (unescape_u (getu4 (c # cs)) (getu4 (drop 6 (c # cs))))
                (\<lambda>k. unquote_from k cs)
         else after_escape (map_option (\<lambda>d. ([d], 2)) (short_escape (hd cs)))
                (\<lambda>k. unquote_from k cs))
      else if c = dquote \<or> (of_char c :: nat) < 32 then None
      else if (of_char c :: nat) < 128 then cons_opt [c] (unquote_from 0 cs)
      else if utf8_size (c # cs) = 0 then cons_opt RuneError_utf8 (unquote_from 0 cs)
      else cons_opt (take (utf8_size (c # cs)) (c # cs))
             (unquote_from (utf8_size (c # cs) - 1) cs))"

definition unquote :: "bytes \<Rightarrow> bytes option" where
  "unquote s = unquote_from 0 s"

section \<open>encoding/json: the scanner and Compact (scanner.go, indent.go)\<close>

datatype step_state =
    stateBeginValueOrEmpty | stateBeginValue | stateBeginStringOrEmpty | stateBeginString
  | stateEndValue | stateEndTop
  | stateInString | stateInStringEsc | stateInStringEscU | stateInStringEscU1
  | stateInStringEscU12 | stateInStringEscU123
  | stateNeg | state1 | state0 | stateDot | stateDot0 | stateE | stateESign | stateE0
  | stateT | stateTr | stateTru | stateF | stateFa | stateFal | stateFals
  | stateN | stateNu | stateNul
  | stateError

datatype parse_state = parseObjectKey | parseObjectValue | parseArrayValue

text \<open>
  What a step returns. The codes below \<^verbatim>\<open>scanSkipSpace\<close> (the begin or end of a
  literal, an object or an array, a key, a value) are the one constructor
  \<open>scanContinue\<close>: the caller modelled here only tests \<^verbatim>\<open>v >= scanSkipSpace\<close> and
  \<^verbatim>\<open>v == scanError\<close>.
\<close>

datatype scan_code = scanContinue | scanSkipSpace | scanEnd | scanError

record scanner =
  step :: step_state
  endTop :: bool
  parseState :: "parse_state list"
  err :: bool

definition newScanner :: scanner where
  "newScanner = \<lparr>step = stateBeginValue, endTop = False, parseState = [], err = False\<rparr>"

definition isSpace :: "char \<Rightarrow> bool" where
  "isSpace c \<longleftrightarrow> c = CHR '' '' \<or> c = CHR 0x09 \<or> c = CHR 0x0D \<or> c = CHR 0x0A"

definition is_digit :: "char \<Rightarrow> bool" where
  "is_digit c \<longleftrightarrow> (48 :: nat) \<le> of_char c \<and> of_char c \<le> (57 :: nat)"

definition is_digit19 :: "char \<Rightarrow> bool" where
  "is_digit19 c \<longleftrightarrow> (49 :: nat) \<le> of_char c \<and> of_char c \<le> (57 :: nat)"

definition is_hex :: "char \<Rightarrow> bool" where
  "is_hex c \<longleftrightarrow> hex_value c \<noteq> None"

definition scan_error :: "scanner \<Rightarrow> scan_code \<times> scanner" where
  "scan_error s = (scanError, s\<lparr>step := stateError, err := True\<rparr>)"

definition goto :: "step_state \<Rightarrow> scanner \<Rightarrow> scan_code \<times> scanner" where
  "goto st s = (scanContinue, s\<lparr>step := st\<rparr>)"

definition maxNestingDepth :: nat where
  "maxNestingDepth = 10000"

definition pushParseState :: "parse_state \<Rightarrow> step_state \<Rightarrow> scanner \<Rightarrow> scan_code \<times> scanner" where
  "pushParseState newParseState st s =
     (if length (parseState s) + 1 \<le> maxNestingDepth
      then (scanContinue, s\<lparr>step := st, parseState := parseState s @ [newParseState]\<rparr>)
      else scan_error (s\<lparr>step := st, parseState := parseState s @ [newParseState]\<rparr>))"

definition popParseState :: "scanner \<Rightarrow> scanner" where
  "popParseState s =
     (if butlast (parseState s) = []
      then s\<lparr>parseState := [], step := stateEndTop, endTop := True\<rparr>
      else s\<lparr>parseState := butlast (parseState s), step := stateEndValue\<rparr>)"

definition do_stateEndTop :: "scanner \<Rightarrow> char \<Rightarrow> scan_code \<times> scanner" where
  "do_stateEndTop s c =
     (if \<not> isSpace c then (scanEnd, snd (scan_error s)) else (scanEnd, s))"

fun after_value :: "parse_state \<Rightarrow> scanner \<Rightarrow> char \<Rightarrow> scan_code \<times> scanner" where
  "after_value parseObjectKey s c =
     (if c = CHR '':''
      then (scanContinue, s\<lparr>parseState := butlast (parseState s) @ [parseObjectValue],
                            step := stateBeginValue\<rparr>)
      else scan_error s)"
| "after_value parseObjectValue s c =
     (if c = CHR '',''
      then (scanContinue, s\<lparr>parseState := butlast (parseState s) @ [parseObjectKey],
                            step := stateBeginString\<rparr>)
      else if c = CHR ''}'' then (scanContinue, popParseState s)
      else scan_error s)"
| "after_value parseArrayValue s c =
     (if c = CHR '','' then (scanContinue, s\<lparr>step := stateBeginValue\<rparr>)
      else if c = CHR '']'' then (scanContinue, popParseState s)
      else scan_error s)"

definition do_stateEndValue :: "scanner \<Rightarrow> char \<Rightarrow> scan_code \<times> scanner" where
  "do_stateEndValue s c =
     (if parseState s = [] then do_stateEndTop (s\<lparr>step := stateEndTop, endTop := True\<rparr>) c
      else if isSpace c then (scanSkipSpace, s\<lparr>step := stateEndValue\<rparr>)
      else after_value (last (parseState s)) s c)"

definition do_stateBeginValue :: "scanner \<Rightarrow> char \<Rightarrow> scan_code \<times> scanner" where
  "do_stateBeginValue s c =
     (if isSpace c then (scanSkipSpace, s)
      else if c = CHR ''{'' then pushParseState parseObjectKey stateBeginStringOrEmpty s
      else if c = CHR ''['' then pushParseState parseArrayValue stateBeginValueOrEmpty s
      else if c = dquote then goto stateInString s
      else if c = CHR ''-'' then goto stateNeg s
      else if c = CHR ''0'' then goto state0 s
      else if c = CHR ''t'' then goto stateT s
      else if c = CHR ''f'' then goto stateF s
      else if c = CHR ''n'' then goto stateN s
      else if is_digit19 c then goto state1 s
      else scan_error s)"

definition do_stateBeginString :: "scanner \<Rightarrow> char \<Rightarrow> scan_code \<times> scanner" where
  "do_stateBeginString s c =
     (if isSpace c then (scanSkipSpace, s)
      else if c = dquote then goto stateInString s
      else scan_error s)"

definition do_state0 :: "scanner \<Rightarrow> char \<Rightarrow> scan_code \<times> scanner" where
  "do_state0 s c =
     (if c = CHR ''.'' then goto stateDot s
      else if c = CHR ''e'' \<or> c = CHR ''E'' then goto stateE s
      else do_stateEndValue s c)"

definition do_stateESign :: "scanner \<Rightarrow> char \<Rightarrow> scan_code \<times> scanner" where
  "do_stateESign s c = (if is_digit c then goto stateE0 s else scan_error s)"

definition expect :: "char \<Rightarrow> step_state \<Rightarrow> scanner \<Rightarrow> char \<Rightarrow> scan_code \<times> scanner" where
  "expect want st s c = (if c = want then goto st s else scan_error s)"

text \<open>One call of \<^verbatim>\<open>s.step(s, c)\<close>, by the step function the scanner is in.\<close>

fun scan_step :: "step_state \<Rightarrow> scanner \<Rightarrow> char \<Rightarrow> scan_code \<times> scanner" where
  "scan_step stateBeginValueOrEmpty s c =
     (if isSpace c then (scanSkipSpace, s)
      else if c = CHR '']'' then do_stateEndValue s c
      else do_stateBeginValue s c)"
| "scan_step stateBeginValue s c = do_stateBeginValue s c"
| "scan_step stateBeginStringOrEmpty s c =
     (if isSpace c then (scanSkipSpace, s)
      else if c = CHR ''}''
      then do_stateEndValue (s\<lparr>parseState := butlast (parseState s) @ [parseObjectValue]\<rparr>) c
      else do_stateBeginString s c)"
| "scan_step stateBeginString s c = do_stateBeginString s c"
| "scan_step stateEndValue s c = do_stateEndValue s c"
| "scan_step stateEndTop s c = do_stateEndTop s c"
| "scan_step stateInString s c =
     (if c = dquote then goto stateEndValue s
      else if c = bslash then goto stateInStringEsc s
      else if (of_char c :: nat) < 32 then scan_error s
      else (scanContinue, s))"
| "scan_step stateInStringEsc s c =
     (if c = CHR ''b'' \<or> c = CHR ''f'' \<or> c = CHR ''n'' \<or> c = CHR ''r'' \<or> c = CHR ''t''
         \<or> c = bslash \<or> c = CHR ''/'' \<or> c = dquote then goto stateInString s
      else if c = CHR ''u'' then goto stateInStringEscU s
      else scan_error s)"
| "scan_step stateInStringEscU s c = (if is_hex c then goto stateInStringEscU1 s else scan_error s)"
| "scan_step stateInStringEscU1 s c = (if is_hex c then goto stateInStringEscU12 s else scan_error s)"
| "scan_step stateInStringEscU12 s c = (if is_hex c then goto stateInStringEscU123 s else scan_error s)"
| "scan_step stateInStringEscU123 s c = (if is_hex c then goto stateInString s else scan_error s)"
| "scan_step stateNeg s c =
     (if c = CHR ''0'' then goto state0 s
      else if is_digit19 c then goto state1 s
      else scan_error s)"
| "scan_step state1 s c = (if is_digit c then goto state1 s else do_state0 s c)"
| "scan_step state0 s c = do_state0 s c"
| "scan_step stateDot s c = (if is_digit c then goto stateDot0 s else scan_error s)"
| "scan_step stateDot0 s c =
     (if is_digit c then (scanContinue, s)
      else if c = CHR ''e'' \<or> c = CHR ''E'' then goto stateE s
      else do_stateEndValue s c)"
| "scan_step stateE s c =
     (if c = CHR ''+'' \<or> c = CHR ''-'' then goto stateESign s else do_stateESign s c)"
| "scan_step stateESign s c = do_stateESign s c"
| "scan_step stateE0 s c = (if is_digit c then (scanContinue, s) else do_stateEndValue s c)"
| "scan_step stateT s c = expect (CHR ''r'') stateTr s c"
| "scan_step stateTr s c = expect (CHR ''u'') stateTru s c"
| "scan_step stateTru s c = expect (CHR ''e'') stateEndValue s c"
| "scan_step stateF s c = expect (CHR ''a'') stateFa s c"
| "scan_step stateFa s c = expect (CHR ''l'') stateFal s c"
| "scan_step stateFal s c = expect (CHR ''s'') stateFals s c"
| "scan_step stateFals s c = expect (CHR ''e'') stateEndValue s c"
| "scan_step stateN s c = expect (CHR ''u'') stateNu s c"
| "scan_step stateNu s c = expect (CHR ''l'') stateNul s c"
| "scan_step stateNul s c = expect (CHR ''l'') stateEndValue s c"
| "scan_step stateError s c = (scanError, s)"

definition scanner_step :: "scanner \<Rightarrow> char \<Rightarrow> scan_code \<times> scanner" where
  "scanner_step s c = scan_step (step s) s c"

text \<open>\<^verbatim>\<open>eof\<close>: whether the input ended after exactly one top-level value.\<close>

definition eof_ok :: "scanner \<Rightarrow> bool" where
  "eof_ok s \<longleftrightarrow> \<not> err s \<and> (endTop s \<or> endTop (snd (scanner_step s (CHR '' ''))))"

text \<open>
  What \<^verbatim>\<open>appendCompact\<close> writes in front of a byte when \<^verbatim>\<open>escape\<close> is set: an escape
  for \<^verbatim>\<open><\<close>, \<^verbatim>\<open>>\<close>, \<^verbatim>\<open>&\<close> and for the three bytes of U+2028 or U+2029; and the number
  of input bytes, from this one on, that are not copied then.
\<close>

definition is_html :: "char \<Rightarrow> bool" where
  "is_html c \<longleftrightarrow> c = CHR ''<'' \<or> c = CHR ''>'' \<or> c = CHR ''&''"

definition is_separator :: "char \<Rightarrow> bytes \<Rightarrow> bool" where
  "is_separator c cs \<longleftrightarrow>
     c = CHR 0xE2 \<and> (take 2 cs = [CHR 0x80, CHR 0xA8] \<or> take 2 cs = [CHR 0x80, CHR 0xA9])"

definition compact_escape :: "char \<Rightarrow> bytes \<Rightarrow> bytes" where
  "compact_escape c cs =
     (if is_html c
      then [bslash, CHR ''u'', CHR ''0'', CHR ''0'', hex_digit (of_char c div 16), hex_digit (of_char c)]
      else if is_separator c cs
      then [bslash, CHR ''u'', CHR ''2'', CHR ''0'', CHR ''2'', hex_digit (of_char (cs ! 1))]
      else [])"

definition compact_omit :: "nat \<Rightarrow> char \<Rightarrow> bytes \<Rightarrow> nat" where
  "compact_omit omit c cs = (if is_html c then 1 else if is_separator c cs then 3 else omit)"

text \<open>
  The loop of \<^verbatim>\<open>appendCompact(dst, src, true)\<close> over the bytes of \<open>src\<close>: a byte is
  copied unless the scanner says it is white space, or it has been written as an
  escape. The loop stops at the first error. The result is the text written and the
  scanner at the end.
\<close>

fun compact_loop :: "scanner \<Rightarrow> nat \<Rightarrow> bytes \<Rightarrow> bytes \<times> scanner" where
  "compact_loop s omit [] = ([], s)"
| "compact_loop s omit (c # cs) =
     (case scanner_step s c of
        (v, s') \<Rightarrow>
          if v = scanError then (compact_escape c cs, s')
          else (case compact_loop s' (compact_omit omit c cs - 1) cs of
                  (out, s'') \<Rightarrow>
                    (compact_escape c cs
                     @ (if v = scanContinue \<and> compact_omit omit c cs = 0 then [c] else [])
                     @ out, s'')))"

definition compact :: "bytes \<Rightarrow> bytes option" where
  "compact src =
     (case compact_loop newScanner 0 src of
        (out, s) \<Rightarrow> if eof_ok s then Some out else None)"

text \<open>Backquotes for double quotes, to write JSON texts in examples.\<close>

definition bq :: "bytes \<Rightarrow> bytes" where
  "bq s = map (\<lambda>c. if c = CHR 0x60 then dquote else c) s"

section \<open>encoding/json: Marshal\<close>

text \<open>
  A \<^verbatim>\<open>time.Time\<close> is modelled by the RFC 3339 text that its \<^verbatim>\<open>MarshalJSON\<close> writes
  between quotes.
\<close>

datatype gotime = RFC3339 bytes

text \<open>
  The dynamic values (\<^verbatim>\<open>interface{}\<close>) the services marshal or get from
  \<^verbatim>\<open>json.Unmarshal\<close>: \<^verbatim>\<open>nil\<close>, \<^verbatim>\<open>bool\<close>, \<^verbatim>\<open>int\<close>, \<^verbatim>\<open>float64\<close>, \<^verbatim>\<open>string\<close>,
  \<^verbatim>\<open>[]byte\<close>, \<^verbatim>\<open>time.Time\<close>, \<^verbatim>\<open>[]interface{}\<close> and \<^verbatim>\<open>map[string]interface{}\<close>
  (an association list; the keys of a Go map are distinct). A \<^verbatim>\<open>float64\<close> is a value
  of the model only where it holds a whole number from \<open>- 2 ^ 53\<close> to \<open>2 ^ 53 - 1\<close>, which
  is carried as a signed 54-bit word: these are the numbers for which the text that
  \<^verbatim>\<open>encoding/json\<close> writes (the shortest decimal that reads back as the same
  \<^verbatim>\<open>float64\<close>, with no exponent below \<^verbatim>\<open>1e21\<close>) is the number's own digits. Other
  numbers, and the negative zero, are not values of the model.
\<close>

datatype go_value =
    GoNil
  | GoBool bool
  | GoInt int
  | GoFloat64 "54 word"
  | GoString bytes
  | GoBytes byteslice
  | GoTime gotime
  | GoSlice "go_value list"
  | GoMap "(bytes \<times> go_value) list"

fun nat_digits :: "nat \<Rightarrow> nat \<Rightarrow> bytes" where
  "nat_digits 0 n = []"
| "nat_digits (Suc fuel) n =
     (if n < 10 then [char_of (48 + n)]
      else nat_digits fuel (n div 10) @ [char_of (48 + n mod 10)])"

definition show_nat :: "nat \<Rightarrow> bytes" where
  "show_nat n = nat_digits (Suc n) n"

definition show_int :: "int \<Rightarrow> bytes" where
  "show_int i = (if i < 0 then ''-'' @ show_nat (nat (- i)) else show_nat (nat i))"

fun sequence :: "'a option list \<Rightarrow> 'a list option" where
  "sequence [] = Some []"
| "sequence (None # xs) = None"
| "sequence (Some x # xs) = map_option (Cons x) (sequence xs)"

fun join :: "bytes \<Rightarrow> bytes list \<Rightarrow> bytes" where
  "join sep [] = []"
| "join sep [x] = x"
| "join sep (x # y # ys) = x @ sep @ join sep (y # ys)"

text \<open>
  The text a \<^verbatim>\<open>Marshaler\<close> returns goes through \<^verbatim>\<open>compact\<close>, which also checks it:
  so it is for \<^verbatim>\<open>time.Time\<close> and for \<^verbatim>\<open>json.RawMessage\<close> (whose \<^verbatim>\<open>MarshalJSON\<close>
  returns \<^verbatim>\<open>null\<close> for a \<^verbatim>\<open>nil\<close> message and the message itself otherwise).
\<close>

fun marshal_time :: "gotime \<Rightarrow> bytes option" where
  "marshal_time (RFC3339 t) = compact ([dquote] @ t @ [dquote])"

fun marshal_RawMessage :: "byteslice \<Rightarrow> bytes option" where
  "marshal_RawMessage None = compact ''null''"
| "marshal_RawMessage (Some m) = compact m"

fun marshal_bytes :: "byteslice \<Rightarrow> bytes" where
  "marshal_bytes None = ''null''"
| "marshal_bytes (Some b) = [dquote] @ EncodeToString b @ [dquote]"

fun marshal_member :: "bytes \<times> bytes option \<Rightarrow> (bytes \<times> bytes) option" where
  "marshal_member (k, None) = None"
| "marshal_member (k, Some v) = Some (k, v)"

fun write_member :: "bytes \<times> bytes \<Rightarrow> bytes" where
  "write_member (k, v) = appendString k @ '':'' @ v"

text \<open>
  An object from its members' names and encodings, in the order given; \<open>None\<close> (an
  error) when the encoding of a member failed.
\<close>

definition marshal_object :: "(bytes \<times> bytes option) list \<Rightarrow> bytes option" where
  "marshal_object members =
     map_option (\<lambda>ms. ''{'' @ join '','' (map write_member ms) @ ''}'')
       (sequence (map marshal_member members))"

definition marshal_array :: "bytes option list \<Rightarrow> bytes option" where
  "marshal_array elems = map_option (\<lambda>es. ''['' @ join '','' es @ '']'') (sequence elems)"

text \<open>
  \<^verbatim>\<open>json.Marshal\<close> of a dynamic value; \<open>None\<close> is its error. A \<^verbatim>\<open>[]byte\<close> is written
  as a base64 string (\<^verbatim>\<open>null\<close> when \<^verbatim>\<open>nil\<close>), the members of a map in the order of
  their keys.
\<close>

primrec json_Marshal :: "go_value \<Rightarrow> bytes option" where
  "json_Marshal GoNil = Some ''null''"
| "json_Marshal (GoBool b) = Some (if b then ''true'' else ''false'')"
| "json_Marshal (GoInt i) = Some (show_int i)"
| "json_Marshal (GoFloat64 x) = Some (show_int (sint x))"
| "json_Marshal (GoString s) = Some (appendString s)"
| "json_Marshal (GoBytes b) = Some (marshal_bytes b)"
| "json_Marshal (GoTime t) = marshal_time t"
| "json_Marshal (GoSlice xs) = marshal_array (map json_Marshal xs)"
| "json_Marshal (GoMap m) = marshal_object (sort_key fst (map (map_prod id json_Marshal) m))"

section \<open>pkg/models (types.go)\<close>

text \<open>
  The structs of the wire model. A \<^verbatim>\<open>map[string]string\<close> is an association list
  (empty for a \<^verbatim>\<open>nil\<close> or empty map: \<^verbatim>\<open>omitempty\<close> leaves both out). The encodings
  follow the struct tags: the members in the order of the fields, an \<^verbatim>\<open>omitempty\<close>
  field left out when it is empty.
\<close>

record ServiceKeyPair =
  skp_ServiceID :: bytes
  skp_PublicKey :: byteslice
  skp_PrivateKey :: byteslice

record ServiceRequest =
  req_ServiceID :: bytes
  req_Timestamp :: gotime
  req_Data :: byteslice
  req_Signature :: byteslice
  req_Headers :: "(bytes \<times> bytes) list"

record ServiceResponse =
  resp_ServiceID :: bytes
  resp_Timestamp :: gotime
  resp_Data :: byteslice
  resp_Signature :: byteslice
  resp_Headers :: "(bytes \<times> bytes) list"
  resp_Success :: bool
  resp_Error :: bytes

record KeyExchangeRequest =
  kx_ServiceID :: bytes
  kx_KyberPublicKey :: byteslice
  kx_Timestamp :: gotime
  kx_Signature :: byteslice

record KeyExchangeResponse =
  kxr_Ciphertext :: byteslice
  kxr_SharedSecret :: byteslice
  kxr_Timestamp :: gotime
  kxr_Signature :: byteslice

definition string_map :: "(bytes \<times> bytes) list \<Rightarrow> go_value" where
  "string_map m = GoMap (map (map_prod id GoString) m)"

definition omitempty :: "bool \<Rightarrow> (bytes \<times> bytes option) \<Rightarrow> (bytes \<times> bytes option) list" where
  "omitempty is_empty member = (if is_empty then [] else [member])"

definition marshal_ServiceKeyPair :: "ServiceKeyPair \<Rightarrow> bytes option" where
  "marshal_ServiceKeyPair k =
     marshal_object
       ([(''service_id'', json_Marshal (GoString (skp_ServiceID k))),
         (''public_key'', json_Marshal (GoBytes (skp_PublicKey k)))]
        @ omitempty (slice_bytes (skp_PrivateKey k) = [])
            (''private_key'', json_Marshal (GoBytes (skp_PrivateKey k))))"

definition marshal_ServiceRequest :: "ServiceRequest \<Rightarrow> bytes option" where
  "marshal_ServiceRequest r =
     marshal_object
       ([(''service_id'', json_Marshal (GoString (req_ServiceID r))),
         (''timestamp'', json_Marshal (GoTime (req_Timestamp r))),
         (''data'', marshal_RawMessage (req_Data r)),
         (''signature'', json_Marshal (GoBytes (req_Signature r)))]
        @ omitempty (req_Headers r = [])
            (''headers'', json_Marshal (string_map (req_Headers r))))"

definition marshal_ServiceResponse :: "ServiceResponse \<Rightarrow> bytes option" where
  "marshal_ServiceResponse r =
     marshal_object
       ([(''service_id'', json_Marshal (GoString (resp_ServiceID r))),
         (''timestamp'', json_Marshal (GoTime (resp_Timestamp r))),
         (''data'', marshal_RawMessage (resp_Data r)),
         (''signature'', json_Marshal (GoBytes (resp_Signature r)))]
        @ omitempty (resp_Headers r = [])
            (''headers'', json_Marshal (string_map (resp_Headers r)))
        @ [(''success'', json_Marshal (GoBool (resp_Success r)))]
        @ omitempty (resp_Error r = [])
            (''error'', json_Marshal (GoString (resp_Error r))))"

definition marshal_KeyExchangeRequest :: "KeyExchangeRequest \<Rightarrow> bytes option" where
  "marshal_KeyExchangeRequest r =
     marshal_object
       [(''service_id'', json_Marshal (GoString (kx_ServiceID r))),
        (''kyber_public_key'', json_Marshal (GoBytes (kx_KyberPublicKey r))),
        (''timestamp'', json_Marshal (GoTime (kx_Timestamp r))),
        (''signature'', json_Marshal (GoBytes (kx_Signature r)))]"

definition marshal_KeyExchangeResponse :: "KeyExchangeResponse \<Rightarrow> bytes option" where
  "marshal_KeyExchangeResponse r =
     marshal_object
       ([(''ciphertext'', json_Marshal (GoBytes (kxr_Ciphertext r)))]
        @ omitempty (slice_bytes (kxr_SharedSecret r) = [])
            (''shared_secret'', json_Marshal (GoBytes (kxr_SharedSecret r)))
        @ [(''timestamp'', json_Marshal (GoTime (kxr_Timestamp r))),
           (''signature'', json_Marshal (GoBytes (kxr_Signature r)))])"

section \<open>pkg/pqc: DeserializePublicKeyFromJSON (utils.go)\<close>

text \<open>
  \<^verbatim>\<open>byte(b)\<close> for a \<^verbatim>\<open>float64\<close> holding a whole number from 0 to 255 is that number;
  outside of that range the Go specification leaves the result to the implementation,
  and the model takes the number modulo 256.
\<close>

definition byte_of_float64 :: "int \<Rightarrow> char" where
  "byte_of_float64 x = char_of (nat (x mod 256))"

text \<open>
  The loop over a \<^verbatim>\<open>[]interface{}\<close> that both decoders have: every element must be a
  \<^verbatim>\<open>float64\<close>; the error of the first that is not comes from the index.
\<close>

fun floats_to_bytes :: "(nat \<Rightarrow> error) \<Rightarrow> nat \<Rightarrow> go_value list \<Rightarrow> error + bytes" where
  "floats_to_bytes mk i [] = Inr []"
| "floats_to_bytes mk i (GoFloat64 x # vs) =
     (case floats_to_bytes mk (Suc i) vs of
        Inl e \<Rightarrow> Inl e
      | Inr pubKey \<Rightarrow> Inr (byte_of_float64 (sint x) # pubKey))"
| "floats_to_bytes mk i (v # vs) = Inl (mk i)"

fun deserialize_value :: "go_value \<Rightarrow> error + bytes" where
  "deserialize_value (GoString keyString) =
     (case DecodeString keyString of
        None \<Rightarrow> Inl Base64DecodeFailed
      | Some pubKey \<Rightarrow> Inr pubKey)"
| "deserialize_value (GoSlice publicKeySlice) =
     floats_to_bytes InvalidPublicKeyByteFormatAt 0 publicKeySlice"
| "deserialize_value (GoBytes directBytes) = Inr (slice_bytes directBytes)"
| "deserialize_value v = Inl InvalidPublicKeyFormatGot"

definition DeserializePublicKeyFromJSON :: "(bytes \<times> go_value) list \<Rightarrow> error + bytes" where
  "DeserializePublicKeyFromJSON keyData =
     (case map_of keyData ''public_key'' of
        None \<Rightarrow> Inl PublicKeyFieldNotFound
      | Some publicKeyRaw \<Rightarrow> deserialize_value publicKeyRaw)"

section \<open>HTTP exchanges\<close>

text \<open>
  What a handler writes: a status with a plain text (\<^verbatim>\<open>http.Error\<close>, \<^verbatim>\<open>w.Write\<close>), or
  a status with the JSON encoding of a value. What a client gets back from a call: no
  answer (the call failed or timed out), or a status and the body as
  \<^verbatim>\<open>json.NewDecoder(resp.Body).Decode\<close> reads it into the struct, \<open>None\<close> when the body
  does not decode. A request body that does not decode is \<open>None\<close> in the same way.
\<close>

datatype 'a http_response = HttpText nat bytes | HttpJSON nat 'a

datatype 'a http_reply = TransportFailure | Reply nat "'a option"

text \<open>
  \<^verbatim>\<open>json.Unmarshal(data, &keyData)\<close> for a \<^verbatim>\<open>map[string]interface{}\<close>. The parser of
  the standard library is a parameter \<open>J\<close>, the text's value as \<^verbatim>\<open>interface{}\<close> or
  \<open>None\<close> for a text that is not JSON. The text \<^verbatim>\<open>null\<close> leaves the map \<^verbatim>\<open>nil\<close>; a value
  that is no object is an error.
\<close>

fun as_map :: "go_value option \<Rightarrow> (bytes \<times> go_value) list option" where
  "as_map (Some (GoMap m)) = Some m"
| "as_map (Some GoNil) = Some []"
| "as_map v = None"

definition Unmarshal_map :: "(bytes \<Rightarrow> go_value option) \<Rightarrow> byteslice \<Rightarrow> (bytes \<times> go_value) list option" where
  "Unmarshal_map J data = as_map (J (slice_bytes data))"

section \<open>cmd/auth: the Identity Registry (main.go)\<close>

text \<open>
  The handlers run one at a time in the model: the \<^verbatim>\<open>sync.RWMutex\<close> of each service
  is left out, and so is logging. Every \<^verbatim>\<open>time.Now()\<close> of a handler is an argument.
  A handler takes the state of its service and returns what it writes, and the new
  state when it changes it.
\<close>

record ('pk, 'sk, 'kpk, 'ksk) AuthService =
  as_dilithiumKeyPair :: "('pk, 'sk) DilithiumKeyPair"
  as_kyberKeyPair :: "('kpk, 'ksk) KyberKeyPair"
  serviceRegistry :: "bytes \<rightharpoonup> byteslice"
  as_serviceID :: bytes

definition NewAuthService ::
  "('pk, 'sk) mode3 \<Rightarrow> ('pk, 'sk) DilithiumKeyPair \<Rightarrow> ('kpk, 'ksk) KyberKeyPair
   \<Rightarrow> ('pk, 'sk, 'kpk, 'ksk) AuthService" where
  "NewAuthService L dilithiumKeyPair kyberKeyPair =
     \<lparr>as_dilithiumKeyPair = dilithiumKeyPair, as_kyberKeyPair = kyberKeyPair,
      serviceRegistry = [''auth-service'' \<mapsto> Some (GetPublicKeyBytes L dilithiumKeyPair)],
      as_serviceID = ''auth-service''\<rparr>"

text \<open>
  The signed answer of the registry's handlers: the \<^verbatim>\<open>ServiceResponse\<close> around the
  marshalled \<open>response\<close>. The error of \<^verbatim>\<open>json.Marshal\<close> is dropped by the code, which
  goes on with a \<^verbatim>\<open>nil\<close> text then.
\<close>

definition signed_response ::
  "('pk, 'sk) mode3 \<Rightarrow> ('pk, 'sk) DilithiumKeyPair \<Rightarrow> bytes \<Rightarrow> go_value \<Rightarrow> gotime
   \<Rightarrow> ServiceResponse http_response" where
  "signed_response L keyPair serviceID response now =
     (let responseData = json_Marshal response
      in case Sign L keyPair (slice_bytes responseData) of
           Inl e \<Rightarrow> HttpText 500 ''Internal server error''
         | Inr signature \<Rightarrow>
             HttpJSON 200
               \<lparr>resp_ServiceID = serviceID, resp_Timestamp = now, resp_Data = responseData,
                resp_Signature = Some signature, resp_Headers = [], resp_Success = True,
                resp_Error = []\<rparr>)"

definition registerService ::
  "('pk, 'sk) mode3 \<Rightarrow> ('pk, 'sk, 'kpk, 'ksk) AuthService \<Rightarrow> ServiceKeyPair option
   \<Rightarrow> gotime \<Rightarrow> gotime
   \<Rightarrow> ServiceResponse http_response \<times> ('pk, 'sk, 'kpk, 'ksk) AuthService" where
  "registerService L as body now1 now2 =
     (case body of
        None \<Rightarrow> (HttpText 400 ''Invalid request body'', as)
      | Some keyPair \<Rightarrow>
          (signed_response L (as_dilithiumKeyPair as) (as_serviceID as)
             (GoMap [(''status'', GoString ''success''),
                     (''service_id'', GoString (skp_ServiceID keyPair)),
                     (''message'', GoString ''Service registered successfully''),
                     (''timestamp'', GoTime now1)])
             now2,
           as\<lparr>serviceRegistry :=
                (serviceRegistry as)(skp_ServiceID keyPair \<mapsto> skp_PublicKey keyPair)\<rparr>))"

definition getPublicKey ::
  "('pk, 'sk) mode3 \<Rightarrow> ('pk, 'sk, 'kpk, 'ksk) AuthService \<Rightarrow> bytes \<Rightarrow> gotime \<Rightarrow> gotime
   \<Rightarrow> ServiceResponse http_response" where
  "getPublicKey L as serviceID now1 now2 =
     (case serviceRegistry as serviceID of
        None \<Rightarrow> HttpText 404 ''Service not found''
      | Some publicKey \<Rightarrow>
          signed_response L (as_dilithiumKeyPair as) (as_serviceID as)
            (GoMap [(''service_id'', GoString serviceID),
                    (''public_key'', GoBytes publicKey),
                    (''timestamp'', GoTime now1)])
            now2)"

text \<open>
  \<^verbatim>\<open>listServices\<close>: \<open>services\<close> is the slice that the loop over the map fills with the
  registered ids, in the order of Go's map iteration, which is not fixed.
\<close>

definition listServices ::
  "('pk, 'sk) mode3 \<Rightarrow> ('pk, 'sk, 'kpk, 'ksk) AuthService \<Rightarrow> bytes list \<Rightarrow> gotime \<Rightarrow> gotime
   \<Rightarrow> ServiceResponse http_response" where
  "listServices L as services now1 now2 =
     signed_response L (as_dilithiumKeyPair as) (as_serviceID as)
       (GoMap [(''services'', GoSlice (map GoString services)),
               (''count'', GoInt (int (length services))),
               (''timestamp'', GoTime now1)])
       now2"

text \<open>
  \<open>seed\<close> is what \<^verbatim>\<open>rand.Read\<close> gives \<^verbatim>\<open>EncapsulateWithPublicKey\<close>. The shared secret
  that the encapsulation returns is the \<^verbatim>\<open>_\<close> of the code.
\<close>

definition keyExchange ::
  "('pk, 'sk) mode3 \<Rightarrow> ('kpk, 'ksk) kyber768 \<Rightarrow> ('pk, 'sk, 'kpk, 'ksk) AuthService
   \<Rightarrow> KeyExchangeRequest option \<Rightarrow> bytes option \<Rightarrow> gotime
   \<Rightarrow> KeyExchangeResponse http_response" where
  "keyExchange L Q as body seed now =
     (case body of
        None \<Rightarrow> HttpText 400 ''Invalid request body''
      | Some request \<Rightarrow>
          (case serviceRegistry as (kx_ServiceID request) of
             None \<Rightarrow> HttpText 401 ''Service not registered''
           | Some servicePublicKey \<Rightarrow>
               (let requestData = json_Marshal
                      (GoMap [(''service_id'', GoString (kx_ServiceID request)),
                              (''kyber_public_key'', GoBytes (kx_KyberPublicKey request)),
                              (''timestamp'', GoTime (kx_Timestamp request))])
                in case VerifyDilithiumSignature L (slice_bytes servicePublicKey)
                          (slice_bytes requestData) (slice_bytes (kx_Signature request)) of
                     Some e \<Rightarrow> HttpText 401 ''Invalid signature''
                   | None \<Rightarrow>
                       (case EncapsulateWithPublicKey Q (slice_bytes (kx_KyberPublicKey request)) seed of
                          Inl e \<Rightarrow> HttpText 500 ''Encapsulation failed''
                        | Inr (ciphertext, sharedSecret) \<Rightarrow>
                            (let response = \<lparr>kxr_Ciphertext = Some ciphertext,
                                             kxr_SharedSecret = None, kxr_Timestamp = now,
                                             kxr_Signature = None\<rparr>;
                                 responseData = marshal_KeyExchangeResponse response
                             in case Sign L (as_dilithiumKeyPair as) (slice_bytes responseData) of
                                  Inl e \<Rightarrow> HttpText 500 ''Internal server error''
                                | Inr signature \<Rightarrow>
                                    HttpJSON 200 (response\<lparr>kxr_Signature := Some signature\<rparr>))))))"

section \<open>cmd/gateway: the Requesting Party (main.go)\<close>

record ('pk, 'sk, 'kpk, 'ksk) APIGateway =
  gw_dilithiumKeyPair :: "('pk, 'sk) DilithiumKeyPair"
  gw_kyberKeyPair :: "('kpk, 'ksk) KyberKeyPair"
  gw_serviceID :: bytes
  gw_authServiceURL :: bytes
  gw_backendServiceURL :: bytes
  gw_publicKeyCache :: "bytes \<rightharpoonup> bytes"

text \<open>
  \<open>registry\<close> is the Registry as the caller reaches it: the answer to
  \<^verbatim>\<open>GET /public-key/{serviceID}\<close>. It is asked only when the cache has no entry.
\<close>

definition gw_getServicePublicKey ::
  "(bytes \<Rightarrow> go_value option) \<Rightarrow> ('pk, 'sk, 'kpk, 'ksk) APIGateway \<Rightarrow> bytes
   \<Rightarrow> (bytes \<Rightarrow> ServiceResponse http_reply)
   \<Rightarrow> (error + bytes) \<times> ('pk, 'sk, 'kpk, 'ksk) APIGateway" where
  "gw_getServicePublicKey J gw serviceID registry =
     (case gw_publicKeyCache gw serviceID of
        Some publicKey \<Rightarrow> (Inr publicKey, gw)
      | None \<Rightarrow>
          (case registry serviceID of
             TransportFailure \<Rightarrow> (Inl FetchPublicKeyFailed, gw)
           | Reply status body \<Rightarrow>
               if status \<noteq> 200 then (Inl (GetPublicKeyStatus status), gw)
               else (case body of
                       None \<Rightarrow> (Inl DecodeResponseFailed, gw)
                     | Some response \<Rightarrow>
                         (case Unmarshal_map J (resp_Data response) of
                            None \<Rightarrow> (Inl UnmarshalKeyDataFailed, gw)
                          | Some keyData \<Rightarrow>
                              (case DeserializePublicKeyFromJSON keyData of
                                 Inl e \<Rightarrow> (Inl (DeserializePublicKeyFailed e), gw)
                               | Inr publicKeyBytes \<Rightarrow>
                                   (Inr publicKeyBytes,
                                    gw\<lparr>gw_publicKeyCache :=
                                         (gw_publicKeyCache gw)(serviceID \<mapsto> publicKeyBytes)\<rparr>))))))"

text \<open>
  An inbound request: \<open>rq_Body\<close> is what \<^verbatim>\<open>io.ReadAll(r.Body)\<close> returns, \<open>None\<close> for its
  error; \<open>rq_Header\<close> is the map \<^verbatim>\<open>r.Header\<close>. An outbound request is what
  \<^verbatim>\<open>http.NewRequest\<close> was given and the headers set on it.
\<close>

record inbound_request =
  rq_Method :: bytes
  rq_Path :: bytes
  rq_Header :: "(bytes \<times> bytes list) list"
  rq_Body :: "bytes option"

record outbound_request =
  out_Method :: bytes
  out_URL :: bytes
  out_Body :: bytes
  out_Header :: "(bytes \<times> bytes) list"

text \<open>The loop over \<^verbatim>\<open>r.Header\<close>: the first value of every key that has one.\<close>

fun first_values :: "(bytes \<times> bytes list) list \<Rightarrow> (bytes \<times> bytes) list" where
  "first_values [] = []"
| "first_values ((key, []) # hs) = first_values hs"
| "first_values ((key, v # vs) # hs) = (key, v) # first_values hs"

text \<open>
  The request the gateway builds and signs: step one of \<^verbatim>\<open>forwardToBackend\<close>, up to
  the signed payload. The results are the request with its signature and the payload
  that was signed, or the answer written on an error.
\<close>

definition build_signed_request ::
  "('pk, 'sk) mode3 \<Rightarrow> ('pk, 'sk, 'kpk, 'ksk) APIGateway \<Rightarrow> inbound_request \<Rightarrow> gotime
   \<Rightarrow> ServiceResponse http_response + (ServiceRequest \<times> bytes)" where
  "build_signed_request L gw r now =
     (case rq_Body r of
        None \<Rightarrow> Inl (HttpText 500 ''Failed to read request'')
      | Some body \<Rightarrow>
          (let requestBody = (if length body = 0 then ''{}'' else body);
               requestData = \<lparr>req_ServiceID = gw_serviceID gw, req_Timestamp = now,
                              req_Data = Some requestBody, req_Signature = None,
                              req_Headers = first_values (rq_Header r)\<rparr>
           in case marshal_ServiceRequest requestData of
                None \<Rightarrow> Inl (HttpText 500 ''Internal server error'')
              | Some requestPayload \<Rightarrow>
                  (case Sign L (gw_dilithiumKeyPair gw) requestPayload of
                     Inl e \<Rightarrow> Inl (HttpText 500 ''Internal server error'')
                   | Inr signature \<Rightarrow>
                       Inr (requestData\<lparr>req_Signature := Some signature\<rparr>, requestPayload))))"

text \<open>
  \<^verbatim>\<open>forwardToBackend\<close>. \<open>url_ok\<close> says which URLs \<^verbatim>\<open>http.NewRequest\<close> accepts;
  \<open>backend\<close> is the backend as the gateway reaches it, and \<open>registry\<close> the Registry. The
  results are the answer to the client, the request sent to the backend if one was
  sent, and the gateway's new state.
\<close>

definition forwardToBackend ::
  "('pk, 'sk) mode3 \<Rightarrow> (bytes \<Rightarrow> go_value option) \<Rightarrow> ('pk, 'sk, 'kpk, 'ksk) APIGateway
   \<Rightarrow> inbound_request \<Rightarrow> gotime \<Rightarrow> (bytes \<Rightarrow> bool)
   \<Rightarrow> (outbound_request \<Rightarrow> ServiceResponse http_reply)
   \<Rightarrow> (bytes \<Rightarrow> ServiceResponse http_reply)
   \<Rightarrow> ServiceResponse http_response \<times> outbound_request option
      \<times> ('pk, 'sk, 'kpk, 'ksk) APIGateway" where
  "forwardToBackend L J gw r now url_ok backend registry =
     (case build_signed_request L gw r now of
        Inl answer \<Rightarrow> (answer, None, gw)
      | Inr (requestData, requestPayload) \<Rightarrow>
          (let signedPayload = slice_bytes (marshal_ServiceRequest requestData);
               url = gw_backendServiceURL gw @ rq_Path r
           in if \<not> url_ok url then (HttpText 500 ''Internal server error'', None, gw)
              else
                (let req = \<lparr>out_Method = ''POST'', out_URL = url, out_Body = signedPayload,
                            out_Header = [(''Content-Type'', ''application/json''),
                                          (''X-Service-ID'', gw_serviceID gw)]\<rparr>
                 in case backend req of
                      TransportFailure \<Rightarrow>
                        (HttpText 503 ''Backend service unavailable'', Some req, gw)
                    | Reply status body \<Rightarrow>
                        (case body of
                           None \<Rightarrow> (HttpText 500 ''Invalid backend response'', Some req, gw)
                         | Some backendResponse \<Rightarrow>
                             (case gw_getServicePublicKey J gw ''backend-service'' registry of
                                (Inl e, gw') \<Rightarrow>
                                  (HttpText 500 ''Authentication error'', Some req, gw')
                              | (Inr backendPublicKey, gw') \<Rightarrow>
                                  (case VerifyDilithiumSignature L backendPublicKey
                                          (slice_bytes (resp_Data backendResponse))
                                          (slice_bytes (resp_Signature backendResponse)) of
                                     Some e \<Rightarrow>
                                       (HttpText 401 ''Invalid backend signature'', Some req, gw')
                                   | None \<Rightarrow>
                                       (HttpJSON status backendResponse, Some req, gw')))))))"

definition handleRequest ::
  "('pk, 'sk) mode3 \<Rightarrow> (bytes \<Rightarrow> go_value option) \<Rightarrow> ('pk, 'sk, 'kpk, 'ksk) APIGateway
   \<Rightarrow> inbound_request \<Rightarrow> gotime \<Rightarrow> (bytes \<Rightarrow> bool)
   \<Rightarrow> (outbound_request \<Rightarrow> ServiceResponse http_reply)
   \<Rightarrow> (bytes \<Rightarrow> ServiceResponse http_reply)
   \<Rightarrow> ServiceResponse http_response \<times> outbound_request option
      \<times> ('pk, 'sk, 'kpk, 'ksk) APIGateway" where
  "handleRequest L J gw r now url_ok backend registry =
     (if rq_Path r = ''/health'' then (HttpText 200 ''Gateway OK'', None, gw)
      else forwardToBackend L J gw r now url_ok backend registry)"

text \<open>
  \<^verbatim>\<open>performKeyExchange\<close>. \<open>auth\<close> is the Registry's \<^verbatim>\<open>/key-exchange\<close> as the gateway
  reaches it. The function returns an \<^verbatim>\<open>error\<close> only; the model also returns, for
  \<^verbatim>\<open>nil\<close>, the shared secret that the function derived (and logs the size of). The
  outer \<open>None\<close> is a panic of the KEM library.
\<close>

definition performKeyExchange ::
  "('pk, 'sk) mode3 \<Rightarrow> ('kpk, 'ksk) kyber768 \<Rightarrow> ('pk, 'sk, 'kpk, 'ksk) APIGateway \<Rightarrow> gotime
   \<Rightarrow> (KeyExchangeRequest \<Rightarrow> KeyExchangeResponse http_reply)
   \<Rightarrow> (error + bytes) option" where
  "performKeyExchange L Q gw now auth =
     (let request = \<lparr>kx_ServiceID = gw_serviceID gw,
                      kx_KyberPublicKey = Some (KyberGetPublicKeyBytes Q (gw_kyberKeyPair gw)),
                      kx_Timestamp = now, kx_Signature = None\<rparr>;
          requestData = json_Marshal
            (GoMap [(''service_id'', GoString (kx_ServiceID request)),
                    (''kyber_public_key'', GoBytes (kx_KyberPublicKey request)),
                    (''timestamp'', GoTime (kx_Timestamp request))])
      in case Sign L (gw_dilithiumKeyPair gw) (slice_bytes requestData) of
           Inl e \<Rightarrow> Some (Inl (SignKeyExchangeFailed e))
         | Inr signature \<Rightarrow>
             (case auth (request\<lparr>kx_Signature := Some signature\<rparr>) of
                TransportFailure \<Rightarrow> Some (Inl KeyExchangeRequestFailed)
              | Reply status body \<Rightarrow>
                  if status \<noteq> 200 then Some (Inl (KeyExchangeStatus status))
                  else (case body of
                          None \<Rightarrow> Some (Inl DecodeKeyExchangeResponseFailed)
                        | Some response \<Rightarrow>
                            (case Decapsulate Q (gw_kyberKeyPair gw)
                                    (slice_bytes (kxr_Ciphertext response)) of
                               None \<Rightarrow> None
                             | Some (Inl e) \<Rightarrow> Some (Inl (DecapsulateFailed e))
                             | Some (Inr sharedSecret) \<Rightarrow> Some (Inr sharedSecret)))))"

section \<open>The Responding Party (the backend service's main.go)\<close>

text \<open>\<^verbatim>\<open>requestCounter\<close> is a Go \<^verbatim>\<open>int\<close>: 64 bits, and \<^verbatim>\<open>++\<close> wraps around.\<close>

record ('pk, 'sk, 'kpk, 'ksk) BackendService =
  bs_dilithiumKeyPair :: "('pk, 'sk) DilithiumKeyPair"
  bs_kyberKeyPair :: "('kpk, 'ksk) KyberKeyPair"
  bs_serviceID :: bytes
  bs_authServiceURL :: bytes
  bs_publicKeyCache :: "bytes \<rightharpoonup> bytes"
  requestCounter :: "64 word"

text \<open>
  The conversion of the key that the backend has in \<^verbatim>\<open>getServicePublicKey\<close> itself:
  it accepts a \<^verbatim>\<open>[]interface{}\<close> of numbers and nothing else.
\<close>

fun backend_key_value :: "go_value option \<Rightarrow> error + bytes" where
  "backend_key_value (Some (GoSlice publicKeyBytes)) =
     floats_to_bytes (\<lambda>i. InvalidPublicKeyByteFormat) 0 publicKeyBytes"
| "backend_key_value v = Inl InvalidPublicKeyFormat"

definition bs_getServicePublicKey ::
  "(bytes \<Rightarrow> go_value option) \<Rightarrow> ('pk, 'sk, 'kpk, 'ksk) BackendService \<Rightarrow> bytes
   \<Rightarrow> (bytes \<Rightarrow> ServiceResponse http_reply)
   \<Rightarrow> (error + bytes) \<times> ('pk, 'sk, 'kpk, 'ksk) BackendService" where
  "bs_getServicePublicKey J bs serviceID registry =
     (case bs_publicKeyCache bs serviceID of
        Some publicKey \<Rightarrow> (Inr publicKey, bs)
      | None \<Rightarrow>
          (case registry serviceID of
             TransportFailure \<Rightarrow> (Inl FetchPublicKeyFailed, bs)
           | Reply status body \<Rightarrow>
               if status \<noteq> 200 then (Inl (GetPublicKeyStatus status), bs)
               else (case body of
                       None \<Rightarrow> (Inl DecodeResponseFailed, bs)
                     | Some response \<Rightarrow>
                         (case Unmarshal_map J (resp_Data response) of
                            None \<Rightarrow> (Inl UnmarshalKeyDataFailed, bs)
                          | Some keyData \<Rightarrow>
                              (case backend_key_value (map_of keyData ''public_key'') of
                                 Inl e \<Rightarrow> (Inl e, bs)
                               | Inr pubKey \<Rightarrow>
                                   (Inr pubKey,
                                    bs\<lparr>bs_publicKeyCache :=
                                         (bs_publicKeyCache bs)(serviceID \<mapsto> pubKey)\<rparr>))))))"

text \<open>The bytes the backend checks the signature on: the request with no signature.\<close>

definition verification_payload :: "ServiceRequest \<Rightarrow> bytes option" where
  "verification_payload request =
     marshal_ServiceRequest
       \<lparr>req_ServiceID = req_ServiceID request, req_Timestamp = req_Timestamp request,
        req_Data = req_Data request, req_Signature = None,
        req_Headers = req_Headers request\<rparr>"

definition verifyRequest ::
  "('pk, 'sk) mode3 \<Rightarrow> (bytes \<Rightarrow> go_value option) \<Rightarrow> ('pk, 'sk, 'kpk, 'ksk) BackendService
   \<Rightarrow> ServiceRequest \<Rightarrow> (bytes \<Rightarrow> ServiceResponse http_reply)
   \<Rightarrow> error option \<times> ('pk, 'sk, 'kpk, 'ksk) BackendService" where
  "verifyRequest L J bs request registry =
     (case bs_getServicePublicKey J bs (req_ServiceID request) registry of
        (Inl e, bs') \<Rightarrow> (Some (GetPublicKeyFailed e), bs')
      | (Inr publicKey, bs') \<Rightarrow>
          (case verification_payload request of
             None \<Rightarrow> (Some MarshalRequestFailed, bs')
           | Some payload \<Rightarrow>
               (case VerifyDilithiumSignature L publicKey payload
                       (slice_bytes (req_Signature request)) of
                  Some e \<Rightarrow> (Some (SignatureVerificationFailed e), bs')
                | None \<Rightarrow> (None, bs'))))"

text \<open>
  The part of \<^verbatim>\<open>processEcho\<close> and \<^verbatim>\<open>processData\<close> after the verification, which is the
  same in both but for the payload: the counter goes up, the payload is built from the
  new count, marshalled, signed and returned.
\<close>

definition count_and_respond ::
  "('pk, 'sk) mode3 \<Rightarrow> ('pk, 'sk, 'kpk, 'ksk) BackendService \<Rightarrow> (64 word \<Rightarrow> go_value) \<Rightarrow> gotime
   \<Rightarrow> ServiceResponse http_response \<times> ('pk, 'sk, 'kpk, 'ksk) BackendService" where
  "count_and_respond L bs payload now =
     (let bs' = bs\<lparr>requestCounter := requestCounter bs + 1\<rparr>;
          currentCount = requestCounter bs'
      in case json_Marshal (payload currentCount) of
           None \<Rightarrow> (HttpText 500 ''Internal server error'', bs')
         | Some responsePayload \<Rightarrow>
             (case Sign L (bs_dilithiumKeyPair bs') responsePayload of
                Inl e \<Rightarrow> (HttpText 500 ''Internal server error'', bs')
              | Inr signature \<Rightarrow>
                  (HttpJSON 200
                     \<lparr>resp_ServiceID = bs_serviceID bs', resp_Timestamp = now,
                      resp_Data = Some responsePayload, resp_Signature = Some signature,
                      resp_Headers = [], resp_Success = True, resp_Error = []\<rparr>,
                   bs')))"

text \<open>
  \<open>elapsed\<close> is the text of \<^verbatim>\<open>time.Since(start)\<close>. When the data of the request is
  not JSON, the echo carries it as a string.
\<close>

definition echo_payload ::
  "(bytes \<Rightarrow> go_value option) \<Rightarrow> bytes \<Rightarrow> ServiceRequest \<Rightarrow> gotime \<Rightarrow> bytes \<Rightarrow> 64 word \<Rightarrow> go_value" where
  "echo_payload J serviceID request now elapsed currentCount =
     GoMap [(''message'', GoString ''Echo from Backend Service''),
            (''original_data'',
               (case J (slice_bytes (req_Data request)) of
                  None \<Rightarrow> GoString (slice_bytes (req_Data request))
                | Some requestData \<Rightarrow> requestData)),
            (''service_id'', GoString serviceID),
            (''request_count'', GoInt (sint currentCount)),
            (''timestamp'', GoTime now),
            (''processing_time'', GoString elapsed),
            (''from_service'', GoString (req_ServiceID request))]"

definition processEcho ::
  "('pk, 'sk) mode3 \<Rightarrow> (bytes \<Rightarrow> go_value option) \<Rightarrow> ('pk, 'sk, 'kpk, 'ksk) BackendService
   \<Rightarrow> ServiceRequest option \<Rightarrow> (bytes \<Rightarrow> ServiceResponse http_reply)
   \<Rightarrow> gotime \<Rightarrow> bytes \<Rightarrow> gotime
   \<Rightarrow> ServiceResponse http_response \<times> ('pk, 'sk, 'kpk, 'ksk) BackendService" where
  "processEcho L J bs body registry now1 elapsed now2 =
     (case body of
        None \<Rightarrow> (HttpText 400 ''Invalid request format'', bs)
      | Some request \<Rightarrow>
          (case verifyRequest L J bs request registry of
             (Some e, bs') \<Rightarrow> (HttpText 401 ''Request verification failed'', bs')
           | (None, bs') \<Rightarrow>
               count_and_respond L bs'
                 (echo_payload J (bs_serviceID bs') request now1 elapsed) now2))"

text \<open>
  \<^verbatim>\<open>processData\<close> unmarshals the data into a map. The text \<^verbatim>\<open>null\<close> leaves the map
  \<^verbatim>\<open>nil\<close>, which is written as \<^verbatim>\<open>null\<close> again; what is not a JSON object (or
  \<^verbatim>\<open>null\<close>) is carried as the string \<^verbatim>\<open>raw_data\<close>.
\<close>

fun input_data :: "go_value option \<Rightarrow> bytes \<Rightarrow> go_value" where
  "input_data (Some (GoMap inputData)) raw = GoMap inputData"
| "input_data (Some GoNil) raw = GoNil"
| "input_data v raw = GoMap [(''raw_data'', GoString raw)]"

definition data_payload ::
  "(bytes \<Rightarrow> go_value option) \<Rightarrow> bytes \<Rightarrow> ServiceRequest \<Rightarrow> gotime \<Rightarrow> bytes \<Rightarrow> 64 word \<Rightarrow> go_value" where
  "data_payload J serviceID request now elapsed currentCount =
     GoMap [(''service_id'', GoString serviceID),
            (''operation'', GoString ''data_transformation''),
            (''input'',
               input_data (J (slice_bytes (req_Data request))) (slice_bytes (req_Data request))),
            (''transformed_at'', GoTime now),
            (''request_count'', GoInt (sint currentCount)),
            (''processing_time'', GoString elapsed),
            (''metadata'',
               GoMap [(''quantum_safe'', GoBool True),
                      (''algorithm'', GoString ''Dilithium3''),
                      (''from_service'', GoString (req_ServiceID request))])]"

definition processData ::
  "('pk, 'sk) mode3 \<Rightarrow> (bytes \<Rightarrow> go_value option) \<Rightarrow> ('pk, 'sk, 'kpk, 'ksk) BackendService
   \<Rightarrow> ServiceRequest option \<Rightarrow> (bytes \<Rightarrow> ServiceResponse http_reply)
   \<Rightarrow> gotime \<Rightarrow> bytes \<Rightarrow> gotime
   \<Rightarrow> ServiceResponse http_response \<times> ('pk, 'sk, 'kpk, 'ksk) BackendService" where
  "processData L J bs body registry now1 elapsed now2 =
     (case body of
        None \<Rightarrow> (HttpText 400 ''Invalid request format'', bs)
      | Some request \<Rightarrow>
          (case verifyRequest L J bs request registry of
             (Some e, bs') \<Rightarrow> (HttpText 401 ''Request verification failed'', bs')
           | (None, bs') \<Rightarrow>
               count_and_respond L bs'
                 (data_payload J (bs_serviceID bs') request now1 elapsed) now2))"

section \<open>The mesh: Registry and backend together\<close>

text \<open>
  The answer to a call as the caller gets it: the status, and the body when it is the
  JSON of a response.
\<close>

fun delivered :: "'a http_response \<Rightarrow> 'a http_reply" where
  "delivered (HttpText status text) = Reply status None"
| "delivered (HttpJSON status v) = Reply status (Some v)"

text \<open>
  A lookup goes to the URL that \<^verbatim>\<open>fmt.Sprintf("%s/public-key/%s", ...)\<close> puts together
  from the id, with no escaping. What that URL reaches is decided by \<^verbatim>\<open>net/url\<close>, the
  HTTP client (which follows redirects) and the Registry's router (\<^verbatim>\<open>gorilla/mux\<close>),
  which are not code of this repository and a parameter \<open>route\<close> of the model. The
  Registry answers a GET in three ways. The URL reaches \<^verbatim>\<open>getPublicKey\<close> with some id
  as \<^verbatim>\<open>{serviceID}\<close>: for the id \<^verbatim>\<open>svc-a?x=1\<close> that is \<^verbatim>\<open>svc-a\<close>, the rest being the
  query. Or it reaches \<^verbatim>\<open>listServices\<close>, as it does for the id \<^verbatim>\<open>../services\<close> after the
  router's redirect to the cleaned path. Or the answer is a status with a text that is
  no JSON of a response: the router's 404 for the empty id or an id with a slash, its
  405 for the path of a handler of POST, the \<^verbatim>\<open>OK\<close> of \<^verbatim>\<open>/health\<close>.
\<close>

datatype lookup_target = PublicKeyOf bytes | ListOfServices | PlainText nat

text \<open>
  The Registry as another service reaches it at a given moment. The call fails when
  \<open>up\<close> is false; \<open>services\<close> is the order in which \<^verbatim>\<open>listServices\<close> would list the ids.
\<close>

definition registry_via ::
  "(bytes \<Rightarrow> lookup_target) \<Rightarrow> bytes list
   \<Rightarrow> ('pk, 'sk) mode3 \<Rightarrow> ('pk, 'sk, 'kpk, 'ksk) AuthService \<Rightarrow> bool \<Rightarrow> gotime \<Rightarrow> gotime
   \<Rightarrow> bytes \<Rightarrow> ServiceResponse http_reply" where
  "registry_via route services L as up now1 now2 serviceID =
     (if \<not> up then TransportFailure
      else case route serviceID of
             PublicKeyOf routed \<Rightarrow> delivered (getPublicKey L as routed now1 now2)
           | ListOfServices \<Rightarrow> delivered (listServices L as services now1 now2)
           | PlainText status \<Rightarrow> Reply status None)"

text \<open>
  The same for an id that the URL carries to the handler as it stands, as it does an id
  of letters, digits and hyphens.
\<close>

definition registry_of ::
  "('pk, 'sk) mode3 \<Rightarrow> ('pk, 'sk, 'kpk, 'ksk) AuthService \<Rightarrow> bool \<Rightarrow> gotime \<Rightarrow> gotime
   \<Rightarrow> bytes \<Rightarrow> ServiceResponse http_reply" where
  "registry_of L as up now1 now2 serviceID =
     (if up then delivered (getPublicKey L as serviceID now1 now2) else TransportFailure)"

text \<open>
  What the backend's reading of a lookup rests on in \<^verbatim>\<open>encoding/json\<close>:
  \<^verbatim>\<open>json.Marshal\<close> writes the key, a \<^verbatim>\<open>[]byte\<close>, as a string (or \<^verbatim>\<open>null\<close>), and
  \<^verbatim>\<open>json.Unmarshal\<close> reads a string as a Go string, \<^verbatim>\<open>null\<close> as \<^verbatim>\<open>nil\<close>, and no
  member that was not written: it finds no \<^verbatim>\<open>[]interface{}\<close> under \<^verbatim>\<open>public_key\<close>,
  neither in the data that \<^verbatim>\<open>getPublicKey\<close> wrote nor in the data that
  \<^verbatim>\<open>listServices\<close> wrote.
\<close>

definition reads_key_as_written :: "(bytes \<Rightarrow> go_value option) \<Rightarrow> bool" where
  "reads_key_as_written J \<longleftrightarrow>
     (\<forall>serviceID publicKey now keyData publicKeyBytes.
        Unmarshal_map J
          (json_Marshal (GoMap [(''service_id'', GoString serviceID),
                                (''public_key'', GoBytes publicKey),
                                (''timestamp'', GoTime now)])) = Some keyData
        \<longrightarrow> map_of keyData ''public_key'' \<noteq> Some (GoSlice publicKeyBytes))
   \<and> (\<forall>services now keyData publicKeyBytes.
        Unmarshal_map J
          (json_Marshal (GoMap [(''services'', GoSlice (map GoString services)),
                                (''count'', GoInt (int (length services))),
                                (''timestamp'', GoTime now)])) = Some keyData
        \<longrightarrow> map_of keyData ''public_key'' \<noteq> Some (GoSlice publicKeyBytes))"

text \<open>
  The states the Registry and a backend can be in together: the backend starts with an
  empty key cache; then services register, and the backend handles requests, looking
  keys up in the Registry as it is at that moment, through the router.
\<close>

inductive mesh_reachable ::
  "(bytes \<Rightarrow> lookup_target) \<Rightarrow> ('pk, 'sk) mode3 \<Rightarrow> (bytes \<Rightarrow> go_value option)
   \<Rightarrow> ('pk, 'sk, 'kpk, 'ksk) AuthService \<Rightarrow> ('pk2, 'sk2, 'kpk2, 'ksk2) BackendService \<Rightarrow> bool"
  for route :: "bytes \<Rightarrow> lookup_target" and L :: "('pk, 'sk) mode3"
    and J :: "bytes \<Rightarrow> go_value option" where
  start: "bs_publicKeyCache bs = Map.empty \<Longrightarrow> mesh_reachable route L J as bs"
| register: "mesh_reachable route L J as bs
     \<Longrightarrow> registerService L as body now1 now2 = (answer, as')
     \<Longrightarrow> mesh_reachable route L J as' bs"
| echo: "mesh_reachable route L J as bs
     \<Longrightarrow> processEcho L2 J bs body (registry_via route services L as up t1 t2) now1 elapsed now2
         = (answer, bs')
     \<Longrightarrow> mesh_reachable route L J as bs'"
| data: "mesh_reachable route L J as bs
     \<Longrightarrow> processData L2 J bs body (registry_via route services L as up t1 t2) now1 elapsed now2
         = (answer, bs')
     \<Longrightarrow> mesh_reachable route L J as bs'"

section \<open>A request on its way from the gateway to the backend\<close>

text \<open>
  What \<^verbatim>\<open>json.NewDecoder(r.Body).Decode(&request)\<close> reads at the backend from the text
  that \<^verbatim>\<open>json.Marshal\<close> wrote for a \<^verbatim>\<open>ServiceRequest\<close> at the gateway: every field is
  decoded from its own encoding. A string is unquoted from its literal, the time is
  parsed from its text (and is the same time), the raw message is the text of the
  member as it stands, the signature is decoded from base64 (\<^verbatim>\<open>null\<close> gives \<^verbatim>\<open>nil\<close>),
  the headers are unquoted key by key. \<open>None\<close> when marshalling fails.
\<close>

definition string_roundtrip :: "bytes \<Rightarrow> bytes option" where
  "string_roundtrip s = unquote (appendString_from 0 True s)"

fun bytes_roundtrip :: "byteslice \<Rightarrow> byteslice option" where
  "bytes_roundtrip None = Some None"
| "bytes_roundtrip (Some b) = map_option Some (DecodeString (EncodeToString b))"

fun both :: "bytes option \<Rightarrow> bytes option \<Rightarrow> (bytes \<times> bytes) option" where
  "both (Some k) (Some v) = Some (k, v)"
| "both k v = None"

fun header_roundtrip :: "bytes \<times> bytes \<Rightarrow> (bytes \<times> bytes) option" where
  "header_roundtrip (k, v) = both (string_roundtrip k) (string_roundtrip v)"

fun received_request ::
  "bytes option \<Rightarrow> bytes option \<Rightarrow> bytes option \<Rightarrow> byteslice option
   \<Rightarrow> (bytes \<times> bytes) list option \<Rightarrow> gotime \<Rightarrow> ServiceRequest option" where
  "received_request (Some serviceID) (Some timeText) (Some data) (Some signature) (Some headers) ts =
     Some \<lparr>req_ServiceID = serviceID, req_Timestamp = ts, req_Data = Some data,
           req_Signature = signature, req_Headers = headers\<rparr>"
| "received_request serviceID timeText data signature headers ts = None"

definition decode_marshalled :: "ServiceRequest \<Rightarrow> ServiceRequest option" where
  "decode_marshalled r =
     received_request (string_roundtrip (req_ServiceID r)) (marshal_time (req_Timestamp r))
       (marshal_RawMessage (req_Data r)) (bytes_roundtrip (req_Signature r))
       (sequence (map header_roundtrip (req_Headers r))) (req_Timestamp r)"

section \<open>A concrete mesh\<close>

text \<open>
  Concrete services over the stand-in libraries, on which the handlers are run in the
  examples below: a Registry that knows the gateway and the backend, a gateway and a
  backend with the key pairs generated from 7 and 3.
\<close>

definition demo_time :: gotime where
  "demo_time = RFC3339 ''2024-01-01T00:00:00Z''"

definition demo_kyber :: "(char, char) KyberKeyPair" where
  "demo_kyber = \<lparr>k_PublicKey = CHR 0x05, k_PrivateKey = CHR 0x05\<rparr>"

definition gateway_keys :: "(char, char) DilithiumKeyPair" where
  "gateway_keys = \<lparr>d_PublicKey = CHR 0x07, d_PrivateKey = CHR 0x07\<rparr>"

definition backend_keys :: "(char, char) DilithiumKeyPair" where
  "backend_keys = \<lparr>d_PublicKey = CHR 0x03, d_PrivateKey = CHR 0x03\<rparr>"

definition auth_keys :: "(char, char) DilithiumKeyPair" where
  "auth_keys = \<lparr>d_PublicKey = CHR 0x09, d_PrivateKey = CHR 0x09\<rparr>"

definition demo_auth :: "(char, char, char, char) AuthService" where
  "demo_auth =
     \<lparr>as_dilithiumKeyPair = auth_keys, as_kyberKeyPair = demo_kyber,
      serviceRegistry = [''auth-service'' \<mapsto> Some (replicate 1952 (CHR 0x09)),
                         ''api-gateway'' \<mapsto> Some (replicate 1952 (CHR 0x07)),
                         ''backend-service'' \<mapsto> Some (replicate 1952 (CHR 0x03))],
      as_serviceID = ''auth-service''\<rparr>"

definition demo_gateway :: "(char, char, char, char) APIGateway" where
  "demo_gateway =
     \<lparr>gw_dilithiumKeyPair = gateway_keys, gw_kyberKeyPair = demo_kyber,
      gw_serviceID = ''api-gateway'', gw_authServiceURL = ''http://localhost:8080'',
      gw_backendServiceURL = ''http://localhost:8082'', gw_publicKeyCache = Map.empty\<rparr>"

definition demo_backend :: "(char, char, char, char) BackendService" where
  "demo_backend =
     \<lparr>bs_dilithiumKeyPair = backend_keys, bs_kyberKeyPair = demo_kyber,
      bs_serviceID = ''backend-service'', bs_authServiceURL = ''http://localhost:8080'',
      bs_publicKeyCache = Map.empty, requestCounter = 0\<rparr>"

text \<open>A backend that holds the gateway's key in its cache.\<close>

definition demo_backend_cached :: "(char, char, char, char) BackendService" where
  "demo_backend_cached =
     demo_backend\<lparr>bs_publicKeyCache := [''api-gateway'' \<mapsto> replicate 1952 (CHR 0x07)]\<rparr>"

text \<open>A parser that takes no text for JSON, where the parser is not reached or does not matter.\<close>

definition no_json :: "bytes \<Rightarrow> go_value option" where
  "no_json text = None"

text \<open>
  A request of the gateway with an empty object as data and no headers, unsigned and
  signed by the gateway's key; and a request from a sender that never registered.
\<close>

definition demo_unsigned :: ServiceRequest where
  "demo_unsigned =
     \<lparr>req_ServiceID = ''api-gateway'', req_Timestamp = demo_time, req_Data = Some ''{}'',
      req_Signature = None, req_Headers = []\<rparr>"

definition demo_payload :: bytes where
  "demo_payload =
     bq ''{`service_id`:`api-gateway`,`timestamp`:`2024-01-01T00:00:00Z`,`data`:{},`signature`:null}''"

definition demo_signed :: ServiceRequest where
  "demo_signed =
     demo_unsigned\<lparr>req_Signature := Some (replicate 3293 (checksum (CHR 0x07) demo_payload))\<rparr>"

definition ghost_request :: ServiceRequest where
  "ghost_request = demo_signed\<lparr>req_ServiceID := ''svc-ghost''\<rparr>"

text \<open>
  A stand-in for \<^verbatim>\<open>json.Unmarshal\<close> into \<^verbatim>\<open>interface{}\<close>, for the texts the Registry
  writes as the data of its answers: an object without white space whose values are
  strings or \<^verbatim>\<open>null\<close>. Every other text is rejected. A string literal ends at the first
  quote that no backslash precedes; its content is decoded by \<open>unquote\<close>.
\<close>

fun split_literal :: "bool \<Rightarrow> bytes \<Rightarrow> bytes \<Rightarrow> (bytes \<times> bytes) option" where
  "split_literal escaped seen [] = None"
| "split_literal escaped seen (c # cs) =
     (if escaped then split_literal False (c # seen) cs
      else if c = bslash then split_literal True (c # seen) cs
      else if c = dquote then Some (rev seen, cs)
      else split_literal False (c # seen) cs)"

fun decoded_literal :: "(bytes \<times> bytes) option \<Rightarrow> (bytes \<times> bytes) option" where
  "decoded_literal None = None"
| "decoded_literal (Some (literal, rest)) = map_option (\<lambda>s. (s, rest)) (unquote literal)"

fun read_string :: "bytes \<Rightarrow> (bytes \<times> bytes) option" where
  "read_string [] = None"
| "read_string (c # cs) =
     (if c = dquote then decoded_literal (split_literal False [] cs) else None)"

definition read_value :: "bytes \<Rightarrow> (go_value \<times> bytes) option" where
  "read_value s =
     (if take 4 s = ''null'' then Some (GoNil, drop 4 s)
      else map_option (\<lambda>(v, rest). (GoString v, rest)) (read_string s))"

fun expect_char :: "char \<Rightarrow> bytes \<Rightarrow> bytes option" where
  "expect_char want [] = None"
| "expect_char want (c # cs) = (if c = want then Some cs else None)"

fun read_members :: "nat \<Rightarrow> bytes \<Rightarrow> (bytes \<times> go_value) list option" where
  "read_members 0 s = None"
| "read_members (Suc fuel) s =
     (case read_string s of
        None \<Rightarrow> None
      | Some (key, s1) \<Rightarrow>
          (case expect_char (CHR '':'') s1 of
             None \<Rightarrow> None
           | Some s2 \<Rightarrow>
               (case read_value s2 of
                  None \<Rightarrow> None
                | Some (v, s3) \<Rightarrow>
                    if s3 = ''}'' then Some [(key, v)]
                    else (case expect_char (CHR '','') s3 of
                            None \<Rightarrow> None
                          | Some s4 \<Rightarrow> map_option (Cons (key, v)) (read_members fuel s4)))))"

definition test_json :: "bytes \<Rightarrow> go_value option" where
  "test_json text =
     (if text = ''{}'' then Some (GoMap [])
      else case expect_char (CHR ''{'') text of
             None \<Rightarrow> None
           | Some s \<Rightarrow> map_option GoMap (read_members (length text) s))"

text \<open>
  A key-exchange request of the gateway, signed with its key, and the answer the
  Registry gives to it when \<^verbatim>\<open>rand.Read\<close> returns 32 bytes of 0x2A.
\<close>

definition demo_kx_data :: bytes where
  "demo_kx_data =
     slice_bytes (json_Marshal
       (GoMap [(''service_id'', GoString ''api-gateway''),
               (''kyber_public_key'', GoBytes (Some (replicate 1184 (CHR 0x05)))),
               (''timestamp'', GoTime demo_time)]))"

definition demo_kx_request :: KeyExchangeRequest where
  "demo_kx_request =
     \<lparr>kx_ServiceID = ''api-gateway'', kx_KyberPublicKey = Some (replicate 1184 (CHR 0x05)),
      kx_Timestamp = demo_time,
      kx_Signature = Some (replicate 3293 (checksum (CHR 0x07) demo_kx_data))\<rparr>"

definition demo_ciphertext :: bytes where
  "demo_ciphertext = replicate 32 (add_byte (CHR 0x05) (CHR 0x2A)) @ replicate 1056 (CHR 0x05)"

definition demo_kx_unsigned :: KeyExchangeResponse where
  "demo_kx_unsigned =
     \<lparr>kxr_Ciphertext = Some demo_ciphertext, kxr_SharedSecret = None,
      kxr_Timestamp = demo_time, kxr_Signature = None\<rparr>"

definition demo_kx_response :: KeyExchangeResponse where
  "demo_kx_response =
     demo_kx_unsigned\<lparr>kxr_Signature :=
       Some (replicate 3293 (checksum (CHR 0x09)
               (slice_bytes (marshal_KeyExchangeResponse demo_kx_unsigned))))\<rparr>"

text \<open>An answer to a key exchange that nobody signed.\<close>

definition forged_kx_response :: KeyExchangeResponse where
  "forged_kx_response =
     \<lparr>kxr_Ciphertext = Some (replicate 1088 (CHR 0x41)), kxr_SharedSecret = None,
      kxr_Timestamp = demo_time, kxr_Signature = None\<rparr>"

text \<open>The Registry after the gateway registered again, with the key generated from 8.\<close>

definition rotated_key :: bytes where
  "rotated_key = replicate 1952 (CHR 0x08)"

definition rotated_auth :: "(char, char, char, char) AuthService" where
  "rotated_auth =
     snd (registerService test_mode3 demo_auth
            (Some \<lparr>skp_ServiceID = ''api-gateway'', skp_PublicKey = Some rotated_key,
                   skp_PrivateKey = None\<rparr>) demo_time demo_time)"

text \<open>
  The Registry after a service \<^verbatim>\<open>svc-a\<close> registered the seven bytes \<^verbatim>\<open>new-key\<close> as
  its key, and the answer the Registry then gives to a lookup of \<^verbatim>\<open>svc-a\<close>.
\<close>

definition svc_a_auth :: "(char, char, char, char) AuthService" where
  "svc_a_auth =
     snd (registerService test_mode3 demo_auth
            (Some \<lparr>skp_ServiceID = ''svc-a'', skp_PublicKey = Some ''new-key'',
                   skp_PrivateKey = None\<rparr>) demo_time demo_time)"

definition svc_a_data :: byteslice where
  "svc_a_data =
     json_Marshal (GoMap [(''service_id'', GoString ''svc-a''),
                          (''public_key'', GoBytes (Some ''new-key'')),
                          (''timestamp'', GoTime demo_time)])"

definition svc_a_response :: ServiceResponse where
  "svc_a_response =
     \<lparr>resp_ServiceID = ''auth-service'', resp_Timestamp = demo_time, resp_Data = svc_a_data,
      resp_Signature = Some (replicate 3293 (checksum (CHR 0x09) (slice_bytes svc_a_data))),
      resp_Headers = [], resp_Success = True, resp_Error = []\<rparr>"

definition svc_a_keyData :: "(bytes \<times> go_value) list" where
  "svc_a_keyData =
     [(''public_key'', GoString (EncodeToString ''new-key'')),
      (''service_id'', GoString ''svc-a''),
      (''timestamp'', GoString ''2024-01-01T00:00:00Z'')]"

text \<open>
  A router that takes the id \<^verbatim>\<open>svc-a?x=1\<close> for \<^verbatim>\<open>svc-a\<close> with a query and has no
  route for the id \<^verbatim>\<open>a/b\<close>, as the Registry's does, and hands every other id on as it
  stands; and a request whose sender calls itself \<^verbatim>\<open>svc-a?x=1\<close>, a name that nobody
  registered.
\<close>

definition alias_route :: "bytes \<Rightarrow> lookup_target" where
  "alias_route sender =
     (if sender = ''svc-a?x=1'' then PublicKeyOf ''svc-a''
      else if sender = ''a/b'' then PlainText 404
      else PublicKeyOf sender)"

definition alias_request :: ServiceRequest where
  "alias_request = demo_signed\<lparr>req_ServiceID := ''svc-a?x=1''\<rparr>"

text \<open>
  Two inbound requests at the gateway: a POST whose body is not JSON, and a GET with
  an empty body and a header whose value is the single byte 0xE9 (a Latin-1 letter,
  which is no UTF-8). For the second one: the request the gateway signs, the bytes it
  signs, what the backend reads from the wire, and the bytes the backend recomputes.
\<close>

definition not_json_request :: inbound_request where
  "not_json_request =
     \<lparr>rq_Method = ''POST'', rq_Path = ''/echo'', rq_Header = [], rq_Body = Some ''not json''\<rparr>"

definition latin1_request :: inbound_request where
  "latin1_request =
     \<lparr>rq_Method = ''GET'', rq_Path = ''/echo'', rq_Header = [(''X-Name'', [[CHR 0xE9]])],
      rq_Body = Some []\<rparr>"

definition latin1_payload :: bytes where
  "latin1_payload =
     bq ''{`service_id`:`api-gateway`,`timestamp`:`2024-01-01T00:00:00Z`,`data`:{},`signature`:null,`headers`:{`X-Name`:`''
     @ [bslash] @ bq ''ufffd`}}''"

definition latin1_signed :: ServiceRequest where
  "latin1_signed =
     \<lparr>req_ServiceID = ''api-gateway'', req_Timestamp = demo_time, req_Data = Some ''{}'',
      req_Signature = Some (replicate 3293 (checksum (CHR 0x07) latin1_payload)),
      req_Headers = [(''X-Name'', [CHR 0xE9])]\<rparr>"

definition latin1_received :: ServiceRequest where
  "latin1_received = latin1_signed\<lparr>req_Headers := [(''X-Name'', RuneError_utf8)]\<rparr>"

definition latin1_recomputed :: bytes where
  "latin1_recomputed =
     bq ''{`service_id`:`api-gateway`,`timestamp`:`2024-01-01T00:00:00Z`,`data`:{},`signature`:null,`headers`:{`X-Name`:`''
     @ RuneError_utf8 @ bq ''`}}''"

text \<open>A GET with an empty body, as the demo's status check sends it to the gateway.\<close>

definition status_request :: inbound_request where
  "status_request = \<lparr>rq_Method = ''GET'', rq_Path = ''/status'', rq_Header = [], rq_Body = Some []\<rparr>"

section \<open>Properties of the signature and KEM wrappers\<close>

lemma write_into_same_length: "length out = length buf \<Longrightarrow> write_into buf out = out"
  by (simp add: write_into_def)

lemma Sign_returns: "\<exists>s. Sign L K data = Inr s \<and> length s = SignatureSize L"
  by (auto simp: Sign_def write_into_def make_bytes_def Let_def)

lemma Sign_contract:
  "mode3_contract L \<Longrightarrow> Sign L K data = Inr (SignTo L (d_PrivateKey K) data)"
  by (simp add: Sign_def Let_def mode3_contract_def write_into_same_length make_bytes_def)

lemma key_byte_replicate: "0 < n \<Longrightarrow> key_byte (replicate n c) = c"
  by (cases n) (simp_all add: key_byte_def)

lemma char_of_small:
  "char_of (1::nat) = CHR 0x01" "char_of (2::nat) = CHR 0x02" "char_of (7::nat) = CHR 0x07"
  "char_of (Suc 0) = CHR 0x01"
  by code_simp+

lemma checksum_payload: "checksum (CHR 0x02) ''payload'' \<noteq> checksum (CHR 0x01) ''payload''"
  by code_simp

lemma test_mode3_contract: "mode3_contract test_mode3"
  by (simp add: mode3_contract_def test_mode3_def key_byte_replicate)

text \<open>
  C1 (as amended). A key pair whose two halves belong together is one that
  \<^verbatim>\<open>GenerateDilithiumKeyPair\<close> returned, or one that \<^verbatim>\<open>LoadDilithiumKeyPair\<close> returned
  for the packed public and private key of such a pair. For every such pair and every
  byte string, \<^verbatim>\<open>Sign\<close> returns a signature and \<^verbatim>\<open>VerifyDilithiumSignature\<close> accepts
  it under the pair's public key bytes (it returns \<^verbatim>\<open>nil\<close>), whenever the library
  keeps its contract.
\<close>

theorem sign_verify_roundtrip:
  assumes contract: "mode3_contract L"
    and gen: "GenerateDilithiumKeyPair L rnd = Inr K0"
    and pair: "K = K0 \<or>
      LoadDilithiumKeyPair L (GetPublicKeyBytes L K0) (GetPrivateKeyBytes L K0) = Inr K"
  shows "\<exists>s. Sign L K data = Inr s \<and>
             VerifyDilithiumSignature L (GetPublicKeyBytes L K) data s = None"
proof -
  obtain pk sk where g: "GenerateKey L rnd = Some (pk, sk)"
    and K0: "K0 = \<lparr>d_PublicKey = pk, d_PrivateKey = sk\<rparr>"
    using gen by (auto simp: GenerateDilithiumKeyPair_def split: option.splits)
  have unpk: "PublicKey_UnmarshalBinary L (PublicKey_Bytes L pk) = Some pk"
    and unsk: "PrivateKey_UnmarshalBinary L (PrivateKey_Bytes L sk) = Some sk"
    and lpk: "length (PublicKey_Bytes L pk) = PublicKeySize L"
    and lsk: "length (PrivateKey_Bytes L sk) = PrivateKeySize L"
    using contract by (simp_all add: mode3_contract_def)
  have "LoadDilithiumKeyPair L (GetPublicKeyBytes L K0) (GetPrivateKeyBytes L K0) = Inr K0"
    by (simp add: LoadDilithiumKeyPair_def GetPublicKeyBytes_def GetPrivateKeyBytes_def
        K0 unpk unsk lpk lsk)
  with pair have K: "K = K0" by auto
  have ok: "Verify L pk data (SignTo L sk data)"
    using contract g by (simp add: mode3_contract_def)
  have "Sign L K data = Inr (SignTo L sk data)"
    using Sign_contract [OF contract, of K data] by (simp add: K K0)
  moreover have "VerifyDilithiumSignature L (GetPublicKeyBytes L K) data (SignTo L sk data) = None"
    by (simp add: VerifyDilithiumSignature_def GetPublicKeyBytes_def K K0 unpk lpk ok)
  ultimately show ?thesis by simp
qed

theorem sign_verify_roundtrip_witness:
  "mode3_contract test_mode3
   \<and> GenerateDilithiumKeyPair test_mode3 7 = Inr \<lparr>d_PublicKey = CHR 0x07, d_PrivateKey = CHR 0x07\<rparr>
   \<and> LoadDilithiumKeyPair test_mode3 (replicate 1952 (CHR 0x07)) (replicate 4000 (CHR 0x07))
       = Inr \<lparr>d_PublicKey = CHR 0x07, d_PrivateKey = CHR 0x07\<rparr>
   \<and> (\<exists>s. Sign test_mode3 \<lparr>d_PublicKey = CHR 0x07, d_PrivateKey = CHR 0x07\<rparr> ''payload'' = Inr s
          \<and> VerifyDilithiumSignature test_mode3
               (GetPublicKeyBytes test_mode3 \<lparr>d_PublicKey = CHR 0x07, d_PrivateKey = CHR 0x07\<rparr>)
               ''payload'' s = None)"
proof -
  have gen: "GenerateDilithiumKeyPair test_mode3 7 = Inr \<lparr>d_PublicKey = CHR 0x07, d_PrivateKey = CHR 0x07\<rparr>"
    by (simp add: GenerateDilithiumKeyPair_def test_mode3_def char_of_small)
  have load: "LoadDilithiumKeyPair test_mode3
      (GetPublicKeyBytes test_mode3 \<lparr>d_PublicKey = CHR 0x07, d_PrivateKey = CHR 0x07\<rparr>)
      (GetPrivateKeyBytes test_mode3 \<lparr>d_PublicKey = CHR 0x07, d_PrivateKey = CHR 0x07\<rparr>)
      = Inr \<lparr>d_PublicKey = CHR 0x07, d_PrivateKey = CHR 0x07\<rparr>"
    by (simp add: LoadDilithiumKeyPair_def GetPublicKeyBytes_def GetPrivateKeyBytes_def
        test_mode3_def key_byte_replicate)
  have bytes: "GetPublicKeyBytes test_mode3 \<lparr>d_PublicKey = CHR 0x07, d_PrivateKey = CHR 0x07\<rparr>
      = replicate 1952 (CHR 0x07)"
    "GetPrivateKeyBytes test_mode3 \<lparr>d_PublicKey = CHR 0x07, d_PrivateKey = CHR 0x07\<rparr>
      = replicate 4000 (CHR 0x07)"
    by (simp_all add: GetPublicKeyBytes_def GetPrivateKeyBytes_def test_mode3_def)
  show ?thesis
    using sign_verify_roundtrip [OF test_mode3_contract gen disjI2, OF load, of "''payload''"]
      gen load test_mode3_contract
    by (simp add: bytes)
qed

text \<open>
  C1 as stated fails: \<^verbatim>\<open>LoadDilithiumKeyPair\<close> checks the two sizes only, so it accepts
  the public key of one generated pair together with the private key of another, and a
  signature made with the loaded pair is rejected under the pair's own public key.
\<close>

theorem sign_verify_mismatched_counterexample:
  "length (replicate 1952 (CHR 0x01)) = PublicKeySize test_mode3
   \<and> length (replicate 4000 (CHR 0x02)) = PrivateKeySize test_mode3
   \<and> GenerateDilithiumKeyPair test_mode3 1 = Inr \<lparr>d_PublicKey = CHR 0x01, d_PrivateKey = CHR 0x01\<rparr>
   \<and> GenerateDilithiumKeyPair test_mode3 2 = Inr \<lparr>d_PublicKey = CHR 0x02, d_PrivateKey = CHR 0x02\<rparr>
   \<and> LoadDilithiumKeyPair test_mode3 (replicate 1952 (CHR 0x01)) (replicate 4000 (CHR 0x02))
       = Inr \<lparr>d_PublicKey = CHR 0x01, d_PrivateKey = CHR 0x02\<rparr>
   \<and> Sign test_mode3 \<lparr>d_PublicKey = CHR 0x01, d_PrivateKey = CHR 0x02\<rparr> ''payload''
       = Inr (replicate 3293 (checksum (CHR 0x02) ''payload''))
   \<and> VerifyDilithiumSignature test_mode3
        (GetPublicKeyBytes test_mode3 \<lparr>d_PublicKey = CHR 0x01, d_PrivateKey = CHR 0x02\<rparr>)
        ''payload'' (replicate 3293 (checksum (CHR 0x02) ''payload''))
       = Some InvalidSignature"
  by (simp add: GenerateDilithiumKeyPair_def LoadDilithiumKeyPair_def Sign_def
      VerifyDilithiumSignature_def GetPublicKeyBytes_def test_mode3_def key_byte_replicate
      write_into_def make_bytes_def char_of_small checksum_payload)

section \<open>The models of the libraries on examples\<close>

lemma base64_examples:
  "EncodeToString ''Man'' = ''TWFu''"
  "EncodeToString ''Ma'' = ''TWE=''"
  "EncodeToString ''M'' = ''TQ==''"
  "DecodeString ''TWFu'' = Some ''Man''"
  "DecodeString ''TWE='' = Some ''Ma''"
  "DecodeString ''TQ=='' = Some ''M''"
  "DecodeString ''TQ='' = None"
  "DecodeString ''T*Fu'' = None"
  by code_simp+

lemma appendString_examples:
  "appendString ''abc'' = bq ''`abc`''"
  "appendString ''a<b'' = bq ''`a'' @ [bslash] @ bq ''u003cb`''"
  "appendString [CHR 0xFF] = bq ''`'' @ [bslash] @ bq ''ufffd`''"
  "appendString RuneError_utf8 = bq ''`'' @ RuneError_utf8 @ bq ''`''"
  "appendString [CHR 0xC3, CHR 0xA9] = bq ''`'' @ [CHR 0xC3, CHR 0xA9] @ bq ''`''"
  "appendString [CHR 0xE2, CHR 0x80, CHR 0xA8] = bq ''`'' @ [bslash] @ bq ''u2028`''"
  by code_simp+

lemma unquote_examples:
  "unquote ''abc'' = Some ''abc''"
  "unquote ([bslash] @ ''ufffd'') = Some RuneError_utf8"
  "unquote ([bslash] @ ''u003c'') = Some ''<''"
  "unquote ([bslash] @ ''ud83d'' @ [bslash] @ ''ude00'') = Some [CHR 0xF0, CHR 0x9F, CHR 0x98, CHR 0x80]"
  "unquote ([bslash] @ ''ud83d'') = Some RuneError_utf8"
  "unquote [CHR 0xFF] = Some RuneError_utf8"
  "unquote [bslash] = None"
  by code_simp+

lemma compact_examples:
  "compact ''{}'' = Some ''{}''"
  "compact (bq ''{ `n` : 1 }'') = Some (bq ''{`n`:1}'')"
  "compact (bq ''[1, -2.5e3, true, null, `a<b`]'') = Some (bq ''[1,-2.5e3,true,null,`a'' @ [bslash] @ bq ''u003cb`]'')"
  "compact ''12 '' = Some ''12''"
  "compact [] = None"
  "compact ''x'' = None"
  "compact ''{} x'' = None"
  "compact ''[1,]'' = None"
  "compact (bq ''{`n`:1'') = None"
  by code_simp+
lemma test_json_examples:
  "test_json (bq ''{`public_key`:`AQID`,`service_id`:`svc-a`,`timestamp`:`2024-01-01T00:00:00Z`}'')
     = Some (GoMap [(''public_key'', GoString ''AQID''), (''service_id'', GoString ''svc-a''),
                    (''timestamp'', GoString ''2024-01-01T00:00:00Z'')])"
  "test_json (bq ''{`public_key`:null}'') = Some (GoMap [(''public_key'', GoNil)])"
  "test_json (bq ''{`a`:`x'' @ [bslash] @ bq ''`y`}'') = Some (GoMap [(''a'', GoString (''x'' @ [dquote] @ ''y''))])"
  "test_json ''{}'' = Some (GoMap [])"
  "test_json ''[1]'' = None"
  "test_json (bq ''{`a`:1}'') = None"
  by code_simp+

section \<open>Base64: decoding inverts encoding\<close>

lemma index_of_nth:
  "distinct xs \<Longrightarrow> j < length xs \<Longrightarrow> index_of xs (xs ! j) = Some j"
proof (induction xs arbitrary: j)
  case Nil
  then show ?case by simp
next
  case (Cons a xs)
  show ?case
  proof (cases j)
    case 0
    then show ?thesis by simp
  next
    case (Suc k)
    with Cons.prems have "xs ! k \<in> set xs" "a \<notin> set xs" by auto
    then have "a \<noteq> xs ! k" by auto
    with Cons Suc show ?thesis by simp
  qed
qed

lemma encodeStd_facts:
  "distinct encodeStd" "length encodeStd = 64"
  "CHR ''='' \<notin> set encodeStd" "CHR 0x0D \<notin> set encodeStd" "CHR 0x0A \<notin> set encodeStd"
  by (simp_all add: encodeStd_def)
lemma b64_char_in: "b64_char i \<in> set encodeStd"
  by (simp add: b64_char_def encodeStd_facts)

lemma b64_char_not_special:
  "b64_char i \<noteq> CHR ''=''" "b64_char i \<noteq> CHR 0x0D" "b64_char i \<noteq> CHR 0x0A"
  using b64_char_in [of i] encodeStd_facts by auto

lemma b64_index_char: "i < 64 \<Longrightarrow> b64_index (b64_char i) = Some i"
  by (simp add: b64_index_def b64_char_def index_of_nth encodeStd_facts)

lemma sextet_bounds:
  fixes a b c :: nat
  assumes "a < 256" "b < 256" "c < 256"
  shows "a div 4 < 64" "(a mod 4) * 16 + b div 16 < 64" "(b mod 16) * 4 + c div 64 < 64"
    "c mod 64 < 64" "(a mod 4) * 16 < 64" "(b mod 16) * 4 < 64"
proof -
  have "a mod 4 < 4" "b mod 16 < 16" by simp_all
  moreover have "b div 16 < 16" "c div 64 < 4" "a div 4 < 64" using assms by simp_all
  ultimately show "a div 4 < 64" "(a mod 4) * 16 + b div 16 < 64"
    "(b mod 16) * 4 + c div 64 < 64" "c mod 64 < 64" "(a mod 4) * 16 < 64" "(b mod 16) * 4 < 64"
    by simp_all
qed

lemma octets:
  fixes a b c :: nat
  assumes "b < 256" "c < 256"
  shows "a div 4 * 4 + ((a mod 4) * 16 + b div 16) div 16 = a"
    "(((a mod 4) * 16 + b div 16) mod 16) * 16 + ((b mod 16) * 4 + c div 64) div 4 = b"
    "(((b mod 16) * 4 + c div 64) mod 4) * 64 + c mod 64 = c"
proof -
  have b: "b div 16 < 16" and c: "c div 64 < 4" using assms by simp_all
  show "a div 4 * 4 + ((a mod 4) * 16 + b div 16) div 16 = a"
    using b by simp
  show "(((a mod 4) * 16 + b div 16) mod 16) * 16 + ((b mod 16) * 4 + c div 64) div 4 = b"
    using b c by simp
  show "(((b mod 16) * 4 + c div 64) mod 4) * 64 + c mod 64 = c"
    using c by simp
qed
lemma decode4_sextets:
  fixes a b c :: nat
  assumes "a < 256" "b < 256" "c < 256"
  shows "decode4 (Some (a div 4)) (Some ((a mod 4) * 16 + b div 16))
           (Some ((b mod 16) * 4 + c div 64)) (Some (c mod 64))
         = Some [char_of a, char_of b, char_of c]"
  using octets [OF assms(2,3)] assms by simp

lemma char_of_zero: "char_of (0::nat) = CHR 0x00"
  by code_simp

lemma EncodeToString_empty: "EncodeToString bs = [] \<longleftrightarrow> bs = []"
  by (induction bs rule: EncodeToString.induct) (simp_all add: encode3_def)

lemma EncodeToString_filter:
  "filter (\<lambda>c. c \<noteq> CHR 0x0D \<and> c \<noteq> CHR 0x0A) (EncodeToString bs) = EncodeToString bs"
  by (induction bs rule: EncodeToString.induct) (simp_all add: encode3_def b64_char_not_special)

lemma decode_quanta_encode: "decode_quanta (EncodeToString bs) = Some bs"
proof (induction bs rule: EncodeToString.induct)
  case (1 a b c rest)
  have q: "decode4 (b64_index (b64_char (of_char a div 4)))
             (b64_index (b64_char ((of_char a mod 4) * 16 + of_char b div 16)))
             (b64_index (b64_char ((of_char b mod 16) * 4 + of_char c div 64)))
             (b64_index (b64_char (of_char c mod 64))) = Some [a, b, c]"
    using decode4_sextets [of "of_char a" "of_char b" "of_char c"]
      sextet_bounds [of "of_char a" "of_char b" "of_char c"]
    by (simp add: b64_index_char)
  show ?case
  proof (cases "rest = []")
    case True
    then show ?thesis
      using q by (simp add: encode3_def decode_last_def b64_char_not_special)
  next
    case False
    then have "EncodeToString rest \<noteq> []" by (simp add: EncodeToString_empty)
    with 1 q show ?thesis by (simp add: encode3_def)
  qed
next
  case (2 a b)
  have "decode4 (b64_index (b64_char (of_char a div 4)))
          (b64_index (b64_char ((of_char a mod 4) * 16 + of_char b div 16)))
          (b64_index (b64_char ((of_char b mod 16) * 4))) (Some 0) = Some [a, b, CHR 0x00]"
    using decode4_sextets [of "of_char a" "of_char b" 0]
      sextet_bounds [of "of_char a" "of_char b" 0]
    by (simp add: b64_index_char char_of_zero)
  then show ?case
    by (simp add: encode3_def decode_last_def b64_char_not_special)
next
  case (3 a)
  have "decode4 (b64_index (b64_char (of_char a div 4)))
          (b64_index (b64_char ((of_char a mod 4) * 16))) (Some 0) (Some 0)
        = Some [a, CHR 0x00, CHR 0x00]"
    using decode4_sextets [of "of_char a" 0 0] sextet_bounds [of "of_char a" 0 0]
    by (simp add: b64_index_char char_of_zero)
  then show ?case
    by (simp add: encode3_def decode_last_def b64_char_not_special)
next
  case 4
  then show ?case by simp
qed

lemma DecodeString_EncodeToString: "DecodeString (EncodeToString bs) = Some bs"
  by (simp add: DecodeString_def EncodeToString_filter decode_quanta_encode)

section \<open>The concrete mesh: requests that verify and requests that do not\<close>

lemma demo_payload_marshal: "marshal_ServiceRequest demo_unsigned = Some demo_payload"
  by code_simp

lemma verification_payload_demo: "verification_payload demo_signed = Some demo_payload"
  using demo_payload_marshal
  by (simp add: verification_payload_def demo_signed_def demo_unsigned_def)

lemma demo_signed_fields:
  "req_ServiceID demo_signed = ''api-gateway''"
  "slice_bytes (req_Signature demo_signed) = replicate 3293 (checksum (CHR 0x07) demo_payload)"
  by (simp_all add: demo_signed_def demo_unsigned_def slice_bytes_def)

lemma verify_demo_signature:
  "VerifyDilithiumSignature test_mode3 (replicate 1952 (CHR 0x07)) demo_payload
     (replicate 3293 (checksum (CHR 0x07) demo_payload)) = None"
  by (simp add: VerifyDilithiumSignature_def test_mode3_def key_byte_replicate)

lemma verifyRequest_demo:
  "verifyRequest test_mode3 no_json demo_backend_cached demo_signed registry
     = (None, demo_backend_cached)"
proof -
  have "bs_getServicePublicKey no_json demo_backend_cached ''api-gateway'' registry
      = (Inr (replicate 1952 (CHR 0x07)), demo_backend_cached)"
    by (simp add: bs_getServicePublicKey_def demo_backend_cached_def)
  then show ?thesis
    by (simp add: verifyRequest_def demo_signed_fields verification_payload_demo
        verify_demo_signature)
qed

lemma verifyRequest_ghost:
  "verifyRequest test_mode3 no_json demo_backend ghost_request (\<lambda>serviceID. Reply 404 None)
     = (Some (GetPublicKeyFailed (GetPublicKeyStatus 404)), demo_backend)"
  by (simp add: verifyRequest_def bs_getServicePublicKey_def demo_backend_def ghost_request_def
      demo_signed_def demo_unsigned_def)

section \<open>The key exchange\<close>

lemma EncapsulateWithPublicKey_secret:
  "map_sum id fst (EncapsulateWithPublicKey
      (Q\<lparr>EncapsulateTo := \<lambda>pk sd. (fst (EncapsulateTo Q pk sd), secret pk sd)\<rparr>) publicKeyBytes seed)
   = map_sum id fst (EncapsulateWithPublicKey Q publicKeyBytes seed)"
  by (simp add: EncapsulateWithPublicKey_def Let_def split: option.split prod.split)

lemma keyExchange_uses_ciphertext:
  assumes "map_sum id fst (EncapsulateWithPublicKey Q' (slice_bytes (kx_KyberPublicKey request)) seed)
         = map_sum id fst (EncapsulateWithPublicKey Q (slice_bytes (kx_KyberPublicKey request)) seed)"
  shows "keyExchange L Q' as (Some request) seed now = keyExchange L Q as (Some request) seed now"
proof -
  let ?e' = "EncapsulateWithPublicKey Q' (slice_bytes (kx_KyberPublicKey request)) seed"
  let ?e = "EncapsulateWithPublicKey Q (slice_bytes (kx_KyberPublicKey request)) seed"
  show ?thesis
  proof (cases ?e')
    case (Inl e1)
    with assms obtain e2 where "?e = Inl e2" by (cases ?e) auto
    with Inl show ?thesis by (simp add: keyExchange_def Let_def split: option.split)
  next
    case (Inr p1)
    with assms obtain p2 where "?e = Inr p2" "fst p2 = fst p1" by (cases ?e) auto
    with Inr show ?thesis
      by (cases p1; cases p2) (simp add: keyExchange_def Let_def split: option.split)
  qed
qed

text \<open>
  C9. Whenever \<^verbatim>\<open>keyExchange\<close> answers with a \<^verbatim>\<open>KeyExchangeResponse\<close>, the status is
  200, the \<^verbatim>\<open>SharedSecret\<close> field of the response is \<^verbatim>\<open>nil\<close>, and the text of the
  response has the three members \<^verbatim>\<open>ciphertext\<close>, \<^verbatim>\<open>timestamp\<close> and \<^verbatim>\<open>signature\<close> only.
  And the answer does not depend on the shared secret at all: an encapsulation that
  returns the same ciphertexts and any other secrets gives the same answer.
\<close>

theorem keyExchange_drops_shared_secret:
  "(keyExchange L Q as body seed now = HttpJSON status response \<longrightarrow>
      status = 200 \<and> kxr_SharedSecret response = None \<and> kxr_Timestamp response = now
      \<and> marshal_KeyExchangeResponse response
          = marshal_object
              [(''ciphertext'', json_Marshal (GoBytes (kxr_Ciphertext response))),
               (''timestamp'', json_Marshal (GoTime now)),
               (''signature'', json_Marshal (GoBytes (kxr_Signature response)))])
   \<and> keyExchange L (Q\<lparr>EncapsulateTo := \<lambda>pk sd. (fst (EncapsulateTo Q pk sd), secret pk sd)\<rparr>)
        as body seed now
      = keyExchange L Q as body seed now"
proof (intro conjI impI)
  assume ok: "keyExchange L Q as body seed now = HttpJSON status response"
  then have fields: "status = 200 \<and> kxr_SharedSecret response = None \<and> kxr_Timestamp response = now"
    by (auto simp: keyExchange_def Let_def split: option.splits sum.splits prod.splits)
  then show "status = 200" "kxr_SharedSecret response = None" "kxr_Timestamp response = now"
    by simp_all
  from fields show "marshal_KeyExchangeResponse response
      = marshal_object
          [(''ciphertext'', json_Marshal (GoBytes (kxr_Ciphertext response))),
           (''timestamp'', json_Marshal (GoTime now)),
           (''signature'', json_Marshal (GoBytes (kxr_Signature response)))]"
    by (simp add: marshal_KeyExchangeResponse_def omitempty_def slice_bytes_def)
next
  show "keyExchange L (Q\<lparr>EncapsulateTo := \<lambda>pk sd. (fst (EncapsulateTo Q pk sd), secret pk sd)\<rparr>)
          as body seed now
        = keyExchange L Q as body seed now"
  proof (cases body)
    case None
    then show ?thesis by (simp add: keyExchange_def)
  next
    case (Some request)
    then show ?thesis
      using keyExchange_uses_ciphertext [OF EncapsulateWithPublicKey_secret] by simp
  qed
qed

lemma demo_encapsulation:
  "EncapsulateWithPublicKey test_kyber (replicate 1184 (CHR 0x05)) (Some (replicate 32 (CHR 0x2A)))
     = Inr (demo_ciphertext, replicate 32 (CHR 0x2A))"
  by (simp add: EncapsulateWithPublicKey_def test_kyber_def key_byte_replicate write_into_def
      make_bytes_def demo_ciphertext_def Let_def)

lemma demo_keyExchange:
  "keyExchange test_mode3 test_kyber demo_auth (Some demo_kx_request)
     (Some (replicate 32 (CHR 0x2A))) demo_time = HttpJSON 200 demo_kx_response"
proof -
  have known: "serviceRegistry demo_auth ''api-gateway'' = Some (Some (replicate 1952 (CHR 0x07)))"
    by (simp add: demo_auth_def)
  have verified: "VerifyDilithiumSignature test_mode3 (replicate 1952 (CHR 0x07)) demo_kx_data
      (replicate 3293 (checksum (CHR 0x07) demo_kx_data)) = None"
    by (simp add: VerifyDilithiumSignature_def test_mode3_def key_byte_replicate)
  have signed: "Sign test_mode3 auth_keys data = Inr (replicate 3293 (checksum (CHR 0x09) data))" for data
    by (simp add: Sign_def test_mode3_def auth_keys_def write_into_def make_bytes_def)
  have keys: "as_dilithiumKeyPair demo_auth = auth_keys"
    by (simp add: demo_auth_def)
  show ?thesis
    unfolding keyExchange_def
    by (simp add: known demo_kx_request_def slice_bytes_def demo_kx_data_def [symmetric, unfolded slice_bytes_def]
        verified demo_encapsulation signed keys demo_kx_response_def demo_kx_unsigned_def
        del: json_Marshal.simps)
qed

theorem keyExchange_drops_shared_secret_witness:
  "keyExchange test_mode3 test_kyber demo_auth (Some demo_kx_request)
     (Some (replicate 32 (CHR 0x2A))) demo_time = HttpJSON 200 demo_kx_response
   \<and> kxr_SharedSecret demo_kx_response = None
   \<and> kxr_Timestamp demo_kx_response = demo_time
   \<and> marshal_KeyExchangeResponse demo_kx_response
       = marshal_object
           [(''ciphertext'', json_Marshal (GoBytes (kxr_Ciphertext demo_kx_response))),
            (''timestamp'', json_Marshal (GoTime demo_time)),
            (''signature'', json_Marshal (GoBytes (kxr_Signature demo_kx_response)))]"
  using keyExchange_drops_shared_secret [of test_mode3 test_kyber demo_auth "Some demo_kx_request"
      "Some (replicate 32 (CHR 0x2A))" demo_time 200 demo_kx_response]
    demo_keyExchange
  by simp

text \<open>
  C3. \<^verbatim>\<open>performKeyExchange\<close> never looks at the signature of the Registry's answer: it
  decapsulates the ciphertext of whatever answer comes with status 200. Here the
  answer carries no signature at all, and the function returns \<^verbatim>\<open>nil\<close> with a shared
  secret derived from the unsigned ciphertext.
\<close>

theorem performKeyExchange_accepts_unsigned:
  "kxr_Signature forged_kx_response = None
   \<and> performKeyExchange test_mode3 test_kyber demo_gateway demo_time
        (\<lambda>request. Reply 200 (Some forged_kx_response))
       = Some (Inr (replicate 32 (sub_byte (CHR 0x05) (CHR 0x41))))"
  by (simp add: performKeyExchange_def Let_def Sign_def Decapsulate_def test_kyber_def
      forged_kx_response_def demo_gateway_def demo_kyber_def slice_bytes_def write_into_def
      make_bytes_def del: json_Marshal.simps)

lemma performKeyExchange_ignores_signature:
  "performKeyExchange L Q gw now (\<lambda>request. Reply 200 (Some (response\<lparr>kxr_Signature := s\<rparr>)))
   = performKeyExchange L Q gw now (\<lambda>request. Reply 200 (Some response))"
  by (simp add: performKeyExchange_def Let_def split: sum.split)

section \<open>Size checks\<close>

text \<open>
  C4 (as amended). A public key of the wrong length is rejected with the size error
  before it is unpacked and before the library verifies or encapsulates anything (the
  answer is the same for every \<^verbatim>\<open>Verify\<close> and every unpacking function), by
  \<^verbatim>\<open>VerifyDilithiumSignature\<close> for the signature key and by
  \<^verbatim>\<open>EncapsulateWithPublicKey\<close> for the KEM key; the size error is not the error of a
  failed verification. The length of a signature is not checked by the code: with a
  key of the right length, \<^verbatim>\<open>VerifyDilithiumSignature\<close> hands the signature to the
  library and returns \<^verbatim>\<open>nil\<close>, the unpacking error or the error of a failed
  verification, whatever the length of the signature.
\<close>

theorem wrong_size_public_key_rejected:
  "(length publicKeyBytes \<noteq> PublicKeySize L \<longrightarrow>
      VerifyDilithiumSignature (L\<lparr>Verify := v, PublicKey_UnmarshalBinary := u\<rparr>)
        publicKeyBytes data signature
      = Some (InvalidPublicKeySize (PublicKeySize L) (length publicKeyBytes)))
   \<and> (length kemKeyBytes \<noteq> 1184 \<longrightarrow>
        EncapsulateWithPublicKey Q kemKeyBytes seed
        = Inl (InvalidPublicKeySize 1184 (length kemKeyBytes)))
   \<and> InvalidPublicKeySize expected got \<noteq> InvalidSignature
   \<and> (length publicKeyBytes = PublicKeySize L \<longrightarrow>
        VerifyDilithiumSignature L publicKeyBytes data signature = None
        \<or> VerifyDilithiumSignature L publicKeyBytes data signature = Some UnmarshalPublicKeyFailed
        \<or> VerifyDilithiumSignature L publicKeyBytes data signature = Some InvalidSignature)"
  by (auto simp: VerifyDilithiumSignature_def EncapsulateWithPublicKey_def split: option.splits)

lemma neq_replicate: "length xs \<noteq> n \<Longrightarrow> xs \<noteq> replicate n c"
  by auto

theorem wrong_size_public_key_rejected_witness:
  "length ''short'' \<noteq> PublicKeySize test_mode3
   \<and> VerifyDilithiumSignature
        (test_mode3\<lparr>Verify := \<lambda>pk m s. True, PublicKey_UnmarshalBinary := \<lambda>b. Some (CHR 0x07)\<rparr>)
        ''short'' ''payload'' (replicate 3293 (CHR 0x00))
       = Some (InvalidPublicKeySize 1952 5)
   \<and> length ''short'' \<noteq> (1184 :: nat)
   \<and> EncapsulateWithPublicKey test_kyber ''short'' (Some (replicate 32 (CHR 0x2A)))
       = Inl (InvalidPublicKeySize 1184 5)
   \<and> InvalidPublicKeySize 1952 5 \<noteq> InvalidSignature
   \<and> length (replicate 1952 (CHR 0x07)) = PublicKeySize test_mode3
   \<and> VerifyDilithiumSignature test_mode3 (replicate 1952 (CHR 0x07)) ''payload'' ''short''
       = Some InvalidSignature"
proof -
  have sizes: "PublicKeySize test_mode3 = 1952" by (simp add: test_mode3_def)
  have short: "VerifyDilithiumSignature test_mode3 (replicate 1952 (CHR 0x07)) ''payload'' ''short''
      = Some InvalidSignature"
    by (simp add: VerifyDilithiumSignature_def test_mode3_def key_byte_replicate neq_replicate)
  show ?thesis
    using wrong_size_public_key_rejected [where publicKeyBytes = "''short''" and L = test_mode3
        and v = "\<lambda>pk m s. True" and u = "\<lambda>b. Some (CHR 0x07)" and data = "''payload''"
        and signature = "replicate 3293 (CHR 0x00)" and kemKeyBytes = "''short''"
        and Q = test_kyber and seed = "Some (replicate 32 (CHR 0x2A))" and expected = 1952
        and got = 5]
      short
    by (simp add: sizes)
qed

lemma checksum_not_zero: "checksum (CHR 0x07) ''payload'' \<noteq> CHR 0x00"
  by code_simp

text \<open>
  C4 as stated fails for signatures and for KEM ciphertexts. An empty signature under a
  key of the right size is handed to the library, and the error returned is the one a
  well-sized wrong signature gets. \<^verbatim>\<open>Decapsulate\<close> has no check and no error: the empty
  ciphertext goes to the library, which panics.
\<close>

theorem wrong_size_signature_counterexample:
  "length ([] :: bytes) \<noteq> SignatureSize test_mode3
   \<and> length (replicate 1952 (CHR 0x07)) = PublicKeySize test_mode3
   \<and> VerifyDilithiumSignature test_mode3 (replicate 1952 (CHR 0x07)) ''payload'' []
       = Some InvalidSignature
   \<and> length (replicate 3293 (CHR 0x00)) = SignatureSize test_mode3
   \<and> VerifyDilithiumSignature test_mode3 (replicate 1952 (CHR 0x07)) ''payload''
        (replicate 3293 (CHR 0x00)) = Some InvalidSignature
   \<and> length ([] :: bytes) \<noteq> 1088
   \<and> Decapsulate test_kyber demo_kyber [] = None"
  using checksum_not_zero
  by (simp add: VerifyDilithiumSignature_def test_mode3_def key_byte_replicate Decapsulate_def
      test_kyber_def)

lemma Decapsulate_no_error: "Decapsulate Q k ciphertext \<noteq> Some (Inl e)"
  by (simp add: Decapsulate_def split: option.split)

section \<open>The backend rejects what it cannot verify\<close>

lemma bs_getServicePublicKey_counter:
  "requestCounter (snd (bs_getServicePublicKey J bs serviceID registry)) = requestCounter bs"
  by (simp add: bs_getServicePublicKey_def split: option.split http_reply.split sum.split)

lemma verifyRequest_counter:
  "requestCounter (snd (verifyRequest L J bs request registry)) = requestCounter bs"
  using bs_getServicePublicKey_counter [of J bs "req_ServiceID request" registry]
  by (auto simp: verifyRequest_def split: prod.split sum.split option.split)

lemma count_and_respond_counter:
  "requestCounter (snd (count_and_respond L bs payload now)) = requestCounter bs + 1"
  by (simp add: count_and_respond_def Let_def split: option.split sum.split)

text \<open>
  C7. When \<^verbatim>\<open>verifyRequest\<close> returns an error for a request (the signature does not
  verify, or the sender's key cannot be resolved), \<^verbatim>\<open>processEcho\<close> and
  \<^verbatim>\<open>processData\<close> answer 401 with a plain text, which is no signed response, and leave
  \<^verbatim>\<open>requestCounter\<close> as it was. And whenever one of them changes the counter, the body
  was a request for which \<^verbatim>\<open>verifyRequest\<close> returned \<^verbatim>\<open>nil\<close>.
\<close>

theorem unverified_request_has_no_effect:
  "(fst (verifyRequest L J bs request registry) \<noteq> None \<longrightarrow>
      fst (processEcho L J bs (Some request) registry now1 elapsed now2)
        = HttpText 401 ''Request verification failed''
      \<and> requestCounter (snd (processEcho L J bs (Some request) registry now1 elapsed now2))
        = requestCounter bs
      \<and> fst (processData L J bs (Some request) registry now1 elapsed now2)
        = HttpText 401 ''Request verification failed''
      \<and> requestCounter (snd (processData L J bs (Some request) registry now1 elapsed now2))
        = requestCounter bs)
   \<and> (requestCounter (snd (processEcho L J bs body registry now1 elapsed now2)) \<noteq> requestCounter bs
        \<or> requestCounter (snd (processData L J bs body registry now1 elapsed now2)) \<noteq> requestCounter bs
      \<longrightarrow> (\<exists>request. body = Some request \<and> fst (verifyRequest L J bs request registry) = None))"
proof (intro conjI impI)
  assume failed: "fst (verifyRequest L J bs request registry) \<noteq> None"
  then obtain e bs' where v: "verifyRequest L J bs request registry = (Some e, bs')"
    by (cases "verifyRequest L J bs request registry") auto
  have c: "requestCounter bs' = requestCounter bs"
    using verifyRequest_counter [of L J bs request registry] v by simp
  show "fst (processEcho L J bs (Some request) registry now1 elapsed now2)
      = HttpText 401 ''Request verification failed''"
    by (simp add: processEcho_def v)
  show "requestCounter (snd (processEcho L J bs (Some request) registry now1 elapsed now2))
      = requestCounter bs"
    by (simp add: processEcho_def v c)
  show "fst (processData L J bs (Some request) registry now1 elapsed now2)
      = HttpText 401 ''Request verification failed''"
    by (simp add: processData_def v)
  show "requestCounter (snd (processData L J bs (Some request) registry now1 elapsed now2))
      = requestCounter bs"
    by (simp add: processData_def v c)
next
  assume changed:
    "requestCounter (snd (processEcho L J bs body registry now1 elapsed now2)) \<noteq> requestCounter bs
     \<or> requestCounter (snd (processData L J bs body registry now1 elapsed now2)) \<noteq> requestCounter bs"
  show "\<exists>request. body = Some request \<and> fst (verifyRequest L J bs request registry) = None"
  proof (cases body)
    case None
    with changed show ?thesis by (simp add: processEcho_def processData_def)
  next
    case (Some request)
    show ?thesis
    proof (cases "fst (verifyRequest L J bs request registry)")
      case None
      with Some show ?thesis by simp
    next
      case (Some e)
      then obtain bs' where v: "verifyRequest L J bs request registry = (Some e, bs')"
        by (cases "verifyRequest L J bs request registry") auto
      have "requestCounter bs' = requestCounter bs"
        using verifyRequest_counter [of L J bs request registry] v by simp
      with changed \<open>body = Some request\<close> v show ?thesis
        by (simp add: processEcho_def processData_def)
    qed
  qed
qed
theorem unverified_request_has_no_effect_witness:
  "fst (verifyRequest test_mode3 no_json demo_backend ghost_request (\<lambda>serviceID. Reply 404 None)) \<noteq> None
   \<and> fst (processEcho test_mode3 no_json demo_backend (Some ghost_request)
           (\<lambda>serviceID. Reply 404 None) demo_time ''1ms'' demo_time)
       = HttpText 401 ''Request verification failed''
   \<and> requestCounter (snd (processEcho test_mode3 no_json demo_backend (Some ghost_request)
           (\<lambda>serviceID. Reply 404 None) demo_time ''1ms'' demo_time)) = 0
   \<and> fst (processData test_mode3 no_json demo_backend (Some ghost_request)
           (\<lambda>serviceID. Reply 404 None) demo_time ''1ms'' demo_time)
       = HttpText 401 ''Request verification failed''
   \<and> requestCounter (snd (processData test_mode3 no_json demo_backend (Some ghost_request)
           (\<lambda>serviceID. Reply 404 None) demo_time ''1ms'' demo_time)) = 0
   \<and> requestCounter (snd (processEcho test_mode3 no_json demo_backend_cached (Some demo_signed)
           (\<lambda>serviceID. Reply 404 None) demo_time ''1ms'' demo_time)) = 1
   \<and> fst (verifyRequest test_mode3 no_json demo_backend_cached demo_signed
           (\<lambda>serviceID. Reply 404 None)) = None"
proof -
  have ghost: "fst (verifyRequest test_mode3 no_json demo_backend ghost_request
      (\<lambda>serviceID. Reply 404 None)) \<noteq> None"
    by (simp add: verifyRequest_ghost)
  have counted: "requestCounter (snd (processEcho test_mode3 no_json demo_backend_cached
      (Some demo_signed) (\<lambda>serviceID. Reply 404 None) demo_time ''1ms'' demo_time)) = 1"
    by (simp add: processEcho_def verifyRequest_demo count_and_respond_counter)
      (simp add: demo_backend_cached_def demo_backend_def)
  have zero: "requestCounter demo_backend = 0" "requestCounter demo_backend_cached = 0"
    by (simp_all add: demo_backend_cached_def demo_backend_def)
  from unverified_request_has_no_effect [of test_mode3 no_json demo_backend ghost_request
      "\<lambda>serviceID. Reply 404 None" demo_time "''1ms''" demo_time "Some ghost_request"]
    ghost
  have rejected:
    "fst (processEcho test_mode3 no_json demo_backend (Some ghost_request)
           (\<lambda>serviceID. Reply 404 None) demo_time ''1ms'' demo_time)
       = HttpText 401 ''Request verification failed''
     \<and> requestCounter (snd (processEcho test_mode3 no_json demo_backend (Some ghost_request)
           (\<lambda>serviceID. Reply 404 None) demo_time ''1ms'' demo_time)) = 0
     \<and> fst (processData test_mode3 no_json demo_backend (Some ghost_request)
           (\<lambda>serviceID. Reply 404 None) demo_time ''1ms'' demo_time)
       = HttpText 401 ''Request verification failed''
     \<and> requestCounter (snd (processData test_mode3 no_json demo_backend (Some ghost_request)
           (\<lambda>serviceID. Reply 404 None) demo_time ''1ms'' demo_time)) = 0"
    by (simp add: zero)
  from unverified_request_has_no_effect [of test_mode3 no_json demo_backend_cached demo_signed
      "\<lambda>serviceID. Reply 404 None" demo_time "''1ms''" demo_time "Some demo_signed"]
    counted
  have verified: "fst (verifyRequest test_mode3 no_json demo_backend_cached demo_signed
      (\<lambda>serviceID. Reply 404 None)) = None"
    by (simp add: zero)
  from ghost rejected counted verified show ?thesis by simp
qed

text \<open>
  The case of a signature that does not verify under the key the backend holds for the
  sender.
\<close>

lemma bad_signature_rejected:
  assumes "bs_publicKeyCache bs (req_ServiceID request) = Some publicKey"
    and "verification_payload request = Some payload"
    and "VerifyDilithiumSignature L publicKey payload (slice_bytes (req_Signature request)) = Some e"
  shows "processEcho L J bs (Some request) registry now1 elapsed now2
           = (HttpText 401 ''Request verification failed'', bs)"
    and "processData L J bs (Some request) registry now1 elapsed now2
           = (HttpText 401 ''Request verification failed'', bs)"
proof -
  from assms have "verifyRequest L J bs request registry = (Some (SignatureVerificationFailed e), bs)"
    by (simp add: verifyRequest_def bs_getServicePublicKey_def)
  then show "processEcho L J bs (Some request) registry now1 elapsed now2
           = (HttpText 401 ''Request verification failed'', bs)"
    and "processData L J bs (Some request) registry now1 elapsed now2
           = (HttpText 401 ''Request verification failed'', bs)"
    by (simp_all add: processEcho_def processData_def)
qed

section \<open>Registering again, and the key caches\<close>

lemma gw_cached:
  "gw_publicKeyCache gw serviceID = Some old \<Longrightarrow>
   gw_getServicePublicKey J gw serviceID registry = (Inr old, gw)"
  by (simp add: gw_getServicePublicKey_def)

lemma bs_cached:
  "bs_publicKeyCache bs serviceID = Some old \<Longrightarrow>
   bs_getServicePublicKey J bs serviceID registry = (Inr old, bs)"
  by (simp add: bs_getServicePublicKey_def)

lemma deserialize_base64:
  "map_of keyData ''public_key'' = Some (GoString (EncodeToString k)) \<Longrightarrow>
   DeserializePublicKeyFromJSON keyData = Inr k"
  by (simp add: DeserializePublicKeyFromJSON_def DecodeString_EncodeToString)

text \<open>
  C8 (as amended). After \<^verbatim>\<open>registerService\<close> has handled a registration of
  \<open>serviceID\<close> with a key, the Registry's map holds that key, whatever it held before,
  and \<^verbatim>\<open>getPublicKey\<close> serves it. A gateway whose cache has no key for \<open>serviceID\<close>
  asks the Registry and, when the answer's data is read as the object whose
  \<^verbatim>\<open>public_key\<close> is the base64 string of the key, returns that key and caches it. A
  gateway or a backend whose cache holds a key for \<open>serviceID\<close> returns the cached key
  without asking, and the backend's \<^verbatim>\<open>verifyRequest\<close> checks the signature against the
  cached key.
\<close>

theorem registration_and_caches:
  assumes "registerService L as (Some keyPair) now1 now2 = (answer, as')"
    and "skp_ServiceID keyPair = serviceID"
  shows "serviceRegistry as' serviceID = Some (skp_PublicKey keyPair)
       \<and> getPublicKey L as' serviceID t1 t2
           = signed_response L (as_dilithiumKeyPair as') (as_serviceID as')
               (GoMap [(''service_id'', GoString serviceID),
                       (''public_key'', GoBytes (skp_PublicKey keyPair)),
                       (''timestamp'', GoTime t1)]) t2
       \<and> (gw_publicKeyCache gw serviceID = None
            \<and> registry serviceID = Reply 200 (Some response)
            \<and> Unmarshal_map J (resp_Data response) = Some keyData
            \<and> map_of keyData ''public_key'' = Some (GoString (EncodeToString k))
          \<longrightarrow> gw_getServicePublicKey J gw serviceID registry
              = (Inr k, gw\<lparr>gw_publicKeyCache := (gw_publicKeyCache gw)(serviceID \<mapsto> k)\<rparr>))
       \<and> (gw_publicKeyCache gw serviceID = Some old
          \<longrightarrow> gw_getServicePublicKey J gw serviceID registry = (Inr old, gw))
       \<and> (bs_publicKeyCache bs serviceID = Some old \<and> req_ServiceID request = serviceID
          \<longrightarrow> bs_getServicePublicKey J bs serviceID registry = (Inr old, bs)
            \<and> verifyRequest L2 J bs request registry
                = (case verification_payload request of
                     None \<Rightarrow> Some MarshalRequestFailed
                   | Some payload \<Rightarrow>
                       map_option SignatureVerificationFailed
                         (VerifyDilithiumSignature L2 old payload
                            (slice_bytes (req_Signature request))),
                   bs))"
proof (intro conjI impI)
  from assms show stored: "serviceRegistry as' serviceID = Some (skp_PublicKey keyPair)"
    by (auto simp: registerService_def)
  then show "getPublicKey L as' serviceID t1 t2
      = signed_response L (as_dilithiumKeyPair as') (as_serviceID as')
          (GoMap [(''service_id'', GoString serviceID),
                  (''public_key'', GoBytes (skp_PublicKey keyPair)),
                  (''timestamp'', GoTime t1)]) t2"
    by (simp add: getPublicKey_def)
next
  assume "gw_publicKeyCache gw serviceID = None
      \<and> registry serviceID = Reply 200 (Some response)
      \<and> Unmarshal_map J (resp_Data response) = Some keyData
      \<and> map_of keyData ''public_key'' = Some (GoString (EncodeToString k))"
  then show "gw_getServicePublicKey J gw serviceID registry
      = (Inr k, gw\<lparr>gw_publicKeyCache := (gw_publicKeyCache gw)(serviceID \<mapsto> k)\<rparr>)"
    by (simp add: gw_getServicePublicKey_def deserialize_base64)
next
  assume "gw_publicKeyCache gw serviceID = Some old"
  then show "gw_getServicePublicKey J gw serviceID registry = (Inr old, gw)"
    by (rule gw_cached)
next
  assume cached: "bs_publicKeyCache bs serviceID = Some old \<and> req_ServiceID request = serviceID"
  then show key: "bs_getServicePublicKey J bs serviceID registry = (Inr old, bs)"
    by (simp add: bs_cached)
  with cached show "verifyRequest L2 J bs request registry
      = (case verification_payload request of
           None \<Rightarrow> Some MarshalRequestFailed
         | Some payload \<Rightarrow>
             map_option SignatureVerificationFailed
               (VerifyDilithiumSignature L2 old payload (slice_bytes (req_Signature request))),
         bs)"
    by (simp add: verifyRequest_def split: option.split)
qed

lemma rotated_registry:
  "serviceRegistry rotated_auth ''api-gateway'' = Some (Some rotated_key)"
  by (simp add: rotated_auth_def registerService_def)

text \<open>
  C8 as stated fails: the gateway has registered again with a new key, the Registry
  holds and serves the new key, and the backend that has the old key in its cache still
  resolves the gateway to the old key and accepts a request signed with the old key.
\<close>

theorem stale_cache_counterexample:
  "serviceRegistry demo_auth ''api-gateway'' = Some (Some (replicate 1952 (CHR 0x07)))
   \<and> serviceRegistry rotated_auth ''api-gateway'' = Some (Some rotated_key)
   \<and> rotated_key \<noteq> replicate 1952 (CHR 0x07)
   \<and> bs_getServicePublicKey no_json demo_backend_cached ''api-gateway''
        (registry_of test_mode3 rotated_auth True demo_time demo_time)
       = (Inr (replicate 1952 (CHR 0x07)), demo_backend_cached)
   \<and> verifyRequest test_mode3 no_json demo_backend_cached demo_signed
        (registry_of test_mode3 rotated_auth True demo_time demo_time)
       = (None, demo_backend_cached)"
proof -
  have "bs_publicKeyCache demo_backend_cached ''api-gateway'' = Some (replicate 1952 (CHR 0x07))"
    by (simp add: demo_backend_cached_def)
  then show ?thesis
    by (simp add: bs_cached verifyRequest_demo rotated_registry rotated_key_def demo_auth_def)
qed

lemma svc_a_parsed: "Unmarshal_map test_json svc_a_data = Some svc_a_keyData"
  by code_simp

lemma svc_a_registry: "serviceRegistry svc_a_auth ''svc-a'' = Some (Some ''new-key'')"
  by (simp add: svc_a_auth_def registerService_def)

lemma svc_a_served:
  "registry_of test_mode3 svc_a_auth True demo_time demo_time ''svc-a'' = Reply 200 (Some svc_a_response)"
proof -
  have keys: "as_dilithiumKeyPair svc_a_auth = auth_keys" "as_serviceID svc_a_auth = ''auth-service''"
    by (simp_all add: svc_a_auth_def registerService_def demo_auth_def)
  have signed: "Sign test_mode3 auth_keys data = Inr (replicate 3293 (checksum (CHR 0x09) data))" for data
    by (simp add: Sign_def test_mode3_def auth_keys_def write_into_def make_bytes_def)
  show ?thesis
    by (simp add: registry_of_def getPublicKey_def svc_a_registry signed_response_def keys signed
        svc_a_response_def svc_a_data_def Let_def del: json_Marshal.simps)
qed

theorem registration_and_caches_witness:
  "registerService test_mode3 demo_auth
     (Some \<lparr>skp_ServiceID = ''svc-a'', skp_PublicKey = Some ''new-key'', skp_PrivateKey = None\<rparr>)
     demo_time demo_time
   = (fst (registerService test_mode3 demo_auth
        (Some \<lparr>skp_ServiceID = ''svc-a'', skp_PublicKey = Some ''new-key'', skp_PrivateKey = None\<rparr>)
        demo_time demo_time), svc_a_auth)
   \<and> serviceRegistry svc_a_auth ''svc-a'' = Some (Some ''new-key'')
   \<and> gw_publicKeyCache demo_gateway ''svc-a'' = None
   \<and> registry_of test_mode3 svc_a_auth True demo_time demo_time ''svc-a'' = Reply 200 (Some svc_a_response)
   \<and> Unmarshal_map test_json (resp_Data svc_a_response) = Some svc_a_keyData
   \<and> map_of svc_a_keyData ''public_key'' = Some (GoString (EncodeToString ''new-key''))
   \<and> gw_getServicePublicKey test_json demo_gateway ''svc-a''
        (registry_of test_mode3 svc_a_auth True demo_time demo_time)
       = (Inr ''new-key'', demo_gateway\<lparr>gw_publicKeyCache := [''svc-a'' \<mapsto> ''new-key'']\<rparr>)
   \<and> gw_publicKeyCache (demo_gateway\<lparr>gw_publicKeyCache := [''svc-a'' \<mapsto> ''old-key'']\<rparr>) ''svc-a''
       = Some ''old-key''
   \<and> gw_getServicePublicKey test_json
        (demo_gateway\<lparr>gw_publicKeyCache := [''svc-a'' \<mapsto> ''old-key'']\<rparr>) ''svc-a''
        (registry_of test_mode3 svc_a_auth True demo_time demo_time)
       = (Inr ''old-key'', demo_gateway\<lparr>gw_publicKeyCache := [''svc-a'' \<mapsto> ''old-key'']\<rparr>)
   \<and> bs_getServicePublicKey test_json
        (demo_backend\<lparr>bs_publicKeyCache := [''svc-a'' \<mapsto> ''old-key'']\<rparr>) ''svc-a''
        (registry_of test_mode3 svc_a_auth True demo_time demo_time)
       = (Inr ''old-key'', demo_backend\<lparr>bs_publicKeyCache := [''svc-a'' \<mapsto> ''old-key'']\<rparr>)"
proof -
  let ?kp = "\<lparr>skp_ServiceID = ''svc-a'', skp_PublicKey = Some ''new-key'', skp_PrivateKey = None\<rparr>"
  let ?registry = "registry_of test_mode3 svc_a_auth True demo_time demo_time"
  have reg: "registerService test_mode3 demo_auth (Some ?kp) demo_time demo_time
      = (fst (registerService test_mode3 demo_auth (Some ?kp) demo_time demo_time), svc_a_auth)"
    by (simp add: svc_a_auth_def)
  have sid: "skp_ServiceID ?kp = ''svc-a''" by simp
  have miss: "gw_publicKeyCache demo_gateway ''svc-a'' = None"
    by (simp add: demo_gateway_def)
  have data: "Unmarshal_map test_json (resp_Data svc_a_response) = Some svc_a_keyData"
    by (simp add: svc_a_response_def svc_a_parsed)
  have key: "map_of svc_a_keyData ''public_key'' = Some (GoString (EncodeToString ''new-key''))"
    by (simp add: svc_a_keyData_def)
  have empty: "gw_publicKeyCache demo_gateway = Map.empty"
    by (simp add: demo_gateway_def)
  have "gw_getServicePublicKey test_json demo_gateway ''svc-a'' ?registry
      = (Inr ''new-key'', demo_gateway\<lparr>gw_publicKeyCache :=
           (gw_publicKeyCache demo_gateway)(''svc-a'' \<mapsto> ''new-key'')\<rparr>)"
    using registration_and_caches [OF reg sid, where gw = demo_gateway and registry = ?registry
        and response = svc_a_response and J = test_json and keyData = svc_a_keyData
        and k = "''new-key''"]
      miss svc_a_served data key
    by blast
  then have fresh: "gw_getServicePublicKey test_json demo_gateway ''svc-a'' ?registry
      = (Inr ''new-key'', demo_gateway\<lparr>gw_publicKeyCache := [''svc-a'' \<mapsto> ''new-key'']\<rparr>)"
    by (simp add: empty)
  from registration_and_caches [OF reg sid,
      where gw = "demo_gateway\<lparr>gw_publicKeyCache := [''svc-a'' \<mapsto> ''old-key'']\<rparr>"
      and bs = "demo_backend\<lparr>bs_publicKeyCache := [''svc-a'' \<mapsto> ''old-key'']\<rparr>"
      and old = "''old-key''" and registry = ?registry and J = test_json
      and request = "ghost_request\<lparr>req_ServiceID := ''svc-a''\<rparr>"]
  have cached: "gw_getServicePublicKey test_json
        (demo_gateway\<lparr>gw_publicKeyCache := [''svc-a'' \<mapsto> ''old-key'']\<rparr>) ''svc-a'' ?registry
       = (Inr ''old-key'', demo_gateway\<lparr>gw_publicKeyCache := [''svc-a'' \<mapsto> ''old-key'']\<rparr>)"
    "bs_getServicePublicKey test_json
        (demo_backend\<lparr>bs_publicKeyCache := [''svc-a'' \<mapsto> ''old-key'']\<rparr>) ''svc-a'' ?registry
       = (Inr ''old-key'', demo_backend\<lparr>bs_publicKeyCache := [''svc-a'' \<mapsto> ''old-key'']\<rparr>)"
    by simp_all
  from reg svc_a_registry miss svc_a_served data key fresh cached show ?thesis
    by simp
qed

section \<open>Senders the Registry does not know\<close>

text \<open>A lookup puts a key into the cache only when it is answered 200 with a response.\<close>

lemma bs_getServicePublicKey_cache:
  assumes "bs_publicKeyCache (snd (bs_getServicePublicKey J bs serviceID registry)) x = Some k"
  shows "bs_publicKeyCache bs x = Some k
         \<or> (x = serviceID \<and> (\<exists>response. registry serviceID = Reply 200 (Some response)))"
proof (cases "bs_publicKeyCache bs serviceID")
  case (Some publicKey)
  with assms show ?thesis by (simp add: bs_getServicePublicKey_def)
next
  case None
  show ?thesis
  proof (cases "registry serviceID")
    case TransportFailure
    with None assms show ?thesis by (simp add: bs_getServicePublicKey_def)
  next
    case (Reply status body)
    show ?thesis
    proof (cases "status = 200")
      case False
      with None Reply assms show ?thesis by (simp add: bs_getServicePublicKey_def)
    next
      case True
      with None Reply assms show ?thesis
        by (auto simp: bs_getServicePublicKey_def split: option.splits sum.splits if_splits)
    qed
  qed
qed

lemma count_and_respond_cache:
  "bs_publicKeyCache (snd (count_and_respond L bs payload now)) = bs_publicKeyCache bs"
  by (simp add: count_and_respond_def Let_def split: option.split sum.split)

lemma verifyRequest_lookup:
  "bs_publicKeyCache (snd (verifyRequest L J bs request registry))
   = bs_publicKeyCache (snd (bs_getServicePublicKey J bs (req_ServiceID request) registry))"
  by (auto simp: verifyRequest_def split: prod.split sum.split option.split)

lemma processEcho_lookup:
  "bs_publicKeyCache (snd (processEcho L J bs (Some request) registry now1 elapsed now2))
   = bs_publicKeyCache (snd (bs_getServicePublicKey J bs (req_ServiceID request) registry))"
proof -
  obtain r bs' where v: "verifyRequest L J bs request registry = (r, bs')"
    by (cases "verifyRequest L J bs request registry")
  then have "bs_publicKeyCache (snd (processEcho L J bs (Some request) registry now1 elapsed now2))
      = bs_publicKeyCache bs'"
    by (cases r) (simp_all add: processEcho_def count_and_respond_cache)
  with verifyRequest_lookup [of L J bs request registry] v show ?thesis by simp
qed

lemma processData_lookup:
  "bs_publicKeyCache (snd (processData L J bs (Some request) registry now1 elapsed now2))
   = bs_publicKeyCache (snd (bs_getServicePublicKey J bs (req_ServiceID request) registry))"
proof -
  obtain r bs' where v: "verifyRequest L J bs request registry = (r, bs')"
    by (cases "verifyRequest L J bs request registry")
  then have "bs_publicKeyCache (snd (processData L J bs (Some request) registry now1 elapsed now2))
      = bs_publicKeyCache bs'"
    by (cases r) (simp_all add: processData_def count_and_respond_cache)
  with verifyRequest_lookup [of L J bs request registry] v show ?thesis by simp
qed

lemma signed_response_status:
  "signed_response L keyPair serviceID response now = HttpText status message \<Longrightarrow> status = 500"
  by (simp add: signed_response_def Let_def split: sum.splits)

lemma getPublicKey_unknown:
  "serviceRegistry as serviceID = None \<Longrightarrow>
   getPublicKey L as serviceID now1 now2 = HttpText 404 ''Service not found''"
  by (simp add: getPublicKey_def)

lemma registry_via_unknown:
  "route sender = PublicKeyOf serviceID \<Longrightarrow> serviceRegistry as serviceID = None \<Longrightarrow>
   registry_via route services L as up now1 now2 sender
     = (if up then Reply 404 None else TransportFailure)"
  by (simp add: registry_via_def getPublicKey_unknown)

lemma registry_via_ok:
  assumes "registry_via route services L as up now1 now2 sender = Reply 200 (Some response)"
  shows "route sender = ListOfServices
         \<or> (\<exists>serviceID. route sender = PublicKeyOf serviceID
                          \<and> serviceRegistry as serviceID \<noteq> None)"
proof (cases "route sender")
  case (PublicKeyOf serviceID)
  have "serviceRegistry as serviceID \<noteq> None"
  proof
    assume "serviceRegistry as serviceID = None"
    with assms PublicKeyOf show False
      by (simp add: registry_via_unknown split: if_splits)
  qed
  with PublicKeyOf show ?thesis by simp
next
  case ListOfServices
  then show ?thesis by simp
next
  case (PlainText status)
  with assms show ?thesis by (simp add: registry_via_def split: if_splits)
qed

text \<open>The router that hands every id to the handler as it stands.\<close>

lemma registry_via_plain:
  "registry_via PublicKeyOf services L as up now1 now2 = registry_of L as up now1 now2"
  by (rule ext) (simp add: registry_via_def registry_of_def)

lemma registerService_registry:
  "serviceRegistry as x \<noteq> None \<Longrightarrow>
   serviceRegistry (snd (registerService L as body now1 now2)) x \<noteq> None"
  by (cases body) (simp_all add: registerService_def)

text \<open>
  Every key in the backend's cache is cached for an id whose lookup reaches the key of
  a registered service, or the list of services.
\<close>

lemma cache_within_registry:
  "mesh_reachable route L J as bs \<Longrightarrow> bs_publicKeyCache bs x = Some k \<Longrightarrow>
   route x = ListOfServices
   \<or> (\<exists>serviceID. route x = PublicKeyOf serviceID \<and> serviceRegistry as serviceID \<noteq> None)"
proof (induction arbitrary: k rule: mesh_reachable.induct)
  case (start bs as)
  then show ?case by simp
next
  case (register as bs body now1 now2 answer as')
  then have "route x = ListOfServices
      \<or> (\<exists>serviceID. route x = PublicKeyOf serviceID \<and> serviceRegistry as serviceID \<noteq> None)"
    by blast
  with registerService_registry [of as _ L body now1 now2] register.hyps(2)
  show ?case by auto
next
  case (echo as bs L2 body services up t1 t2 now1 elapsed now2 answer bs')
  show ?case
  proof (cases body)
    case None
    with echo.hyps(2) echo.prems have "bs_publicKeyCache bs x = Some k"
      by (simp add: processEcho_def)
    then show ?thesis by (rule echo.IH)
  next
    case (Some request)
    with echo.hyps(2) echo.prems
      processEcho_lookup [of L2 J bs request "registry_via route services L as up t1 t2"
        now1 elapsed now2]
    have "bs_publicKeyCache (snd (bs_getServicePublicKey J bs (req_ServiceID request)
        (registry_via route services L as up t1 t2))) x = Some k"
      by simp
    from bs_getServicePublicKey_cache [OF this] echo.IH registry_via_ok
    show ?thesis by blast
  qed
next
  case (data as bs L2 body services up t1 t2 now1 elapsed now2 answer bs')
  show ?case
  proof (cases body)
    case None
    with data.hyps(2) data.prems have "bs_publicKeyCache bs x = Some k"
      by (simp add: processData_def)
    then show ?thesis by (rule data.IH)
  next
    case (Some request)
    with data.hyps(2) data.prems
      processData_lookup [of L2 J bs request "registry_via route services L as up t1 t2"
        now1 elapsed now2]
    have "bs_publicKeyCache (snd (bs_getServicePublicKey J bs (req_ServiceID request)
        (registry_via route services L as up t1 t2))) x = Some k"
      by simp
    from bs_getServicePublicKey_cache [OF this] data.IH registry_via_ok
    show ?thesis by blast
  qed
qed

text \<open>
  At the function: with no key for the sender in the cache, a lookup that is answered
  with no response, or not at all, makes \<^verbatim>\<open>verifyRequest\<close> return the error of the
  lookup, before the signature is looked at.
\<close>

lemma verifyRequest_not_found:
  assumes "bs_publicKeyCache bs (req_ServiceID request) = None"
    and "registry (req_ServiceID request) = Reply status None"
  shows "verifyRequest L2 J bs request registry
         = (Some (GetPublicKeyFailed
              (if status \<noteq> 200 then GetPublicKeyStatus status else DecodeResponseFailed)), bs)"
  using assms by (simp add: verifyRequest_def bs_getServicePublicKey_def)

lemma verifyRequest_no_answer:
  assumes "bs_publicKeyCache bs (req_ServiceID request) = None"
    and "registry (req_ServiceID request) = TransportFailure"
  shows "verifyRequest L2 J bs request registry = (Some (GetPublicKeyFailed FetchPublicKeyFailed), bs)"
  using assms by (simp add: verifyRequest_def bs_getServicePublicKey_def)

lemma verifyRequest_unknown:
  assumes "bs_publicKeyCache bs (req_ServiceID request) = None"
    and "route (req_ServiceID request) = PublicKeyOf serviceID"
    and "serviceRegistry as serviceID = None"
  shows "verifyRequest L2 J bs request (registry_via route services L as up t1 t2)
         = (Some (GetPublicKeyFailed (if up then GetPublicKeyStatus 404 else FetchPublicKeyFailed)), bs)"
proof (cases up)
  case True
  with assms show ?thesis
    using verifyRequest_not_found [of bs request "registry_via route services L as up t1 t2" 404]
    by (simp add: registry_via_unknown)
next
  case False
  with assms show ?thesis
    using verifyRequest_no_answer [of bs request "registry_via route services L as up t1 t2"]
    by (simp add: registry_via_unknown)
qed

lemma verifyRequest_plain_text:
  assumes "bs_publicKeyCache bs (req_ServiceID request) = None"
    and "route (req_ServiceID request) = PlainText status"
  shows "\<exists>e. verifyRequest L2 J bs request (registry_via route services L as up t1 t2)
              = (Some (GetPublicKeyFailed e), bs)"
proof (cases up)
  case True
  with assms show ?thesis
    using verifyRequest_not_found [of bs request "registry_via route services L as up t1 t2" status]
    by (simp add: registry_via_def)
next
  case False
  with assms show ?thesis
    using verifyRequest_no_answer [of bs request "registry_via route services L as up t1 t2"]
    by (simp add: registry_via_def)
qed

text \<open>
  With a parser that reads the key as it was written, no lookup gives the backend a
  key, whether the id is registered or not: the answer is no 200, or its data is not
  read, or there is no \<^verbatim>\<open>[]interface{}\<close> under \<^verbatim>\<open>public_key\<close> in it.
\<close>

lemma backend_key_value_no_array:
  assumes "\<And>publicKeyBytes. v \<noteq> Some (GoSlice publicKeyBytes)"
  shows "backend_key_value v = Inl InvalidPublicKeyFormat"
proof (cases v)
  case None
  then show ?thesis by simp
next
  case (Some keyValue)
  with assms show ?thesis by (cases keyValue) auto
qed

lemma getPublicKey_data:
  assumes "getPublicKey L as routed now1 now2 = HttpJSON status response"
  shows "\<exists>publicKey. resp_Data response
           = json_Marshal (GoMap [(''service_id'', GoString routed),
                                  (''public_key'', GoBytes publicKey),
                                  (''timestamp'', GoTime now1)])"
  using assms
  by (auto simp: getPublicKey_def signed_response_def Let_def split: option.splits sum.splits)

lemma listServices_data:
  assumes "listServices L as services now1 now2 = HttpJSON status response"
  shows "resp_Data response
           = json_Marshal (GoMap [(''services'', GoSlice (map GoString services)),
                                  (''count'', GoInt (int (length services))),
                                  (''timestamp'', GoTime now1)])"
  using assms
  by (auto simp: listServices_def signed_response_def Let_def split: sum.splits)

lemma answer_without_key:
  assumes contract: "reads_key_as_written J"
    and answer: "registry_via route services L as up t1 t2 sender = Reply 200 (Some response)"
    and read: "Unmarshal_map J (resp_Data response) = Some keyData"
  shows "backend_key_value (map_of keyData ''public_key'') = Inl InvalidPublicKeyFormat"
proof (rule backend_key_value_no_array)
  fix publicKeyBytes
  show "map_of keyData ''public_key'' \<noteq> Some (GoSlice publicKeyBytes)"
  proof (cases "route sender")
    case (PublicKeyOf routed)
    with answer obtain status where
      "getPublicKey L as routed t1 t2 = HttpJSON status response"
      by (cases "getPublicKey L as routed t1 t2") (auto simp: registry_via_def split: if_splits)
    then obtain publicKey where "resp_Data response
        = json_Marshal (GoMap [(''service_id'', GoString routed),
                               (''public_key'', GoBytes publicKey),
                               (''timestamp'', GoTime t1)])"
      using getPublicKey_data by blast
    with contract read show ?thesis
      unfolding reads_key_as_written_def by metis
  next
    case ListOfServices
    with answer obtain status where
      "listServices L as services t1 t2 = HttpJSON status response"
      by (cases "listServices L as services t1 t2") (auto simp: registry_via_def split: if_splits)
    then have "resp_Data response
        = json_Marshal (GoMap [(''services'', GoSlice (map GoString services)),
                               (''count'', GoInt (int (length services))),
                               (''timestamp'', GoTime t1)])"
      by (rule listServices_data)
    with contract read show ?thesis
      unfolding reads_key_as_written_def by metis
  next
    case (PlainText status)
    with answer show ?thesis by (simp add: registry_via_def split: if_splits)
  qed
qed

lemma lookup_resolves_nothing:
  assumes contract: "reads_key_as_written J"
    and miss: "bs_publicKeyCache bs sender = None"
  shows "\<exists>e. bs_getServicePublicKey J bs sender (registry_via route services L as up t1 t2)
              = (Inl e, bs)"
proof (cases "registry_via route services L as up t1 t2 sender")
  case TransportFailure
  with miss show ?thesis by (simp add: bs_getServicePublicKey_def)
next
  case (Reply status body)
  show ?thesis
  proof (cases "status = 200")
    case False
    with miss Reply show ?thesis by (simp add: bs_getServicePublicKey_def)
  next
    case True
    show ?thesis
    proof (cases body)
      case None
      with miss Reply True show ?thesis by (simp add: bs_getServicePublicKey_def)
    next
      case (Some response)
      show ?thesis
      proof (cases "Unmarshal_map J (resp_Data response)")
        case None
        with miss Reply True Some show ?thesis by (simp add: bs_getServicePublicKey_def)
      next
        case (Some keyData)
        from Reply True \<open>body = Some response\<close>
        have "registry_via route services L as up t1 t2 sender = Reply 200 (Some response)"
          by simp
        from answer_without_key [OF contract this Some] miss Reply True \<open>body = Some response\<close> Some
        show ?thesis by (simp add: bs_getServicePublicKey_def)
      qed
    qed
  qed
qed

lemma verifyRequest_served:
  assumes "reads_key_as_written J" and "bs_publicKeyCache bs (req_ServiceID request) = None"
  shows "\<exists>e. verifyRequest L2 J bs request (registry_via route services L as up t1 t2)
              = (Some (GetPublicKeyFailed e), bs)"
proof -
  from assms have "\<exists>e. bs_getServicePublicKey J bs (req_ServiceID request)
      (registry_via route services L as up t1 t2) = (Inl e, bs)"
    by (rule lookup_resolves_nothing)
  then show ?thesis by (auto simp: verifyRequest_def)
qed

lemma lookup_cache_contract:
  assumes contract: "reads_key_as_written J"
    and new: "bs_publicKeyCache
        (snd (bs_getServicePublicKey J bs sender (registry_via route services L as up t1 t2))) x
        = Some k"
  shows "bs_publicKeyCache bs x = Some k"
proof (cases "bs_publicKeyCache bs sender")
  case None
  with contract have "\<exists>e. bs_getServicePublicKey J bs sender
      (registry_via route services L as up t1 t2) = (Inl e, bs)"
    by (rule lookup_resolves_nothing)
  with new show ?thesis by auto
next
  case (Some publicKey)
  with new show ?thesis by (simp add: bs_getServicePublicKey_def)
qed

text \<open>With such a parser, the backend never holds a key.\<close>

lemma cache_stays_empty:
  "mesh_reachable route L J as bs \<Longrightarrow> reads_key_as_written J \<Longrightarrow> bs_publicKeyCache bs x = None"
proof (induction rule: mesh_reachable.induct)
  case (start bs as)
  then show ?case by simp
next
  case (register as bs body now1 now2 answer as')
  then show ?case by blast
next
  case (echo as bs L2 body services up t1 t2 now1 elapsed now2 answer bs')
  show ?case
  proof (cases "bs_publicKeyCache bs' x")
    case None
    then show ?thesis .
  next
    case (Some k)
    have "bs_publicKeyCache bs x = Some k"
    proof (cases body)
      case None
      with echo.hyps(2) Some show ?thesis by (simp add: processEcho_def)
    next
      case (Some request)
      with echo.hyps(2) \<open>bs_publicKeyCache bs' x = Some k\<close>
        processEcho_lookup [of L2 J bs request "registry_via route services L as up t1 t2"
          now1 elapsed now2]
      have "bs_publicKeyCache (snd (bs_getServicePublicKey J bs (req_ServiceID request)
          (registry_via route services L as up t1 t2))) x = Some k"
        by simp
      with echo.prems show ?thesis by (rule lookup_cache_contract)
    qed
    with echo.IH echo.prems show ?thesis by simp
  qed
next
  case (data as bs L2 body services up t1 t2 now1 elapsed now2 answer bs')
  show ?case
  proof (cases "bs_publicKeyCache bs' x")
    case None
    then show ?thesis .
  next
    case (Some k)
    have "bs_publicKeyCache bs x = Some k"
    proof (cases body)
      case None
      with data.hyps(2) Some show ?thesis by (simp add: processData_def)
    next
      case (Some request)
      with data.hyps(2) \<open>bs_publicKeyCache bs' x = Some k\<close>
        processData_lookup [of L2 J bs request "registry_via route services L as up t1 t2"
          now1 elapsed now2]
      have "bs_publicKeyCache (snd (bs_getServicePublicKey J bs (req_ServiceID request)
          (registry_via route services L as up t1 t2))) x = Some k"
        by simp
      with data.prems show ?thesis by (rule lookup_cache_contract)
    qed
    with data.IH data.prems show ?thesis by simp
  qed
qed

text \<open>The stand-in parser reads strings and \<^verbatim>\<open>null\<close> only.\<close>

lemma read_value_shape:
  "read_value s = Some (v, rest) \<Longrightarrow> v \<noteq> GoSlice xs"
  by (auto simp: read_value_def split: if_splits)

lemma read_members_shape:
  "read_members fuel s = Some m \<Longrightarrow> (k, v) \<in> set m \<Longrightarrow> v \<noteq> GoSlice xs"
proof (induction fuel arbitrary: s m)
  case 0
  then show ?case by simp
next
  case (Suc fuel)
  from Suc.prems(1) obtain key s1 where key: "read_string s = Some (key, s1)"
    by (auto split: option.splits)
  with Suc.prems(1) obtain s2 where s2: "expect_char (CHR '':'') s1 = Some s2"
    by (auto split: option.splits)
  with key Suc.prems(1) obtain v1 s3 where v1: "read_value s2 = Some (v1, s3)"
    by (auto split: option.splits)
  show ?case
  proof (cases "s3 = ''}''")
    case True
    with key s2 v1 Suc.prems have "v = v1" by auto
    with v1 read_value_shape show ?thesis by blast
  next
    case False
    with key s2 v1 Suc.prems(1) obtain s4 ms where
      ms: "read_members fuel s4 = Some ms" "m = (key, v1) # ms"
      by (auto split: option.splits)
    with Suc.prems(2) have "v = v1 \<or> (k, v) \<in> set ms"
      by auto
    then show ?thesis
    proof
      assume "v = v1"
      with v1 read_value_shape show ?thesis by blast
    next
      assume "(k, v) \<in> set ms"
      with ms(1) show ?thesis by (rule Suc.IH)
    qed
  qed
qed

lemma test_json_no_array:
  assumes "Unmarshal_map test_json data = Some keyData"
  shows "map_of keyData k \<noteq> Some (GoSlice xs)"
proof -
  from assms have "test_json (slice_bytes data) = Some (GoMap keyData)"
    by (cases "test_json (slice_bytes data)" rule: as_map.cases)
       (auto simp: Unmarshal_map_def test_json_def split: if_splits option.splits)
  then have "keyData = [] \<or> (\<exists>fuel s. read_members fuel s = Some keyData)"
    by (auto simp: test_json_def split: if_splits option.splits)
  then show ?thesis
  proof
    assume "keyData = []"
    then show ?thesis by simp
  next
    assume "\<exists>fuel s. read_members fuel s = Some keyData"
    then obtain fuel s where "read_members fuel s = Some keyData"
      by blast
    from read_members_shape [OF this] show ?thesis
      by (auto dest: map_of_SomeD)
  qed
qed

lemma test_json_reads_key_as_written: "reads_key_as_written test_json"
  by (simp add: reads_key_as_written_def test_json_no_array)

text \<open>
  C2. A sender that is not in the Registry's map is rejected, whatever signature the
  request carries and whatever the signature library would say about it.
  \<^verbatim>\<open>keyExchange\<close> answers 401 for it, and \<^verbatim>\<open>getPublicKey\<close> answers 404. At the
  backend, in every state that the Registry and a backend can reach and for every
  router, \<^verbatim>\<open>verifyRequest\<close> returns an error, and \<^verbatim>\<open>processEcho\<close> and \<^verbatim>\<open>processData\<close>
  answer 401 and leave the backend as it was, in each of these cases. For every JSON
  parser: when the lookup of the sender's key reaches \<^verbatim>\<open>getPublicKey\<close> with an id that
  is not in the map, so that the Registry answers 404, or reaches no handler that
  answers with JSON, or does not come back. And for every parser that reads the key
  as it was written: wherever the lookup of the unregistered sender goes, also to the
  key of a registered service or to the list of services. That the backend holds no
  key for the sender follows from the state being reachable and is not assumed.
\<close>

theorem unknown_sender_rejected:
  assumes "mesh_reachable route L J as bs"
    and "serviceRegistry as serviceID = None"
  shows "(kx_ServiceID kx = serviceID \<longrightarrow>
            keyExchange L Q as (Some kx) seed now = HttpText 401 ''Service not registered'')
       \<and> getPublicKey L as serviceID t1 t2 = HttpText 404 ''Service not found''
       \<and> (route (req_ServiceID request) = PublicKeyOf serviceID
          \<or> route (req_ServiceID request) = PlainText status
          \<or> req_ServiceID request = serviceID \<and> reads_key_as_written J \<longrightarrow>
            fst (verifyRequest L2 J bs request (registry_via route services L as up t1 t2)) \<noteq> None
          \<and> processEcho L2 J bs (Some request) (registry_via route services L as up t1 t2)
                now1 elapsed now2
              = (HttpText 401 ''Request verification failed'', bs)
          \<and> processData L2 J bs (Some request) (registry_via route services L as up t1 t2)
                now1 elapsed now2
              = (HttpText 401 ''Request verification failed'', bs))"
proof (intro conjI impI)
  assume "kx_ServiceID kx = serviceID"
  with assms(2) show "keyExchange L Q as (Some kx) seed now = HttpText 401 ''Service not registered''"
    by (simp add: keyExchange_def)
next
  from assms(2) show "getPublicKey L as serviceID t1 t2 = HttpText 404 ''Service not found''"
    by (rule getPublicKey_unknown)
next
  let ?registry = "registry_via route services L as up t1 t2"
  assume sender: "route (req_ServiceID request) = PublicKeyOf serviceID
      \<or> route (req_ServiceID request) = PlainText status
      \<or> req_ServiceID request = serviceID \<and> reads_key_as_written J"
  have "\<exists>e. verifyRequest L2 J bs request ?registry = (Some e, bs)"
    using sender
  proof (elim disjE)
    assume routed: "route (req_ServiceID request) = PublicKeyOf serviceID"
    have "bs_publicKeyCache bs (req_ServiceID request) = None"
    proof (cases "bs_publicKeyCache bs (req_ServiceID request)")
      case None
      then show ?thesis .
    next
      case (Some k)
      with cache_within_registry [OF assms(1)] routed assms(2) show ?thesis by fastforce
    qed
    then have "verifyRequest L2 J bs request ?registry
        = (Some (GetPublicKeyFailed (if up then GetPublicKeyStatus 404 else FetchPublicKeyFailed)), bs)"
      using routed assms(2) by (rule verifyRequest_unknown)
    then show ?thesis by simp
  next
    assume plain: "route (req_ServiceID request) = PlainText status"
    have "bs_publicKeyCache bs (req_ServiceID request) = None"
    proof (cases "bs_publicKeyCache bs (req_ServiceID request)")
      case None
      then show ?thesis .
    next
      case (Some k)
      with cache_within_registry [OF assms(1)] plain show ?thesis by fastforce
    qed
    then have "\<exists>e. verifyRequest L2 J bs request ?registry = (Some (GetPublicKeyFailed e), bs)"
      using plain by (rule verifyRequest_plain_text)
    then show ?thesis by blast
  next
    assume other: "req_ServiceID request = serviceID \<and> reads_key_as_written J"
    with cache_stays_empty [OF assms(1)]
    have "bs_publicKeyCache bs (req_ServiceID request) = None"
      by simp
    with other have "\<exists>e. verifyRequest L2 J bs request ?registry = (Some (GetPublicKeyFailed e), bs)"
      by (simp add: verifyRequest_served)
    then show ?thesis by blast
  qed
  then obtain e where v: "verifyRequest L2 J bs request ?registry = (Some e, bs)"
    by blast
  then show "fst (verifyRequest L2 J bs request ?registry) \<noteq> None"
    by simp
  from v show "processEcho L2 J bs (Some request) ?registry now1 elapsed now2
      = (HttpText 401 ''Request verification failed'', bs)"
    by (simp add: processEcho_def)
  from v show "processData L2 J bs (Some request) ?registry now1 elapsed now2
      = (HttpText 401 ''Request verification failed'', bs)"
    by (simp add: processData_def)
qed

lemma ghost_unregistered: "serviceRegistry demo_auth ''svc-ghost'' = None"
  by (simp add: demo_auth_def)

lemma alias_unregistered: "serviceRegistry svc_a_auth ''svc-a?x=1'' = None"
  by (simp add: svc_a_auth_def registerService_def demo_auth_def)

lemma alias_served:
  "registry_via alias_route services test_mode3 svc_a_auth True demo_time demo_time ''svc-a?x=1''
     = Reply 200 (Some svc_a_response)"
  using svc_a_served by (simp add: registry_via_def registry_of_def alias_route_def)

theorem unknown_sender_rejected_witness:
  "mesh_reachable PublicKeyOf test_mode3 no_json demo_auth demo_backend
   \<and> serviceRegistry demo_auth ''svc-ghost'' = None
   \<and> keyExchange test_mode3 test_kyber demo_auth
        (Some \<lparr>kx_ServiceID = ''svc-ghost'', kx_KyberPublicKey = None, kx_Timestamp = demo_time,
               kx_Signature = None\<rparr>) None demo_time
       = HttpText 401 ''Service not registered''
   \<and> getPublicKey test_mode3 demo_auth ''svc-ghost'' demo_time demo_time
       = HttpText 404 ''Service not found''
   \<and> PublicKeyOf (req_ServiceID ghost_request) = PublicKeyOf ''svc-ghost''
   \<and> fst (verifyRequest test_mode3 no_json demo_backend ghost_request
           (registry_via PublicKeyOf [] test_mode3 demo_auth True demo_time demo_time)) \<noteq> None
   \<and> processEcho test_mode3 no_json demo_backend (Some ghost_request)
        (registry_via PublicKeyOf [] test_mode3 demo_auth True demo_time demo_time)
        demo_time ''1ms'' demo_time
       = (HttpText 401 ''Request verification failed'', demo_backend)
   \<and> processData test_mode3 no_json demo_backend (Some ghost_request)
        (registry_via PublicKeyOf [] test_mode3 demo_auth True demo_time demo_time)
        demo_time ''1ms'' demo_time
       = (HttpText 401 ''Request verification failed'', demo_backend)
   \<and> mesh_reachable alias_route test_mode3 test_json svc_a_auth demo_backend
   \<and> serviceRegistry svc_a_auth ''svc-a?x=1'' = None
   \<and> req_ServiceID alias_request = ''svc-a?x=1''
   \<and> alias_route ''svc-a?x=1'' = PublicKeyOf ''svc-a''
   \<and> serviceRegistry svc_a_auth ''svc-a'' = Some (Some ''new-key'')
   \<and> reads_key_as_written test_json
   \<and> registry_via alias_route [] test_mode3 svc_a_auth True demo_time demo_time ''svc-a?x=1''
       = Reply 200 (Some svc_a_response)
   \<and> fst (verifyRequest test_mode3 test_json demo_backend alias_request
           (registry_via alias_route [] test_mode3 svc_a_auth True demo_time demo_time)) \<noteq> None
   \<and> processEcho test_mode3 test_json demo_backend (Some alias_request)
        (registry_via alias_route [] test_mode3 svc_a_auth True demo_time demo_time)
        demo_time ''1ms'' demo_time
       = (HttpText 401 ''Request verification failed'', demo_backend)
   \<and> processData test_mode3 test_json demo_backend (Some alias_request)
        (registry_via alias_route [] test_mode3 svc_a_auth True demo_time demo_time)
        demo_time ''1ms'' demo_time
       = (HttpText 401 ''Request verification failed'', demo_backend)
   \<and> alias_route (req_ServiceID (alias_request\<lparr>req_ServiceID := ''a/b''\<rparr>)) = PlainText 404
   \<and> processEcho test_mode3 test_json demo_backend
        (Some (alias_request\<lparr>req_ServiceID := ''a/b''\<rparr>))
        (registry_via alias_route [] test_mode3 svc_a_auth True demo_time demo_time)
        demo_time ''1ms'' demo_time
       = (HttpText 401 ''Request verification failed'', demo_backend)"
proof -
  have reach: "mesh_reachable PublicKeyOf test_mode3 no_json demo_auth demo_backend"
    by (rule mesh_reachable.start) (simp add: demo_backend_def)
  have routed: "PublicKeyOf (req_ServiceID ghost_request) = PublicKeyOf ''svc-ghost''"
    by (simp add: ghost_request_def)
  have plain:
    "keyExchange test_mode3 test_kyber demo_auth
        (Some \<lparr>kx_ServiceID = ''svc-ghost'', kx_KyberPublicKey = None, kx_Timestamp = demo_time,
               kx_Signature = None\<rparr>) None demo_time
       = HttpText 401 ''Service not registered''
     \<and> getPublicKey test_mode3 demo_auth ''svc-ghost'' demo_time demo_time
       = HttpText 404 ''Service not found''
     \<and> fst (verifyRequest test_mode3 no_json demo_backend ghost_request
           (registry_via PublicKeyOf [] test_mode3 demo_auth True demo_time demo_time)) \<noteq> None
     \<and> processEcho test_mode3 no_json demo_backend (Some ghost_request)
        (registry_via PublicKeyOf [] test_mode3 demo_auth True demo_time demo_time)
        demo_time ''1ms'' demo_time
       = (HttpText 401 ''Request verification failed'', demo_backend)
     \<and> processData test_mode3 no_json demo_backend (Some ghost_request)
        (registry_via PublicKeyOf [] test_mode3 demo_auth True demo_time demo_time)
        demo_time ''1ms'' demo_time
       = (HttpText 401 ''Request verification failed'', demo_backend)"
    using unknown_sender_rejected [OF reach ghost_unregistered,
        where kx = "\<lparr>kx_ServiceID = ''svc-ghost'', kx_KyberPublicKey = None,
                      kx_Timestamp = demo_time, kx_Signature = None\<rparr>"
          and Q = test_kyber and seed = None and now = demo_time and request = ghost_request
          and ?L2.0 = test_mode3 and services = "[]" and up = True
          and ?t1.0 = demo_time and ?t2.0 = demo_time and ?now1.0 = demo_time
          and elapsed = "''1ms''" and ?now2.0 = demo_time]
      routed
    by simp
  have reach2: "mesh_reachable alias_route test_mode3 test_json svc_a_auth demo_backend"
    by (rule mesh_reachable.start) (simp add: demo_backend_def)
  have sender: "req_ServiceID alias_request = ''svc-a?x=1''"
    by (simp add: alias_request_def)
  have route: "alias_route ''svc-a?x=1'' = PublicKeyOf ''svc-a''"
    by (simp add: alias_route_def)
  have aliased:
    "fst (verifyRequest test_mode3 test_json demo_backend alias_request
           (registry_via alias_route [] test_mode3 svc_a_auth True demo_time demo_time)) \<noteq> None
     \<and> processEcho test_mode3 test_json demo_backend (Some alias_request)
        (registry_via alias_route [] test_mode3 svc_a_auth True demo_time demo_time)
        demo_time ''1ms'' demo_time
       = (HttpText 401 ''Request verification failed'', demo_backend)
     \<and> processData test_mode3 test_json demo_backend (Some alias_request)
        (registry_via alias_route [] test_mode3 svc_a_auth True demo_time demo_time)
        demo_time ''1ms'' demo_time
       = (HttpText 401 ''Request verification failed'', demo_backend)"
    using unknown_sender_rejected [OF reach2 alias_unregistered,
        where request = alias_request
          and ?L2.0 = test_mode3 and services = "[]" and up = True
          and ?t1.0 = demo_time and ?t2.0 = demo_time and ?now1.0 = demo_time
          and elapsed = "''1ms''" and ?now2.0 = demo_time]
      sender test_json_reads_key_as_written
    by blast
  have slash: "alias_route (req_ServiceID (alias_request\<lparr>req_ServiceID := ''a/b''\<rparr>)) = PlainText 404"
    by (simp add: alias_route_def)
  have unrouted:
    "processEcho test_mode3 test_json demo_backend
        (Some (alias_request\<lparr>req_ServiceID := ''a/b''\<rparr>))
        (registry_via alias_route [] test_mode3 svc_a_auth True demo_time demo_time)
        demo_time ''1ms'' demo_time
       = (HttpText 401 ''Request verification failed'', demo_backend)"
    using unknown_sender_rejected [OF reach2 alias_unregistered,
        where request = "alias_request\<lparr>req_ServiceID := ''a/b''\<rparr>" and status = 404
          and ?L2.0 = test_mode3 and services = "[]" and up = True
          and ?t1.0 = demo_time and ?t2.0 = demo_time and ?now1.0 = demo_time
          and elapsed = "''1ms''" and ?now2.0 = demo_time]
      slash
    by blast
  from reach ghost_unregistered routed plain reach2 alias_unregistered sender route
    svc_a_registry test_json_reads_key_as_written alias_served aliased slash unrouted
  show ?thesis by simp
qed

text \<open>
  At the function, for a sender whose lookup is answered with the key of a registered
  service: when the parser reads the key as the string it was written as, the
  backend's conversion of the key returns an error.
\<close>

lemma served_key_rejected:
  assumes "bs_publicKeyCache bs (req_ServiceID request) = None"
    and "registry (req_ServiceID request) = Reply 200 (Some response)"
    and "Unmarshal_map J (resp_Data response) = Some keyData"
    and "map_of keyData ''public_key'' = Some (GoString keyString)"
  shows "verifyRequest L2 J bs request registry
         = (Some (GetPublicKeyFailed InvalidPublicKeyFormat), bs)"
  using assms by (simp add: verifyRequest_def bs_getServicePublicKey_def)

section \<open>One key, two decoders\<close>

text \<open>
  \<^verbatim>\<open>getPublicKey\<close> hands the key to \<^verbatim>\<open>json.Marshal\<close> as a \<^verbatim>\<open>[]byte\<close>, which is written
  as a base64 string, and a JSON string is read into an \<^verbatim>\<open>interface{}\<close> as a Go
  string. The gateway's decoder takes the string and returns the key; the backend's
  type assertion to \<^verbatim>\<open>[]interface{}\<close> fails on it, for every key.
\<close>

lemma served_key_is_base64:
  "json_Marshal (GoBytes (Some k)) = Some ([dquote] @ EncodeToString k @ [dquote])"
  by simp

lemma decoders_on_base64:
  "deserialize_value (GoString (EncodeToString k)) = Inr k"
  "backend_key_value (Some (GoString (EncodeToString k))) = Inl InvalidPublicKeyFormat"
  by (simp_all add: DecodeString_EncodeToString)

lemma backend_rejects_base64:
  assumes "bs_publicKeyCache bs serviceID = None"
    and "registry serviceID = Reply 200 (Some response)"
    and "Unmarshal_map J (resp_Data response) = Some keyData"
    and "map_of keyData ''public_key'' = Some (GoString (EncodeToString k))"
  shows "bs_getServicePublicKey J bs serviceID registry = (Inl InvalidPublicKeyFormat, bs)"
  using assms by (simp add: bs_getServicePublicKey_def)

text \<open>
  C6. The service \<^verbatim>\<open>svc-a\<close> has registered the key \<^verbatim>\<open>new-key\<close>, and the Registry
  serves it. The gateway reads the key from the answer. The backend, with an empty
  cache, reads the same answer and returns the error \<^verbatim>\<open>invalid public key format\<close>.
\<close>

theorem backend_rejects_served_key:
  "serviceRegistry svc_a_auth ''svc-a'' = Some (Some ''new-key'')
   \<and> registry_of test_mode3 svc_a_auth True demo_time demo_time ''svc-a''
       = Reply 200 (Some svc_a_response)
   \<and> Unmarshal_map test_json (resp_Data svc_a_response) = Some svc_a_keyData
   \<and> fst (gw_getServicePublicKey test_json demo_gateway ''svc-a''
            (registry_of test_mode3 svc_a_auth True demo_time demo_time)) = Inr ''new-key''
   \<and> bs_getServicePublicKey test_json demo_backend ''svc-a''
        (registry_of test_mode3 svc_a_auth True demo_time demo_time)
       = (Inl InvalidPublicKeyFormat, demo_backend)"
proof -
  have data: "Unmarshal_map test_json (resp_Data svc_a_response) = Some svc_a_keyData"
    by (simp add: svc_a_response_def svc_a_parsed)
  have key: "map_of svc_a_keyData ''public_key'' = Some (GoString (EncodeToString ''new-key''))"
    by (simp add: svc_a_keyData_def)
  have "gw_getServicePublicKey test_json demo_gateway ''svc-a''
          (registry_of test_mode3 svc_a_auth True demo_time demo_time)
        = (Inr ''new-key'', demo_gateway\<lparr>gw_publicKeyCache :=
             (gw_publicKeyCache demo_gateway)(''svc-a'' \<mapsto> ''new-key'')\<rparr>)"
    by (simp add: gw_getServicePublicKey_def demo_gateway_def svc_a_served data
        deserialize_base64 [OF key])
  moreover have "bs_getServicePublicKey test_json demo_backend ''svc-a''
          (registry_of test_mode3 svc_a_auth True demo_time demo_time)
        = (Inl InvalidPublicKeyFormat, demo_backend)"
    by (rule backend_rejects_base64 [where response = svc_a_response and keyData = svc_a_keyData
          and k = "''new-key''"])
       (simp_all add: demo_backend_def svc_a_served data key)
  ultimately show ?thesis
    using svc_a_registry svc_a_served data by simp
qed

section \<open>The gateway forwards\<close>

lemma sequence_all_Some: "list_all (\<lambda>x. x \<noteq> None) xs \<Longrightarrow> sequence xs \<noteq> None"
  by (induction xs rule: sequence.induct) simp_all

lemma marshal_object_Some:
  assumes "list_all (\<lambda>m. snd m \<noteq> None) members"
  shows "marshal_object members \<noteq> None"
proof -
  have "list_all (\<lambda>x. x \<noteq> None) (map marshal_member members)"
    using assms by (induction members) auto
  then show ?thesis
    by (simp add: marshal_object_def sequence_all_Some)
qed

lemma marshal_string_map: "json_Marshal (string_map hs) \<noteq> None"
proof -
  have "list_all (\<lambda>m. snd m \<noteq> None) (map (map_prod id json_Marshal) (map (map_prod id GoString) hs))"
    by (induction hs) auto
  then have "list_all (\<lambda>m. snd m \<noteq> None)
      (sort_key fst (map (map_prod id json_Marshal) (map (map_prod id GoString) hs)))"
    by (simp add: list_all_iff)
  then show ?thesis
    by (simp add: string_map_def marshal_object_Some del: map_map)
qed

lemma marshal_ServiceRequest_Some:
  assumes "marshal_time (req_Timestamp r) \<noteq> None" and "marshal_RawMessage (req_Data r) \<noteq> None"
  shows "marshal_ServiceRequest r \<noteq> None"
  unfolding marshal_ServiceRequest_def
  by (rule marshal_object_Some) (use assms marshal_string_map in \<open>simp add: omitempty_def\<close>)

lemma compact_empty_object: "compact ''{}'' = Some ''{}''"
  by code_simp

lemma forwardToBackend_sent:
  assumes "build_signed_request L gw r now = Inr (requestData, requestPayload)"
    and "url_ok (gw_backendServiceURL gw @ rq_Path r)"
  shows "fst (snd (forwardToBackend L J gw r now url_ok backend registry))
         = Some \<lparr>out_Method = ''POST'', out_URL = gw_backendServiceURL gw @ rq_Path r,
                 out_Body = slice_bytes (marshal_ServiceRequest requestData),
                 out_Header = [(''Content-Type'', ''application/json''),
                               (''X-Service-ID'', gw_serviceID gw)]\<rparr>"
  using assms
  by (auto simp: forwardToBackend_def Let_def
      split: http_reply.split option.split prod.split sum.split)

text \<open>
  C10 (as amended). For every inbound request on a path other than \<^verbatim>\<open>/health\<close>,
  whatever its method, whose body could be read and is empty or a JSON text, and for
  which \<^verbatim>\<open>http.NewRequest\<close> accepts the backend's URL followed by the path: the gateway
  sends the backend a POST to that URL; the body sent is the JSON text of the request it
  built, whose data is the object \<^verbatim>\<open>{}\<close> when the inbound body is empty and the inbound
  body otherwise, and whose signature is the signature of the request marshalled with
  no signature. (The time stamp is one that marshals, as every \<^verbatim>\<open>time.Now()\<close> is.)
\<close>

theorem gateway_forwards_as_post:
  assumes "rq_Path r \<noteq> ''/health''"
    and "rq_Body r = Some body"
    and "body = [] \<or> compact body \<noteq> None"
    and "marshal_time now \<noteq> None"
    and "url_ok (gw_backendServiceURL gw @ rq_Path r)"
  shows "\<exists>req requestData requestPayload signature.
           fst (snd (handleRequest L J gw r now url_ok backend registry)) = Some req
         \<and> out_Method req = ''POST''
         \<and> out_URL req = gw_backendServiceURL gw @ rq_Path r
         \<and> marshal_ServiceRequest requestData = Some (out_Body req)
         \<and> req_ServiceID requestData = gw_serviceID gw
         \<and> req_Data requestData = Some (if body = [] then ''{}'' else body)
         \<and> req_Headers requestData = first_values (rq_Header r)
         \<and> req_Signature requestData = Some signature
         \<and> marshal_ServiceRequest (requestData\<lparr>req_Signature := None\<rparr>) = Some requestPayload
         \<and> Sign L (gw_dilithiumKeyPair gw) requestPayload = Inr signature"
proof -
  let ?data = "if body = [] then ''{}'' else body"
  let ?unsigned = "\<lparr>req_ServiceID = gw_serviceID gw, req_Timestamp = now, req_Data = Some ?data,
      req_Signature = None, req_Headers = first_values (rq_Header r)\<rparr>"
  have raw: "marshal_RawMessage (Some ?data) \<noteq> None"
    using assms(3) by (auto simp: compact_empty_object)
  with assms(4) have "marshal_ServiceRequest ?unsigned \<noteq> None"
    by (intro marshal_ServiceRequest_Some) simp_all
  then obtain requestPayload where p: "marshal_ServiceRequest ?unsigned = Some requestPayload"
    by auto
  obtain signature where s: "Sign L (gw_dilithiumKeyPair gw) requestPayload = Inr signature"
    using Sign_returns [of L "gw_dilithiumKeyPair gw" requestPayload] by auto
  let ?signed = "?unsigned\<lparr>req_Signature := Some signature\<rparr>"
  have built: "build_signed_request L gw r now = Inr (?signed, requestPayload)"
    using assms(2) p s by (simp add: build_signed_request_def Let_def)
  from raw assms(4) have "marshal_ServiceRequest ?signed \<noteq> None"
    by (intro marshal_ServiceRequest_Some) simp_all
  then obtain signedPayload where sp: "marshal_ServiceRequest ?signed = Some signedPayload"
    by auto
  let ?req = "\<lparr>out_Method = ''POST'', out_URL = gw_backendServiceURL gw @ rq_Path r,
      out_Body = signedPayload,
      out_Header = [(''Content-Type'', ''application/json''), (''X-Service-ID'', gw_serviceID gw)]\<rparr>"
  have "fst (snd (forwardToBackend L J gw r now url_ok backend registry)) = Some ?req"
    using forwardToBackend_sent [where url_ok = url_ok and J = J and backend = backend
        and registry = registry, OF built assms(5)] sp
    by (simp add: slice_bytes_def)
  with assms(1) have sent: "fst (snd (handleRequest L J gw r now url_ok backend registry)) = Some ?req"
    by (simp add: handleRequest_def)
  have "marshal_ServiceRequest (?signed\<lparr>req_Signature := None\<rparr>) = Some requestPayload"
    using p by simp
  with sent sp s show ?thesis
    by (intro exI [of _ ?req] exI [of _ ?signed] exI [of _ requestPayload] exI [of _ signature])
      simp
qed

lemma not_json_marshal:
  "marshal_ServiceRequest
     \<lparr>req_ServiceID = ''api-gateway'', req_Timestamp = demo_time, req_Data = Some ''not json'',
      req_Signature = None, req_Headers = []\<rparr> = None"
  by code_simp

text \<open>
  C10 as stated fails: a POST to \<^verbatim>\<open>/echo\<close> whose body is not JSON is not forwarded.
  \<^verbatim>\<open>json.Marshal\<close> rejects the request built around the body, and the gateway answers
  500 without sending anything to the backend.
\<close>

theorem invalid_body_not_forwarded_counterexample:
  "rq_Path not_json_request \<noteq> ''/health''
   \<and> handleRequest test_mode3 no_json demo_gateway not_json_request demo_time (\<lambda>url. True)
        (\<lambda>req. TransportFailure) (\<lambda>serviceID. TransportFailure)
       = (HttpText 500 ''Internal server error'', None, demo_gateway)"
  using not_json_marshal
  by (simp add: handleRequest_def forwardToBackend_def build_signed_request_def
      not_json_request_def demo_gateway_def Let_def)

lemma marshal_demo_time: "marshal_time demo_time = Some (bq ''`2024-01-01T00:00:00Z`'')"
  by code_simp

theorem gateway_forwards_as_post_witness:
  "rq_Path status_request \<noteq> ''/health''
   \<and> rq_Body status_request = Some []
   \<and> marshal_time demo_time \<noteq> None
   \<and> (\<exists>req requestData requestPayload signature.
         fst (snd (handleRequest test_mode3 no_json demo_gateway status_request demo_time
                     (\<lambda>url. True) (\<lambda>req. TransportFailure) (\<lambda>serviceID. TransportFailure)))
           = Some req
       \<and> out_Method req = ''POST''
       \<and> out_URL req = ''http://localhost:8082/status''
       \<and> marshal_ServiceRequest requestData = Some (out_Body req)
       \<and> req_ServiceID requestData = ''api-gateway''
       \<and> req_Data requestData = Some ''{}''
       \<and> req_Headers requestData = []
       \<and> req_Signature requestData = Some signature
       \<and> marshal_ServiceRequest (requestData\<lparr>req_Signature := None\<rparr>) = Some requestPayload
       \<and> Sign test_mode3 gateway_keys requestPayload = Inr signature)"
proof -
  have path: "rq_Path status_request \<noteq> ''/health''"
    and body: "rq_Body status_request = Some []"
    and headers: "rq_Header status_request = []"
    by (simp_all add: status_request_def)
  have time: "marshal_time demo_time \<noteq> None"
    by (simp add: marshal_demo_time)
  have url: "gw_backendServiceURL demo_gateway @ rq_Path status_request = ''http://localhost:8082/status''"
    and gw: "gw_serviceID demo_gateway = ''api-gateway''" "gw_dilithiumKeyPair demo_gateway = gateway_keys"
    by (simp_all add: demo_gateway_def status_request_def)
  have ok: "(\<lambda>url. True) (gw_backendServiceURL demo_gateway @ rq_Path status_request)"
    by simp
  from gateway_forwards_as_post [where url_ok = "\<lambda>url. True" and L = test_mode3 and J = no_json
      and backend = "\<lambda>req. TransportFailure" and registry = "\<lambda>serviceID. TransportFailure"
      and gw = demo_gateway and r = status_request and now = demo_time and body = "[]",
      OF path body _ time ok]
  show ?thesis
    using path body time by (simp add: url gw headers)
qed

text \<open>
  What the counterexample shows at one body holds for every body that is neither empty
  nor JSON: the gateway answers 500 and sends nothing.
\<close>

lemma sequence_None: "None \<in> set xs \<Longrightarrow> sequence xs = None"
  by (induction xs rule: sequence.induct) auto

lemma marshal_object_None:
  assumes "(k, None) \<in> set members"
  shows "marshal_object members = None"
proof -
  from assms have "marshal_member (k, None) \<in> marshal_member ` set members"
    by (rule imageI)
  then have "None \<in> set (map marshal_member members)"
    by simp
  then show ?thesis
    by (simp add: marshal_object_def sequence_None)
qed

lemma invalid_body_answer:
  assumes "rq_Path r \<noteq> ''/health''" and "rq_Body r = Some body"
    and "body \<noteq> []" and "compact body = None"
  shows "handleRequest L J gw r now url_ok backend registry
         = (HttpText 500 ''Internal server error'', None, gw)"
proof -
  have "marshal_ServiceRequest
          \<lparr>req_ServiceID = gw_serviceID gw, req_Timestamp = now, req_Data = Some body,
           req_Signature = None, req_Headers = first_values (rq_Header r)\<rparr> = None"
    unfolding marshal_ServiceRequest_def
    by (rule marshal_object_None [of "''data''"]) (simp add: assms(4))
  with assms show ?thesis
    by (simp add: handleRequest_def forwardToBackend_def build_signed_request_def Let_def)
qed

section \<open>The bytes the gateway signs and the bytes the backend checks\<close>

lemma verification_payload_signature:
  "verification_payload (r\<lparr>req_Signature := s\<rparr>) = verification_payload r"
  by (simp add: verification_payload_def)

lemma bytes_roundtrip_id: "bytes_roundtrip b = Some b"
  by (cases b) (simp_all add: DecodeString_EncodeToString)

lemma latin1_strings:
  "string_roundtrip ''api-gateway'' = Some ''api-gateway''"
  "string_roundtrip ''X-Name'' = Some ''X-Name''"
  "string_roundtrip [CHR 0xE9] = Some RuneError_utf8"
  by code_simp+

lemma latin1_marshal:
  "marshal_ServiceRequest
      \<lparr>req_ServiceID = ''api-gateway'', req_Timestamp = demo_time, req_Data = Some ''{}'',
       req_Signature = None, req_Headers = [(''X-Name'', [CHR 0xE9])]\<rparr> = Some latin1_payload"
  "marshal_ServiceRequest
      \<lparr>req_ServiceID = ''api-gateway'', req_Timestamp = demo_time, req_Data = Some ''{}'',
       req_Signature = None, req_Headers = [(''X-Name'', RuneError_utf8)]\<rparr> = Some latin1_recomputed"
  by code_simp+

lemma checksum_append:
  "checksum k (p @ x @ s)
     = char_of (of_char k + sum_list (map of_char p) + sum_list (map of_char s)
                + sum_list (map of_char x) :: nat)"
  by (simp add: checksum_def ac_simps)

lemma latin1_tail: "bq ''ufffd`}}'' = ''ufffd'' @ bq ''`}}''"
  by (simp add: bq_def)

lemma latin1_escape_sum:
  "sum_list (map of_char ([bslash] @ ''ufffd'')) = (615 :: nat)"
  "sum_list (map of_char RuneError_utf8) = (619 :: nat)"
  by (simp_all add: bslash_def RuneError_utf8_def)

lemma mod_256_shifted: "(a + 619) mod 256 \<noteq> (a + 615) mod (256::nat)"
proof -
  define r where "r = (a + 615) mod 256"
  have bound: "r < 256"
    by (simp add: r_def)
  have "a + 619 = (a + 615) + 4"
    by simp
  then have "(a + 619) mod 256 = (r + 4) mod 256"
    unfolding r_def by (simp only: mod_add_left_eq)
  moreover have "(r + 4) mod 256 \<noteq> r"
  proof (cases "r + 4 < 256")
    case True
    then show ?thesis by simp
  next
    case False
    then have "(r + 4) mod 256 = (r + 4 - 256) mod 256"
      by (simp add: le_mod_geq)
    also have "\<dots> = r + 4 - 256"
      using bound by (intro mod_less) simp
    finally show ?thesis using False by simp
  qed
  ultimately show ?thesis
    by (simp add: r_def)
qed

lemma char_of_shifted: "char_of (a + 619 :: nat) \<noteq> char_of (a + 615)"
  using mod_256_shifted [of a]
  by (simp only: char_of_eq_iff take_bit_eq_mod) simp
lemma checksum_escape:
  "checksum k (p @ RuneError_utf8 @ s) \<noteq> checksum k (p @ [bslash] @ ''ufffd'' @ s)"
proof -
  have "checksum k (p @ [bslash] @ ''ufffd'' @ s) = checksum k (p @ ([bslash] @ ''ufffd'') @ s)"
    by simp
  also have "\<dots> = char_of (of_char k + sum_list (map of_char p) + sum_list (map of_char s) + 615 :: nat)"
    by (simp only: checksum_append latin1_escape_sum)
  finally have escaped: "checksum k (p @ [bslash] @ ''ufffd'' @ s)
      = char_of (of_char k + sum_list (map of_char p) + sum_list (map of_char s) + 615 :: nat)" .
  have raw: "checksum k (p @ RuneError_utf8 @ s)
      = char_of (of_char k + sum_list (map of_char p) + sum_list (map of_char s) + 619 :: nat)"
    by (simp only: checksum_append latin1_escape_sum)
  show ?thesis
    unfolding escaped raw by (rule char_of_shifted)
qed

lemma latin1_differ:
  "latin1_recomputed \<noteq> latin1_payload"
  "checksum (CHR 0x07) latin1_recomputed \<noteq> checksum (CHR 0x07) latin1_payload"
proof -
  show "checksum (CHR 0x07) latin1_recomputed \<noteq> checksum (CHR 0x07) latin1_payload"
    unfolding latin1_recomputed_def latin1_payload_def latin1_tail
    by (rule checksum_escape)
  then show "latin1_recomputed \<noteq> latin1_payload"
    by (rule contrapos_nn) (erule arg_cong)
qed

lemma latin1_built:
  "build_signed_request test_mode3 demo_gateway latin1_request demo_time
     = Inr (latin1_signed, latin1_payload)"
proof -
  have p: "marshal_ServiceRequest
      \<lparr>req_ServiceID = ''api-gateway'', req_Timestamp = demo_time, req_Data = Some ''{}'',
       req_Signature = None, req_Headers = [(''X-Name'', [CHR 0xE9])]\<rparr> = Some latin1_payload"
    by (rule latin1_marshal)
  show ?thesis
    by (simp add: build_signed_request_def latin1_request_def demo_gateway_def gateway_keys_def p
        Sign_def test_mode3_def write_into_def make_bytes_def latin1_signed_def)
qed

lemma latin1_decoded: "decode_marshalled latin1_signed = Some latin1_received"
  by (simp add: decode_marshalled_def latin1_signed_def latin1_received_def latin1_strings
      marshal_demo_time compact_empty_object bytes_roundtrip_id)

text \<open>
  C5. The gateway forwards a GET whose header \<^verbatim>\<open>X-Name\<close> is the byte 0xE9. It signs
  the payload in which \<^verbatim>\<open>json.Marshal\<close> wrote the byte as the escape \<^verbatim>\<open>ufffd\<close>. The
  backend decodes the escape to the three bytes of U+FFFD, and when it marshals the
  request again these three bytes are copied, not escaped: the bytes it checks the
  signature on are not the bytes that were signed, and \<^verbatim>\<open>verifyRequest\<close> rejects the
  request, with the gateway's own key in the cache.
\<close>

theorem recomputed_payload_differs:
  "build_signed_request test_mode3 demo_gateway latin1_request demo_time
     = Inr (latin1_signed, latin1_payload)
   \<and> decode_marshalled latin1_signed = Some latin1_received
   \<and> verification_payload latin1_received = Some latin1_recomputed
   \<and> latin1_recomputed \<noteq> latin1_payload
   \<and> verifyRequest test_mode3 no_json demo_backend_cached latin1_received
        (\<lambda>serviceID. TransportFailure)
       = (Some (SignatureVerificationFailed InvalidSignature), demo_backend_cached)"
proof -
  have recomputed: "verification_payload latin1_received = Some latin1_recomputed"
    using latin1_marshal(2) by (simp add: verification_payload_def latin1_received_def latin1_signed_def)
  have key: "bs_getServicePublicKey no_json demo_backend_cached ''api-gateway''
      (\<lambda>serviceID. TransportFailure) = (Inr (replicate 1952 (CHR 0x07)), demo_backend_cached)"
    by (simp add: bs_getServicePublicKey_def demo_backend_cached_def)
  have fields: "req_ServiceID latin1_received = ''api-gateway''"
    "slice_bytes (req_Signature latin1_received) = replicate 3293 (checksum (CHR 0x07) latin1_payload)"
    by (simp_all add: latin1_received_def latin1_signed_def slice_bytes_def)
  have rejected: "VerifyDilithiumSignature test_mode3 (replicate 1952 (CHR 0x07)) latin1_recomputed
      (replicate 3293 (checksum (CHR 0x07) latin1_payload)) = Some InvalidSignature"
    using latin1_differ(2)
    by (auto simp: VerifyDilithiumSignature_def test_mode3_def key_byte_replicate)
  have "verifyRequest test_mode3 no_json demo_backend_cached latin1_received
      (\<lambda>serviceID. TransportFailure)
      = (Some (SignatureVerificationFailed InvalidSignature), demo_backend_cached)"
    by (simp add: verifyRequest_def fields key recomputed rejected)
  with latin1_built latin1_decoded recomputed latin1_differ(1) show ?thesis
    by simp
qed

text \<open>For the request without headers the two byte strings are the same.\<close>

lemma demo_roundtrip:
  "decode_marshalled demo_signed = Some demo_signed"
  "verification_payload demo_signed = marshal_ServiceRequest demo_unsigned"
proof -
  have "string_roundtrip ''api-gateway'' = Some ''api-gateway''"
    by (rule latin1_strings)
  then show "decode_marshalled demo_signed = Some demo_signed"
    by (simp add: decode_marshalled_def demo_signed_def demo_unsigned_def marshal_demo_time
        compact_empty_object bytes_roundtrip_id)
  show "verification_payload demo_signed = marshal_ServiceRequest demo_unsigned"
    by (simp add: verification_payload_demo demo_payload_marshal)
qed

end
